theory Spec2Isabelle
  imports Complex_Main
begin

section \<open>Resource nodes (src/entities/resource.py)\<close>

text \<open>
  Python's unbounded integers are \<open>int\<close>. A mutable object becomes a record, and a
  method that mutates it returns the updated record next to its result. Floats are read
  as reals, with the rounding of each operation made explicit where a result depends on
  it (see the section on floating-point arithmetic).
\<close>

datatype ResourceType = TREE | STONE | BERRY_BUSH | IRON_ORE

record Resource =
  resource_type :: ResourceType
  x :: int
  y :: int
  amount_remaining :: int
  max_amount :: int
  gather_time :: real
  provides_resource :: string
  provides_amount :: int
  is_depleted :: bool
  currently_being_gathered :: bool
  assigned_citizen_id :: "int option"
  designated :: bool

text \<open>The dataclass field defaults, for \<open>Resource(resource_type=t, x=px, y=py)\<close>.\<close>

definition Resource_defaults :: "ResourceType \<Rightarrow> int \<Rightarrow> int \<Rightarrow> Resource" where
  "Resource_defaults t px py =
     \<lparr> resource_type = t, x = px, y = py,
       amount_remaining = 100, max_amount = 100, gather_time = 3,
       provides_resource = ''wood'', provides_amount = 10,
       is_depleted = False, currently_being_gathered = False,
       assigned_citizen_id = None, designated = False \<rparr>"

text \<open>\<open>Resource.__post_init__\<close>: the per-type properties overwrite the defaults.\<close>

definition post_init :: "Resource \<Rightarrow> Resource" where
  "post_init r =
     (case resource_type r of
        TREE \<Rightarrow>
          r\<lparr> provides_resource := ''wood'', provides_amount := 4, gather_time := 3,
             max_amount := 4, amount_remaining := 4 \<rparr>
      | STONE \<Rightarrow>
          r\<lparr> provides_resource := ''stone'', provides_amount := 8, gather_time := 5,
             max_amount := 24, amount_remaining := 24 \<rparr>
      | BERRY_BUSH \<Rightarrow>
          r\<lparr> provides_resource := ''food'', provides_amount := 5, gather_time := 2,
             max_amount := 25, amount_remaining := 25 \<rparr>
      | IRON_ORE \<Rightarrow>
          r\<lparr> provides_resource := ''iron'', provides_amount := 5, gather_time := 6,
             max_amount := 60, amount_remaining := 60 \<rparr>)"

definition new_Resource :: "ResourceType \<Rightarrow> int \<Rightarrow> int \<Rightarrow> Resource" where
  "new_Resource t px py = post_init (Resource_defaults t px py)"

text \<open>
  \<open>Resource.gather\<close>: the returned pair is \<open>(resource kind or None, amount)\<close>,
  followed by the node after the call.
\<close>

definition gather :: "Resource \<Rightarrow> (string option \<times> int) \<times> Resource" where
  "gather r =
     (if is_depleted r \<or> amount_remaining r \<le> 0 then
        ((None, 0), r\<lparr> is_depleted := True \<rparr>)
      else
        let gather_amount = min (provides_amount r) (amount_remaining r);
            r1 = r\<lparr> amount_remaining := amount_remaining r - gather_amount \<rparr>;
            r2 = (if amount_remaining r1 \<le> 0 then r1\<lparr> is_depleted := True \<rparr> else r1)
        in ((Some (provides_resource r2), gather_amount), r2))"

definition assign_citizen :: "Resource \<Rightarrow> int \<Rightarrow> Resource" where
  "assign_citizen r citizen_id =
     r\<lparr> currently_being_gathered := True, assigned_citizen_id := Some citizen_id \<rparr>"

definition unassign_citizen :: "Resource \<Rightarrow> Resource" where
  "unassign_citizen r =
     r\<lparr> currently_being_gathered := False, assigned_citizen_id := None \<rparr>"

text \<open>The node after \<open>n\<close> successive \<open>gather()\<close> calls.\<close>

fun gather_times :: "nat \<Rightarrow> Resource \<Rightarrow> Resource" where
  "gather_times 0 r = r"
| "gather_times (Suc n) r = gather_times n (snd (gather r))"

section \<open>Exceptions\<close>

text \<open>
  A Python exception is the left summand of the result; \<open>bind_err\<close> runs the rest of
  a computation on a result and passes an exception on.
\<close>

datatype py_error = IndexError | ValueError | TypeError

definition bind_err :: "py_error + 'a \<Rightarrow> ('a \<Rightarrow> py_error + 'b) \<Rightarrow> py_error + 'b" where
  "bind_err m f = (case m of Inl e \<Rightarrow> Inl e | Inr v \<Rightarrow> f v)"

section \<open>Floating-point arithmetic\<close>

text \<open>
  A Python float is an IEEE double. An arithmetic operation on doubles returns the exact
  result rounded to a double, and a decimal literal denotes the double nearest to it.
  The functions whose result depends on that rounding (biome classification, the climate
  of the world tier, construction progress) take the rounding as their parameter
  \<open>rnd\<close>: it is applied to the exact result of every operation and to the decimal
  literals; it may be left out on a number that is a double already (an integer below
  2^53, 0.5, 1.0). The other functions read floats as reals.
\<close>

type_synonym rounding = "real \<Rightarrow> real"

section \<open>Dictionaries\<close>

text \<open>
  A Python \<open>dict\<close> is an association list in insertion order. \<open>dict_get d k v\<close> is
  \<open>d.get(k, v)\<close>; \<open>dict_set d k v\<close> is \<open>d[k] = v\<close>, which overwrites the entry of an
  existing key in place and appends a new key at the end; \<open>dict_values\<close> is
  \<open>d.values()\<close>.
\<close>

type_synonym ('k, 'v) dict = "('k \<times> 'v) list"

fun dict_get :: "('k, 'v) dict \<Rightarrow> 'k \<Rightarrow> 'v \<Rightarrow> 'v" where
  "dict_get [] k v = v"
| "dict_get ((k', v') # d) k v = (if k' = k then v' else dict_get d k v)"

fun dict_set :: "('k, 'v) dict \<Rightarrow> 'k \<Rightarrow> 'v \<Rightarrow> ('k, 'v) dict" where
  "dict_set [] k v = [(k, v)]"
| "dict_set ((k', v') # d) k v = (if k' = k then (k, v) # d else (k', v') # dict_set d k v)"

fun dict_del :: "('k, 'v) dict \<Rightarrow> 'k \<Rightarrow> ('k, 'v) dict" where
  "dict_del [] k = []"
| "dict_del ((k', v') # d) k = (if k' = k then d else (k', v') # dict_del d k)"

definition dict_has :: "('k, 'v) dict \<Rightarrow> 'k \<Rightarrow> bool" where
  "dict_has d k = (k \<in> set (map fst d))"

definition dict_values :: "('k, 'v) dict \<Rightarrow> 'v list" where
  "dict_values d = map snd d"

section \<open>Buildings (src/entities/building.py)\<close>

datatype BuildingType =
  HOUSE | STORAGE | WAREHOUSE | WORKSHOP | FARM | MINE | LUMBER_CAMP | WELL | MARKET | WAGON

datatype BuildingState = PLANNED | UNDER_CONSTRUCTION | COMPLETE

text \<open>The colour and the description of a definition play no part in the simulation.\<close>

record BuildingDefinition =
  building_type :: BuildingType
  name :: string
  width :: int
  height :: int
  required_resources :: "(string, int) dict"
  construction_work :: real
  max_workers :: int

definition BUILDING_DEFINITIONS :: "BuildingType \<Rightarrow> BuildingDefinition" where
  "BUILDING_DEFINITIONS t =
     (case t of
        HOUSE \<Rightarrow> \<lparr> building_type = HOUSE, name = ''House'', width = 3, height = 3,
          required_resources = [(''wood'', 20), (''stone'', 10)],
          construction_work = 100, max_workers = 0 \<rparr>
      | STORAGE \<Rightarrow> \<lparr> building_type = STORAGE, name = ''Storage'', width = 4, height = 4,
          required_resources = [(''wood'', 30)],
          construction_work = 80, max_workers = 0 \<rparr>
      | WAREHOUSE \<Rightarrow> \<lparr> building_type = WAREHOUSE, name = ''Warehouse'', width = 5, height = 5,
          required_resources = [(''wood'', 50), (''stone'', 30)],
          construction_work = 150, max_workers = 0 \<rparr>
      | WORKSHOP \<Rightarrow> \<lparr> building_type = WORKSHOP, name = ''Workshop'', width = 3, height = 3,
          required_resources = [(''wood'', 25), (''stone'', 15)],
          construction_work = 120, max_workers = 4 \<rparr>
      | FARM \<Rightarrow> \<lparr> building_type = FARM, name = ''Farm'', width = 5, height = 5,
          required_resources = [(''wood'', 10)],
          construction_work = 60, max_workers = 3 \<rparr>
      | MINE \<Rightarrow> \<lparr> building_type = MINE, name = ''Mine'', width = 2, height = 2,
          required_resources = [(''wood'', 15), (''stone'', 5)],
          construction_work = 150, max_workers = 5 \<rparr>
      | LUMBER_CAMP \<Rightarrow> \<lparr> building_type = LUMBER_CAMP, name = ''Lumber Camp'', width = 3, height = 2,
          required_resources = [(''wood'', 15)],
          construction_work = 70, max_workers = 4 \<rparr>
      | WELL \<Rightarrow> \<lparr> building_type = WELL, name = ''Well'', width = 1, height = 1,
          required_resources = [(''stone'', 20)],
          construction_work = 100, max_workers = 0 \<rparr>
      | MARKET \<Rightarrow> \<lparr> building_type = MARKET, name = ''Market'', width = 4, height = 3,
          required_resources = [(''wood'', 40), (''stone'', 20)],
          construction_work = 140, max_workers = 6 \<rparr>
      | WAGON \<Rightarrow> \<lparr> building_type = WAGON, name = ''Wagon Stockpile'', width = 2, height = 2,
          required_resources = [],
          construction_work = 0, max_workers = 0 \<rparr>)"

record Building =
  id_b :: int
  building_type :: BuildingType
  x :: int
  y :: int
  state :: BuildingState
  construction_progress :: real
  materials_delivered :: "(string, int) dict"
  assigned_workers :: "int list"
  auto_employ :: bool
  is_active :: bool
  production_progress :: real

definition new_Building :: "int \<Rightarrow> BuildingType \<Rightarrow> int \<Rightarrow> int \<Rightarrow> Building" where
  "new_Building i t px py =
     \<lparr> id_b = i, building_type = t, x = px, y = py, state = PLANNED,
       construction_progress = 0, materials_delivered = [], assigned_workers = [],
       auto_employ = True, is_active = False, production_progress = 0 \<rparr>"

definition get_definition :: "Building \<Rightarrow> BuildingDefinition" where
  "get_definition b = BUILDING_DEFINITIONS (Building.building_type b)"

text \<open>
  \<open>Building.get_required_materials\<close>: the loop over the definition's
  \<open>required_resources.items()\<close>, building the dictionary \<open>needed\<close>.
\<close>

definition needed_step ::
  "(string, int) dict \<Rightarrow> (string, int) dict \<Rightarrow> string \<times> int \<Rightarrow> (string, int) dict" where
  "needed_step delivered_map needed item =
     (case item of (resource, amount) \<Rightarrow>
        let delivered = dict_get delivered_map resource 0
        in if delivered < amount then dict_set needed resource (amount - delivered)
           else needed)"

definition get_required_materials :: "Building \<Rightarrow> (string, int) dict" where
  "get_required_materials b =
     foldl (needed_step (materials_delivered b)) []
       (required_resources (get_definition b))"

definition has_all_materials :: "Building \<Rightarrow> bool" where
  "has_all_materials b = (length (get_required_materials b) = 0)"

definition deliver_material :: "Building \<Rightarrow> string \<Rightarrow> int \<Rightarrow> Building" where
  "deliver_material b resource_kind amount =
     (let current = dict_get (materials_delivered b) resource_kind 0
      in b\<lparr> materials_delivered :=
              dict_set (materials_delivered b) resource_kind (current + amount) \<rparr>)"

definition can_start_construction :: "Building \<Rightarrow> bool" where
  "can_start_construction b = (Building.state b = PLANNED \<and> has_all_materials b)"

definition add_construction_progress :: "rounding \<Rightarrow> Building \<Rightarrow> real \<Rightarrow> Building" where
  "add_construction_progress rnd b amount =
     (if Building.state b = UNDER_CONSTRUCTION then
        let b1 = b\<lparr> construction_progress := rnd (construction_progress b + amount) \<rparr>
        in if construction_progress b1 \<ge> construction_work (get_definition b1) then
             b1\<lparr> Building.state := COMPLETE,
                 construction_progress := construction_work (get_definition b1),
                 is_active := True \<rparr>
           else b1
      else b)"

definition occupies_tile :: "Building \<Rightarrow> int \<Rightarrow> int \<Rightarrow> bool" where
  "occupies_tile b tile_x tile_y =
     (Building.x b \<le> tile_x \<and> tile_x < Building.x b + width (get_definition b) \<and>
      Building.y b \<le> tile_y \<and> tile_y < Building.y b + height (get_definition b))"

definition get_center :: "Building \<Rightarrow> real \<times> real" where
  "get_center b =
     (real_of_int (Building.x b) + real_of_int (width (get_definition b)) / 2,
      real_of_int (Building.y b) + real_of_int (height (get_definition b)) / 2)"

section \<open>Biomes (src/world/biomes.py)\<close>

datatype BiomeType =
  TEMPERATE_FOREST | GRASSLAND | BOREAL_FOREST | TUNDRA | DESERT | TROPICAL_RAINFOREST
  | ARID_SHRUBLAND | WETLAND

text \<open>The colours and the description of a biome play no part in classification.\<close>

record BiomeProperties =
  min_temperature :: real
  max_temperature :: real
  min_rainfall :: real
  max_rainfall :: real
  tree_density :: real
  rock_density :: real
  fertility :: real

definition get_biome_properties :: "BiomeType \<Rightarrow> BiomeProperties" where
  "get_biome_properties t =
     (case t of
        TEMPERATE_FOREST \<Rightarrow>
          \<lparr> min_temperature = - 2 / 10, max_temperature = 6 / 10,
            min_rainfall = 4 / 10, max_rainfall = 8 / 10,
            tree_density = 4 / 10, rock_density = 1 / 10, fertility = 8 / 10 \<rparr>
      | GRASSLAND \<Rightarrow>
          \<lparr> min_temperature = 0, max_temperature = 7 / 10,
            min_rainfall = 3 / 10, max_rainfall = 6 / 10,
            tree_density = 1 / 10, rock_density = 5 / 100, fertility = 9 / 10 \<rparr>
      | BOREAL_FOREST \<Rightarrow>
          \<lparr> min_temperature = - 6 / 10, max_temperature = 2 / 10,
            min_rainfall = 4 / 10, max_rainfall = 7 / 10,
            tree_density = 5 / 10, rock_density = 15 / 100, fertility = 4 / 10 \<rparr>
      | TUNDRA \<Rightarrow>
          \<lparr> min_temperature = - 8 / 10, max_temperature = - 2 / 10,
            min_rainfall = 2 / 10, max_rainfall = 5 / 10,
            tree_density = 5 / 100, rock_density = 25 / 100, fertility = 2 / 10 \<rparr>
      | DESERT \<Rightarrow>
          \<lparr> min_temperature = 5 / 10, max_temperature = 1,
            min_rainfall = 0, max_rainfall = 2 / 10,
            tree_density = 2 / 100, rock_density = 3 / 10, fertility = 1 / 10 \<rparr>
      | TROPICAL_RAINFOREST \<Rightarrow>
          \<lparr> min_temperature = 6 / 10, max_temperature = 1,
            min_rainfall = 7 / 10, max_rainfall = 1,
            tree_density = 7 / 10, rock_density = 5 / 100, fertility = 7 / 10 \<rparr>
      | ARID_SHRUBLAND \<Rightarrow>
          \<lparr> min_temperature = 3 / 10, max_temperature = 8 / 10,
            min_rainfall = 2 / 10, max_rainfall = 4 / 10,
            tree_density = 15 / 100, rock_density = 2 / 10, fertility = 4 / 10 \<rparr>
      | WETLAND \<Rightarrow>
          \<lparr> min_temperature = - 1 / 10, max_temperature = 5 / 10,
            min_rainfall = 6 / 10, max_rainfall = 1,
            tree_density = 25 / 100, rock_density = 5 / 100, fertility = 6 / 10 \<rparr>)"

text \<open>The keys of \<open>BIOME_DEFINITIONS\<close> in the order the dictionary literal lists them.\<close>

definition BIOME_ORDER :: "BiomeType list" where
  "BIOME_ORDER =
     [TEMPERATE_FOREST, GRASSLAND, BOREAL_FOREST, TUNDRA, DESERT, TROPICAL_RAINFOREST,
      ARID_SHRUBLAND, WETLAND]"

definition BIOME_DEFINITIONS :: "(BiomeType, BiomeProperties) dict" where
  "BIOME_DEFINITIONS = map (\<lambda>t. (t, get_biome_properties t)) BIOME_ORDER"

text \<open>
  \<open>get_biome_from_climate\<close>: one pass over \<open>BIOME_DEFINITIONS.items()\<close>. The running
  \<open>best_score\<close> starts at \<open>float('-inf')\<close>, modelled by \<open>None\<close>, below every score.
  The table above lists the decimal literals of the source; the four range bounds that
  the loop reads are the doubles they denote.
\<close>

definition climate_step ::
  "rounding \<Rightarrow> real \<Rightarrow> real \<Rightarrow> BiomeType \<times> real option \<Rightarrow> BiomeType \<times> BiomeProperties
     \<Rightarrow> BiomeType \<times> real option" where
  "climate_step rnd temperature rainfall best item =
     (case best of (best_biome, best_score) \<Rightarrow>
      case item of (biome_type, properties) \<Rightarrow>
        let temp_match =
              (if temperature < rnd (min_temperature properties)
                 then rnd (1 - rnd (rnd (min_temperature properties) - temperature))
               else if temperature > rnd (max_temperature properties)
                 then rnd (1 - rnd (temperature - rnd (max_temperature properties)))
               else 1);
            rain_match =
              (if rainfall < rnd (min_rainfall properties)
                 then rnd (1 - rnd (rnd (min_rainfall properties) - rainfall))
               else if rainfall > rnd (max_rainfall properties)
                 then rnd (1 - rnd (rainfall - rnd (max_rainfall properties)))
               else 1);
            score = rnd (temp_match * rain_match)
        in if (case best_score of None \<Rightarrow> True | Some s \<Rightarrow> score > s)
             then (biome_type, Some score)
           else (best_biome, best_score))"

definition get_biome_from_climate :: "rounding \<Rightarrow> real \<Rightarrow> real \<Rightarrow> BiomeType" where
  "get_biome_from_climate rnd temperature rainfall =
     fst (foldl (climate_step rnd temperature rainfall) (GRASSLAND, None) BIOME_DEFINITIONS)"

text \<open>
  The score as the specification words it, in double arithmetic: a match factor is 1
  inside the declared range and falls linearly with the distance to the range outside
  it; the score of a biome is the product of its temperature and rainfall factors.
\<close>

definition range_match :: "rounding \<Rightarrow> real \<Rightarrow> real \<Rightarrow> real \<Rightarrow> real" where
  "range_match rnd lo hi v =
     (if lo \<le> v \<and> v \<le> hi then 1
      else if v < lo then rnd (1 - rnd (lo - v))
      else rnd (1 - rnd (v - hi)))"

definition biome_score :: "rounding \<Rightarrow> BiomeType \<Rightarrow> real \<Rightarrow> real \<Rightarrow> real" where
  "biome_score rnd t temperature rainfall =
     rnd (range_match rnd (rnd (min_temperature (get_biome_properties t)))
            (rnd (max_temperature (get_biome_properties t))) temperature
          * range_match rnd (rnd (min_rainfall (get_biome_properties t)))
              (rnd (max_rainfall (get_biome_properties t))) rainfall)"

text \<open>The position of a biome in the definition table.\<close>

fun index_of :: "'a list \<Rightarrow> 'a \<Rightarrow> nat" where
  "index_of [] a = 0"
| "index_of (b # bs) a = (if b = a then 0 else Suc (index_of bs a))"

section \<open>Citizens (src/entities/citizen.py)\<close>

datatype JobType = IDLE | CONSTRUCTION | GATHERING | HAULING | FARMING | CRAFTING

datatype CitizenState = IDLE | WALKING | WORKING | CARRYING

text \<open>
  Buildings and resource nodes are shared mutable objects: a citizen's task, the game's
  building list and the tiles all refer to the same object. They live in a store, and
  a reference is an address in it. \<open>isinstance(task, Building)\<close> is the test for a
  \<open>BuildingRef\<close>, \<open>isinstance(task, Resource)\<close> the test for a \<open>ResourceRef\<close>.
\<close>

datatype TaskRef = BuildingRef nat | ResourceRef nat

text \<open>
  \<open>path_index\<close> starts at 0 and is only ever incremented, so it is a natural number.
  The field \<open>y\<close> is declared a float, but \<open>update\<close> copies \<open>target_y\<close> into it at the
  end of a path, and \<open>target_y\<close> may be \<open>None\<close>; so \<open>y\<close> is optional here. The field
  \<open>x\<close> is only ever assigned a number.
\<close>

record Citizen =
  id_c :: int
  name :: string
  x :: real
  y :: "real option"
  state :: CitizenState
  current_job :: "JobType option"
  target_x :: "real option"
  target_y :: "real option"
  construction_skill :: int
  gathering_skill :: int
  hauling_skill :: int
  can_construct :: bool
  can_gather :: bool
  can_haul :: bool
  carrying_resource :: "string option"
  carrying_amount :: int
  move_speed :: real
  current_task :: "TaskRef option"
  current_path :: "(int \<times> int) list option"
  path_index :: nat

text \<open>
  The constructor \<open>Citizen(id, name, x, y)\<close>; the three skills are drawn at random by
  the field defaults and are arguments here.
\<close>

definition new_Citizen :: "int \<Rightarrow> string \<Rightarrow> real \<Rightarrow> real \<Rightarrow> int \<Rightarrow> int \<Rightarrow> int \<Rightarrow> Citizen" where
  "new_Citizen i n px py cs gs hs =
     \<lparr> id_c = i, name = n, x = px, y = Some py, state = CitizenState.IDLE,
       current_job = None,
       target_x = None, target_y = None,
       construction_skill = cs, gathering_skill = gs, hauling_skill = hs,
       can_construct = True, can_gather = True, can_haul = True,
       carrying_resource = None, carrying_amount = 0, move_speed = 5,
       current_task = None, current_path = None, path_index = 0 \<rparr>"

definition assign_task :: "Citizen \<Rightarrow> TaskRef \<Rightarrow> JobType \<Rightarrow> Citizen" where
  "assign_task c task job_type =
     c\<lparr> current_task := Some task, current_job := Some job_type,
        Citizen.state := WALKING \<rparr>"

definition clear_task :: "Citizen \<Rightarrow> Citizen" where
  "clear_task c =
     c\<lparr> current_task := None, current_job := None, Citizen.state := CitizenState.IDLE,
        target_x := None, target_y := None, current_path := None, path_index := 0 \<rparr>"

definition set_target :: "Citizen \<Rightarrow> real \<Rightarrow> real \<Rightarrow> (int \<times> int) list option \<Rightarrow> Citizen" where
  "set_target c tx ty path =
     c\<lparr> target_x := Some tx, target_y := Some ty, Citizen.state := WALKING,
        current_path := path, path_index := 0 \<rparr>"

text \<open>A float operand of an arithmetic operation: \<open>None\<close> raises \<open>TypeError\<close>.\<close>

definition float_operand :: "real option \<Rightarrow> py_error + real" where
  "float_operand v = (case v of Some r \<Rightarrow> Inr r | None \<Rightarrow> Inl TypeError)"

text \<open>\<open>Citizen.has_reached_target\<close> with its default threshold 0.5.\<close>

definition has_reached_target :: "Citizen \<Rightarrow> py_error + bool" where
  "has_reached_target c =
     (case (target_x c, target_y c) of
        (Some tx, Some ty) \<Rightarrow>
          bind_err (float_operand (Citizen.y c)) (\<lambda>cy.
            Inr (sqrt ((Citizen.x c - tx)\<^sup>2 + (cy - ty)\<^sup>2) < 1 / 2))
      | _ \<Rightarrow> Inr True)"

text \<open>A non-empty path: the truth value of \<open>self.current_path\<close>.\<close>

definition path_truthy :: "(int \<times> int) list option \<Rightarrow> bool" where
  "path_truthy p = (case p of None \<Rightarrow> False | Some ws \<Rightarrow> ws \<noteq> [])"

text \<open>
  \<open>Citizen.update\<close>: one tick of movement. \<open>step_toward\<close> is the move of at most
  \<open>move_speed * delta_time\<close> toward a point that both branches make, from the citizen's
  position \<open>(x, cy)\<close>. Following a path reads \<open>y\<close> but not \<open>target_y\<close>, which it copies
  into \<open>y\<close> at the end of the path; walking straight subtracts \<open>y\<close> from \<open>target_y\<close>.
\<close>

definition step_toward :: "Citizen \<Rightarrow> real \<Rightarrow> real \<Rightarrow> real \<Rightarrow> real \<Rightarrow> Citizen" where
  "step_toward c cy gx gy delta_time =
     (let dx = gx - Citizen.x c; dy = gy - cy;
          distance = sqrt (dx\<^sup>2 + dy\<^sup>2);
          move_dist = move_speed c * delta_time
      in if move_dist \<ge> distance then c\<lparr> Citizen.x := gx, Citizen.y := Some gy \<rparr>
         else c\<lparr> Citizen.x := Citizen.x c + (dx / distance) * move_dist,
                 Citizen.y := Some (cy + (dy / distance) * move_dist) \<rparr>)"

definition follow_path ::
  "Citizen \<Rightarrow> real \<Rightarrow> (int \<times> int) list \<Rightarrow> real \<Rightarrow> py_error + Citizen" where
  "follow_path c tx path delta_time =
     (case path ! path_index c of (wx, wy) \<Rightarrow>
        bind_err (float_operand (Citizen.y c)) (\<lambda>cy.
          let dx = real_of_int wx - Citizen.x c;
              dy = real_of_int wy - cy;
              distance = sqrt (dx\<^sup>2 + dy\<^sup>2)
          in if distance < 3 / 10 then
               let c1 = c\<lparr> path_index := path_index c + 1 \<rparr>
               in if path_index c1 \<ge> length path
                    then Inr (c1\<lparr> Citizen.x := tx, Citizen.y := target_y c \<rparr>)
                  else Inr c1
             else Inr (step_toward c cy (real_of_int wx) (real_of_int wy) delta_time)))"

definition walk_direct :: "Citizen \<Rightarrow> real \<Rightarrow> real \<Rightarrow> py_error + Citizen" where
  "walk_direct c tx delta_time =
     bind_err (float_operand (target_y c)) (\<lambda>ty.
       bind_err (float_operand (Citizen.y c)) (\<lambda>cy.
         let dx = tx - Citizen.x c; dy = ty - cy;
             distance = sqrt (dx\<^sup>2 + dy\<^sup>2)
         in if distance > 1 / 10 then Inr (step_toward c cy tx ty delta_time)
            else Inr (c\<lparr> Citizen.x := tx, Citizen.y := Some ty \<rparr>)))"

definition update_citizen :: "Citizen \<Rightarrow> real \<Rightarrow> py_error + Citizen" where
  "update_citizen c delta_time =
     (case target_x c of
        Some tx \<Rightarrow>
          if Citizen.state c = WALKING then
            let path = (case current_path c of Some ws \<Rightarrow> ws | None \<Rightarrow> [])
            in if path_truthy (current_path c) \<and> path_index c < length path
                 then follow_path c tx path delta_time
               else walk_direct c tx delta_time
          else Inr c
      | None \<Rightarrow> Inr c)"

section \<open>The job manager (src/systems/job_manager.py) and the stockpile (src/core/game_state.py)\<close>

text \<open>
  \<open>GameState.update\<close> hands its own \<open>buildings\<close> list, \<open>resources\<close> dictionary and
  \<open>resource_nodes\<close> list to \<open>JobManager.update\<close>, and its bound method
  \<open>can_add_resources\<close> as the capacity check, so the job manager and the capacity
  check read and write the same objects. The record below holds them together with the
  store of building and resource objects and the job manager's own gather timers.
\<close>

record World =
  building_store :: "nat \<Rightarrow> Building"
  resource_store :: "nat \<Rightarrow> Resource"
  buildings :: "nat list"
  resource_nodes :: "nat list option"
  resources :: "(string, int) dict"
  citizen_gather_time :: "(int, real) dict"
  max_storage_capacity :: int
  storage_capacity_per_warehouse :: int

definition get_total_storage_capacity :: "World \<Rightarrow> int" where
  "get_total_storage_capacity w =
     (let warehouse_count =
            int (length (filter (\<lambda>a. Building.building_type (building_store w a) = WAREHOUSE
                                      \<and> Building.state (building_store w a) = COMPLETE)
                           (buildings w)))
      in max_storage_capacity w + warehouse_count * storage_capacity_per_warehouse w)"

definition get_current_storage_used :: "World \<Rightarrow> int" where
  "get_current_storage_used w = sum_list (dict_values (resources w))"

definition get_storage_remaining :: "World \<Rightarrow> int" where
  "get_storage_remaining w = get_total_storage_capacity w - get_current_storage_used w"

definition can_add_resources :: "World \<Rightarrow> int \<Rightarrow> bool" where
  "can_add_resources w amount = (get_storage_remaining w \<ge> amount)"

text \<open>
  The pathfinder is an attribute of the job manager; it is a parameter here, called
  with start, goal, the tiles and the building objects.
\<close>

type_synonym 't pathfinder =
  "int \<Rightarrow> int \<Rightarrow> int \<Rightarrow> int \<Rightarrow> 't \<Rightarrow> Building list \<Rightarrow> (int \<times> int) list option"

text \<open>Python's \<open>int(x)\<close> on a float truncates toward zero.\<close>

definition py_int :: "real \<Rightarrow> int" where
  "py_int v = (if v \<ge> 0 then \<lfloor>v\<rfloor> else \<lceil>v\<rceil>)"

definition get_stockpile_location :: "World \<Rightarrow> real \<times> real" where
  "get_stockpile_location w =
     (case find (\<lambda>a. Building.building_type (building_store w a) = WAGON) (buildings w) of
        Some a \<Rightarrow> get_center (building_store w a)
      | None \<Rightarrow> (5, 5))"

definition move_citizen_to ::
  "'t pathfinder \<Rightarrow> 't \<Rightarrow> World \<Rightarrow> Citizen \<Rightarrow> real \<Rightarrow> real \<Rightarrow> py_error + Citizen" where
  "move_citizen_to pf tiles w c tx ty =
     (if \<not> path_truthy (current_path c) \<or> target_x c \<noteq> Some tx \<or> target_y c \<noteq> Some ty then
        bind_err (float_operand (Citizen.y c)) (\<lambda>cy.
          let start_x = py_int (Citizen.x c); start_y = py_int cy;
              goal_x = py_int tx; goal_y = py_int ty;
              path = pf start_x start_y goal_x goal_y tiles
                       (map (building_store w) (buildings w))
          in Inr (set_target c tx ty path))
      else Inr c)"

text \<open>
  \<open>_update_hauling\<close>. The pick-up loop takes the first still-needed kind that the
  stockpile holds and breaks.
\<close>

definition update_hauling ::
  "'t pathfinder \<Rightarrow> 't \<Rightarrow> real \<Rightarrow> Citizen \<times> World \<Rightarrow> py_error + Citizen \<times> World" where
  "update_hauling pf tiles delta_time cw =
     (case cw of (c, w) \<Rightarrow>
      (case current_task c of
        Some (BuildingRef a) \<Rightarrow>
          let building = building_store w a in
          (case carrying_resource c of
             None \<Rightarrow>
               (case get_stockpile_location w of (stockpile_x, stockpile_y) \<Rightarrow>
                  bind_err (has_reached_target c) (\<lambda>reached.
                    if \<not> reached then
                      bind_err (move_citizen_to pf tiles w c stockpile_x stockpile_y)
                        (\<lambda>c1. Inr (c1, w))
                    else
                      (case find (\<lambda>(resource_kind, needed_amount).
                                     dict_get (resources w) resource_kind 0 > 0)
                              (get_required_materials building) of
                         None \<Rightarrow> Inr (c, w)
                       | Some (resource_kind, needed_amount) \<Rightarrow>
                           let amount_to_take =
                                 min (min 5 (dict_get (resources w) resource_kind 0))
                                   needed_amount
                           in Inr (c\<lparr> carrying_resource := Some resource_kind,
                                       carrying_amount := amount_to_take,
                                       Citizen.state := CARRYING \<rparr>,
                                   w\<lparr> resources :=
                                        dict_set (resources w) resource_kind
                                          (dict_get (resources w) resource_kind 0
                                             - amount_to_take) \<rparr>))))
           | Some carried \<Rightarrow>
               (case get_center building of (building_x, building_y) \<Rightarrow>
                  bind_err (has_reached_target c) (\<lambda>reached.
                    if \<not> reached then
                      bind_err (move_citizen_to pf tiles w c building_x building_y)
                        (\<lambda>c1. Inr (c1, w))
                    else
                      let building1 = deliver_material building carried (carrying_amount c);
                          w1 = w\<lparr> building_store := (building_store w)(a := building1) \<rparr>;
                          c1 = c\<lparr> carrying_resource := None, carrying_amount := 0 \<rparr>
                      in if get_required_materials building1 = [] then Inr (clear_task c1, w1)
                         else Inr (c1, w1))))
      | _ \<Rightarrow> Inr (clear_task c, w)))"

text \<open>
  \<open>_update_construction\<close>. The work of one tick is
  \<open>10.0 * (1.0 + construction_skill / 20.0) * delta_time\<close>.
\<close>

definition construction_work_done :: "rounding \<Rightarrow> int \<Rightarrow> real \<Rightarrow> real" where
  "construction_work_done rnd skill delta_time =
     (let skill_multiplier = rnd (1 + rnd (real_of_int skill / 20))
      in rnd (rnd (10 * skill_multiplier) * delta_time))"

definition update_construction ::
  "rounding \<Rightarrow> 't \<Rightarrow> real \<Rightarrow> Citizen \<times> World \<Rightarrow> py_error + Citizen \<times> World" where
  "update_construction rnd tiles delta_time cw =
     (case cw of (c, w) \<Rightarrow>
      (case current_task c of
        Some (BuildingRef a) \<Rightarrow>
          let building = building_store w a;
              building1 =
                (if Building.state building = PLANNED \<and> has_all_materials building
                   then building\<lparr> Building.state := UNDER_CONSTRUCTION \<rparr>
                 else building);
              w1 = w\<lparr> building_store := (building_store w)(a := building1) \<rparr>
          in if Building.state building1 = UNDER_CONSTRUCTION then
               (case get_center building1 of (building_x, building_y) \<Rightarrow>
                  bind_err (has_reached_target c) (\<lambda>reached.
                    if \<not> reached then
                      Inr (set_target c building_x building_y None, w1)
                    else
                      let c1 = c\<lparr> Citizen.state := WORKING \<rparr>;
                          work_done =
                            construction_work_done rnd (construction_skill c1) delta_time;
                          building2 = add_construction_progress rnd building1 work_done;
                          w2 = w\<lparr> building_store := (building_store w)(a := building2) \<rparr>
                      in if Building.state building2 = COMPLETE then Inr (clear_task c1, w2)
                         else Inr (c1, w2)))
             else if Building.state building1 = COMPLETE then Inr (clear_task c, w1)
             else Inr (c, w1)
      | _ \<Rightarrow> Inr (clear_task c, w)))"

text \<open>
  \<open>_update_gathering\<close>. \<open>storage_capacity_check\<close> is the optional callable stored by
  \<open>JobManager.update\<close>; it is applied to the world as it is at the moment of the call.
\<close>

definition update_gathering ::
  "'t pathfinder \<Rightarrow> 't \<Rightarrow> (World \<Rightarrow> int \<Rightarrow> bool) option \<Rightarrow> real
     \<Rightarrow> Citizen \<times> World \<Rightarrow> py_error + Citizen \<times> World" where
  "update_gathering pf tiles storage_capacity_check delta_time cw =
     (case cw of (c, w) \<Rightarrow>
      (case current_task c of
        Some (ResourceRef a) \<Rightarrow>
          let resource_node = resource_store w a in
          (case carrying_resource c of
             None \<Rightarrow>
               bind_err (move_citizen_to pf tiles w c
                           (real_of_int (Resource.x resource_node))
                           (real_of_int (Resource.y resource_node))) (\<lambda>c1.
               bind_err (has_reached_target c1) (\<lambda>reached.
                 if reached then
                   let c2 = c1\<lparr> Citizen.state := WORKING \<rparr>;
                       timers0 = (if \<not> dict_has (citizen_gather_time w) (id_c c2)
                                    then dict_set (citizen_gather_time w) (id_c c2) 0
                                  else citizen_gather_time w);
                       timers1 = dict_set timers0 (id_c c2)
                                   (dict_get timers0 (id_c c2) 0 + delta_time)
                   in if dict_get timers1 (id_c c2) 0 \<ge> 5 then
                        (case gather resource_node of ((resource_kind, amount), node1) \<Rightarrow>
                           let node2 = unassign_citizen node1;
                               w1 = w\<lparr> resource_store := (resource_store w)(a := node2),
                                       citizen_gather_time := dict_del timers1 (id_c c2) \<rparr>
                           in (case resource_kind of
                                 Some k \<Rightarrow>
                                   if k \<noteq> [] \<and> amount > 0 then
                                     Inr (c2\<lparr> carrying_resource := Some k,
                                              carrying_amount := amount,
                                              Citizen.state := CARRYING,
                                              target_x := None, target_y := None \<rparr>, w1)
                                   else Inr (clear_task c2, w1)
                               | None \<Rightarrow> Inr (clear_task c2, w1)))
                      else Inr (c2, w\<lparr> citizen_gather_time := timers1 \<rparr>)
                 else Inr (c1, w)))
           | Some carried \<Rightarrow>
               (case get_stockpile_location w of (stockpile_x, stockpile_y) \<Rightarrow>
                  bind_err (move_citizen_to pf tiles w c stockpile_x stockpile_y) (\<lambda>c1.
                  bind_err (has_reached_target c1) (\<lambda>reached.
                    if reached then
                      let can_deposit =
                            (case storage_capacity_check of
                               None \<Rightarrow> True
                             | Some check \<Rightarrow> check w (carrying_amount c1))
                      in if can_deposit then
                           let w1 = w\<lparr> resources :=
                                         dict_set (resources w) carried
                                           (dict_get (resources w) carried 0
                                              + carrying_amount c1) \<rparr>
                           in Inr (clear_task (c1\<lparr> carrying_resource := None,
                                                    carrying_amount := 0 \<rparr>), w1)
                         else
                           Inr (clear_task (c1\<lparr> carrying_resource := None,
                                                 carrying_amount := 0 \<rparr>), w)
                    else Inr (c1, w)))))
      | _ \<Rightarrow> Inr (clear_task c, w)))"

text \<open>
  Python's \<open>min(xs, key=f)\<close> on a non-empty list: the first element with the least key.
\<close>

fun min_by :: "('a \<Rightarrow> real) \<Rightarrow> 'a \<Rightarrow> 'a list \<Rightarrow> 'a" where
  "min_by key best [] = best"
| "min_by key best (a # as) = min_by key (if key a < key best then a else best) as"

definition find_material_hauling_task :: "Citizen \<Rightarrow> World \<Rightarrow> nat option" where
  "find_material_hauling_task c w =
     (if \<not> can_haul c then None
      else find (\<lambda>a. Building.state (building_store w a) = PLANNED \<and>
                      list_ex (\<lambda>(resource_kind, needed_amount).
                                 dict_get (resources w) resource_kind 0 > 0)
                        (get_required_materials (building_store w a)))
             (buildings w))"

text \<open>
  The two searches by distance evaluate the key, which subtracts from \<open>citizen.y\<close>, once
  there is a candidate.
\<close>

definition find_construction_task :: "Citizen \<Rightarrow> World \<Rightarrow> py_error + nat option" where
  "find_construction_task c w =
     (if \<not> can_construct c then Inr None
      else
        case filter (\<lambda>a. can_start_construction (building_store w a) \<or>
                         Building.state (building_store w a) = UNDER_CONSTRUCTION)
               (buildings w) of
          [] \<Rightarrow> Inr None
        | a # as \<Rightarrow>
            bind_err (float_operand (Citizen.y c)) (\<lambda>cy.
              Inr (Some (min_by
                (\<lambda>a. (Citizen.x c - real_of_int (Building.x (building_store w a)))\<^sup>2
                      + (cy - real_of_int (Building.y (building_store w a)))\<^sup>2)
                a as))))"

definition find_gathering_task :: "Citizen \<Rightarrow> World \<Rightarrow> py_error + nat option \<times> World" where
  "find_gathering_task c w =
     (if \<not> can_gather c then Inr (None, w)
      else
        case resource_nodes w of
          None \<Rightarrow> Inr (None, w)
        | Some nodes \<Rightarrow>
            (case filter (\<lambda>a. designated (resource_store w a) \<and>
                              \<not> is_depleted (resource_store w a) \<and>
                              \<not> currently_being_gathered (resource_store w a))
                    nodes of
               [] \<Rightarrow> Inr (None, w)
             | a # as \<Rightarrow>
                 bind_err (float_operand (Citizen.y c)) (\<lambda>cy.
                   let nearest =
                         min_by
                           (\<lambda>a. (Citizen.x c - real_of_int (Resource.x (resource_store w a)))\<^sup>2
                                 + (cy - real_of_int (Resource.y (resource_store w a)))\<^sup>2)
                           a as
                   in Inr (Some nearest,
                           w\<lparr> resource_store :=
                                (resource_store w)
                                  (nearest := assign_citizen (resource_store w nearest)
                                                (id_c c)) \<rparr>))))"

definition assign_work :: "Citizen \<times> World \<Rightarrow> py_error + Citizen \<times> World" where
  "assign_work cw =
     (case cw of (c, w) \<Rightarrow>
      (case find_material_hauling_task c w of
        Some a \<Rightarrow> Inr (assign_task c (BuildingRef a) HAULING, w)
      | None \<Rightarrow>
          bind_err (find_construction_task c w) (\<lambda>construction_task.
            case construction_task of
              Some a \<Rightarrow> Inr (assign_task c (BuildingRef a) CONSTRUCTION, w)
            | None \<Rightarrow>
                bind_err (find_gathering_task c w) (\<lambda>found.
                  case found of
                    (Some a, w1) \<Rightarrow> Inr (assign_task c (ResourceRef a) GATHERING, w1)
                  | (None, w1) \<Rightarrow> Inr (c, w1)))))"

definition update_citizen_task ::
  "rounding \<Rightarrow> 't pathfinder \<Rightarrow> 't \<Rightarrow> (World \<Rightarrow> int \<Rightarrow> bool) option \<Rightarrow> real
     \<Rightarrow> Citizen \<times> World \<Rightarrow> py_error + Citizen \<times> World" where
  "update_citizen_task rnd pf tiles storage_capacity_check delta_time cw =
     (case current_job (fst cw) of
        Some HAULING \<Rightarrow> update_hauling pf tiles delta_time cw
      | Some CONSTRUCTION \<Rightarrow> update_construction rnd tiles delta_time cw
      | Some GATHERING \<Rightarrow> update_gathering pf tiles storage_capacity_check delta_time cw
      | _ \<Rightarrow> Inr cw)"

text \<open>One pass of the loop body of \<open>JobManager.update\<close> for one citizen.\<close>

definition update_one ::
  "rounding \<Rightarrow> 't pathfinder \<Rightarrow> 't \<Rightarrow> (World \<Rightarrow> int \<Rightarrow> bool) option \<Rightarrow> real
     \<Rightarrow> Citizen \<times> World \<Rightarrow> py_error + Citizen \<times> World" where
  "update_one rnd pf tiles storage_capacity_check delta_time cw =
     (case cw of (c, w) \<Rightarrow>
        bind_err (update_citizen c delta_time) (\<lambda>c1.
          if Citizen.state c1 = CitizenState.IDLE \<and> current_task c1 = None
            then assign_work (c1, w)
          else if current_task c1 \<noteq> None
            then update_citizen_task rnd pf tiles storage_capacity_check delta_time (c1, w)
          else Inr (c1, w)))"

text \<open>
  \<open>JobManager.update\<close>: the citizens in registry order, each on the world the
  previous ones left.
\<close>

fun update_all ::
  "rounding \<Rightarrow> 't pathfinder \<Rightarrow> 't \<Rightarrow> (World \<Rightarrow> int \<Rightarrow> bool) option \<Rightarrow> real
     \<Rightarrow> Citizen list \<Rightarrow> World \<Rightarrow> py_error + Citizen list \<times> World" where
  "update_all rnd pf tiles check delta_time [] w = Inr ([], w)"
| "update_all rnd pf tiles check delta_time (c # cs) w =
     bind_err (update_one rnd pf tiles check delta_time (c, w)) (\<lambda>(c1, w1).
       bind_err (update_all rnd pf tiles check delta_time cs w1) (\<lambda>(cs1, w2).
         Inr (c1 # cs1, w2)))"

text \<open>\<open>n\<close> ticks of \<open>GameState.update\<close> with the capacity check the game state supplies.\<close>

fun ticks ::
  "rounding \<Rightarrow> 't pathfinder \<Rightarrow> 't \<Rightarrow> real \<Rightarrow> nat \<Rightarrow> Citizen list \<times> World
     \<Rightarrow> py_error + Citizen list \<times> World" where
  "ticks rnd pf tiles delta_time 0 cw = Inr cw"
| "ticks rnd pf tiles delta_time (Suc n) cw =
     bind_err (update_all rnd pf tiles (Some can_add_resources) delta_time (fst cw) (snd cw))
       (ticks rnd pf tiles delta_time n)"

section \<open>Terrain tiles (src/world/terrain.py)\<close>

datatype TerrainType = GRASS | WATER | SAND | FOREST | STONE | DIRT

text \<open>
  A tile refers to its building by address and holds its resource node; the list of
  decorations is only drawn.
\<close>

record Tile =
  x :: int
  y :: int
  terrain_type :: TerrainType
  building :: "nat option"
  resource :: "Resource option"
  variation :: int
  micro_variation :: int

definition new_Tile :: "int \<Rightarrow> int \<Rightarrow> TerrainType \<Rightarrow> Tile" where
  "new_Tile px py t =
     \<lparr> x = px, y = py, terrain_type = t, building = None, resource = None,
       variation = (px * 7 + py * 13) mod 3, micro_variation = (px * 3 + py * 5) mod 5 \<rparr>"

text \<open>
  Python list indexing \<open>xs[i]\<close>: a negative index counts from the end, and an index
  out of range raises \<open>IndexError\<close>.
\<close>

definition py_index :: "'a list \<Rightarrow> int \<Rightarrow> py_error + 'a" where
  "py_index xs i =
     (if 0 \<le> i \<and> i < int (length xs) then Inr (xs ! nat i)
      else if i < 0 \<and> - int (length xs) \<le> i then Inr (xs ! nat (int (length xs) + i))
      else Inl IndexError)"

text \<open>\<open>tiles[y][x]\<close>.\<close>

definition tile_at :: "Tile list list \<Rightarrow> int \<Rightarrow> int \<Rightarrow> py_error + Tile" where
  "tile_at tiles px py = bind_err (py_index tiles py) (\<lambda>row. py_index row px)"

section \<open>A* pathfinding (src/systems/pathfinding.py)\<close>

text \<open>A search node; \<open>parent\<close> is the node it was reached from.\<close>

datatype Node =
  Node (f_cost: real) (g_cost: real) (h_cost: real) (node_x: int) (node_y: int)
    (parent: "Node option")

definition heuristic :: "int \<Rightarrow> int \<Rightarrow> int \<Rightarrow> int \<Rightarrow> real" where
  "heuristic x1 y1 x2 y2 = sqrt (real_of_int ((x2 - x1)\<^sup>2 + (y2 - y1)\<^sup>2))"

definition is_walkable ::
  "int \<Rightarrow> int \<Rightarrow> Tile list list \<Rightarrow> (int \<times> int) set \<Rightarrow> py_error + bool" where
  "is_walkable px py tiles building_obstacles =
     (if (px, py) \<in> building_obstacles then Inr False
      else bind_err (tile_at tiles px py) (\<lambda>tile.
             if terrain_type tile = WATER then Inr False else Inr True))"

text \<open>
  \<open>_reconstruct_path\<close>: the positions from the node back along the parents, reversed.
\<close>

fun back_positions :: "Node \<Rightarrow> (int \<times> int) list" where
  "back_positions (Node f g h px py None) = [(px, py)]"
| "back_positions (Node f g h px py (Some p)) = (px, py) # back_positions p"

definition reconstruct_path :: "Node \<Rightarrow> (int \<times> int) list" where
  "reconstruct_path node = rev (back_positions node)"

text \<open>
  The footprint loops of \<open>find_path\<close>: the in-bounds tiles of every building's
  rectangle are added to the obstacle set.
\<close>

definition add_footprint ::
  "int \<Rightarrow> int \<Rightarrow> (int \<times> int) set \<Rightarrow> Building \<Rightarrow> (int \<times> int) set" where
  "add_footprint w h obstacles b =
     fold (\<lambda>by obs.
             fold (\<lambda>bx obs'. if 0 \<le> bx \<and> bx < w \<and> 0 \<le> by \<and> by < h
                               then insert (bx, by) obs' else obs')
               [Building.x b ..  Building.x b + width (get_definition b) - 1] obs)
       [Building.y b .. Building.y b + height (get_definition b) - 1] obstacles"

definition building_obstacle_map ::
  "int \<Rightarrow> int \<Rightarrow> Building list option \<Rightarrow> (int \<times> int) set" where
  "building_obstacle_map w h building_list =
     (case building_list of
        None \<Rightarrow> {}
      | Some bs \<Rightarrow> fold (\<lambda>b obs. add_footprint w h obs b) bs {})"

definition DIRECTIONS :: "(int \<times> int) list" where
  "DIRECTIONS = [(-1, 0), (1, 0), (0, -1), (0, 1), (-1, -1), (-1, 1), (1, -1), (1, 1)]"

text \<open>
  The open list is a \<open>heapq\<close> heap of nodes ordered by their floating-point \<open>f_cost\<close>.
  \<open>heapq\<close> is Python's library, and the order in which it returns nodes of equal or
  rounded cost is not fixed by this program, so the two heap operations are parameters:
  \<open>heappush heap node\<close> is the heap after the push, \<open>heappop heap\<close> the popped node
  and the heap after the pop.
\<close>

type_synonym heappush = "Node list \<Rightarrow> Node \<Rightarrow> Node list"
type_synonym heappop = "Node list \<Rightarrow> Node \<times> Node list"

text \<open>The loop over the eight neighbours of \<open>current\<close>.\<close>

fun expand_neighbors ::
  "heappush \<Rightarrow> int \<Rightarrow> int \<Rightarrow> int \<Rightarrow> int \<Rightarrow> Tile list list \<Rightarrow> (int \<times> int) set
     \<Rightarrow> (int \<times> int) set \<Rightarrow> Node \<Rightarrow> (int \<times> int) list \<Rightarrow> Node list
     \<Rightarrow> py_error + Node list" where
  "expand_neighbors push w h goal_x goal_y tiles obstacles closed_set current [] open_list =
     Inr open_list"
| "expand_neighbors push w h goal_x goal_y tiles obstacles closed_set current
     ((dx, dy) # rest) open_list =
     (let nx = node_x current + dx; ny = node_y current + dy
      in if \<not> (0 \<le> nx \<and> nx < w \<and> 0 \<le> ny \<and> ny < h) then
           expand_neighbors push w h goal_x goal_y tiles obstacles closed_set current rest
             open_list
         else if (nx, ny) \<in> closed_set then
           expand_neighbors push w h goal_x goal_y tiles obstacles closed_set current rest
             open_list
         else
           bind_err (is_walkable nx ny tiles obstacles) (\<lambda>walkable.
             if \<not> walkable then
               expand_neighbors push w h goal_x goal_y tiles obstacles closed_set current rest
                 open_list
             else
               let move_cost = (if dx \<noteq> 0 \<and> dy \<noteq> 0 then 1414 / 1000 else 1);
                   g = g_cost current + move_cost;
                   hc = heuristic nx ny goal_x goal_y;
                   f = g + hc;
                   neighbor = Node f g hc nx ny (Some current)
               in expand_neighbors push w h goal_x goal_y tiles obstacles closed_set current
                    rest (push open_list neighbor)))"

text \<open>
  The main loop \<open>while open_list and iterations < max_iterations\<close>; the first argument
  counts the iterations that remain.
\<close>

fun astar_loop ::
  "nat \<Rightarrow> heappush \<Rightarrow> heappop \<Rightarrow> int \<Rightarrow> int \<Rightarrow> int \<Rightarrow> int \<Rightarrow> Tile list list
     \<Rightarrow> (int \<times> int) set \<Rightarrow> Node list \<Rightarrow> (int \<times> int) set
     \<Rightarrow> py_error + (int \<times> int) list option" where
  "astar_loop 0 push pop w h goal_x goal_y tiles obstacles open_list closed_set = Inr None"
| "astar_loop (Suc n) push pop w h goal_x goal_y tiles obstacles open_list closed_set =
     (if open_list = [] then Inr None
      else
        case pop open_list of (current, open1) \<Rightarrow>
          if node_x current = goal_x \<and> node_y current = goal_y then
            Inr (Some (reconstruct_path current))
          else
            let closed1 = insert (node_x current, node_y current) closed_set
            in bind_err
                 (expand_neighbors push w h goal_x goal_y tiles obstacles closed1 current
                    DIRECTIONS open1)
                 (\<lambda>open2. astar_loop n push pop w h goal_x goal_y tiles obstacles open2 closed1))"

text \<open>
  \<open>Pathfinder.find_path\<close>. The result is \<open>Inr None\<close> for Python's \<open>None\<close>,
  \<open>Inr (Some path)\<close> for a path, and \<open>Inl\<close> for an exception.
\<close>

definition find_path ::
  "heappush \<Rightarrow> heappop \<Rightarrow> int \<Rightarrow> int \<Rightarrow> int \<Rightarrow> int \<Rightarrow> Tile list list
     \<Rightarrow> Building list option \<Rightarrow> int \<Rightarrow> py_error + (int \<times> int) list option" where
  "find_path push pop start_x start_y goal_x goal_y tiles building_list max_iterations =
     (if tiles = [] \<or> length (hd tiles) = 0 then Inr None
      else
        let h = int (length tiles); w = int (length (hd tiles))
        in if \<not> (0 \<le> start_x \<and> start_x < w \<and> 0 \<le> start_y \<and> start_y < h) then Inr None
           else if \<not> (0 \<le> goal_x \<and> goal_x < w \<and> 0 \<le> goal_y \<and> goal_y < h) then Inr None
           else if start_x = goal_x \<and> start_y = goal_y then Inr (Some [(start_x, start_y)])
           else
             let building_obstacles = building_obstacle_map w h building_list - {(goal_x, goal_y)};
                 hs = heuristic start_x start_y goal_x goal_y;
                 start_node = Node (0 + hs) 0 hs start_x start_y None
             in astar_loop (nat max_iterations) push pop w h goal_x goal_y tiles
                  building_obstacles (push [] start_node) {})"

text \<open>
  A reference heap discipline for running the search on examples: push appends, pop
  removes the first node of least \<open>f_cost\<close>.
\<close>

definition heappush_ref :: heappush where
  "heappush_ref heap node = heap @ [node]"

definition heappop_ref :: heappop where
  "heappop_ref heap =
     (let m = min_by f_cost (hd heap) (tl heap) in (m, remove1 m heap))"

section \<open>The tiered world generator (src/world/world_generator_advanced.py)\<close>

text \<open>
  The module-global generator of Python's \<open>random\<close> is a state threaded through the
  functions that draw from it: the stream of the uniform draws in [0, 1) still to come.
  \<open>random.random()\<close> takes the next draw; \<open>random.randint(a, b)\<close> raises
  \<open>ValueError\<close> on an empty range and otherwise scales the next draw to \<open>a..b\<close>.
\<close>

type_synonym rng = "nat \<Rightarrow> real"

definition random_random :: "rng \<Rightarrow> real \<times> rng" where
  "random_random r = (r 0, \<lambda>i. r (Suc i))"

definition random_randint :: "int \<Rightarrow> int \<Rightarrow> rng \<Rightarrow> py_error + int \<times> rng" where
  "random_randint a b r =
     (if b < a then Inl ValueError
      else Inr (a + \<lfloor>r 0 * real_of_int (b - a + 1)\<rfloor>, \<lambda>i. r (Suc i)))"

text \<open>
  \<open>OpenSimplex(seed).noise2\<close> is a library function of the seed and the coordinates; it
  is the parameter \<open>simplex\<close> of the functions below. The generator object holds the
  seed, from which its four noise objects are made.
\<close>

type_synonym noise = "int \<Rightarrow> real \<Rightarrow> real \<Rightarrow> real"

record TieredWorldGenerator =
  seed :: int

definition elevation_noise :: "noise \<Rightarrow> TieredWorldGenerator \<Rightarrow> real \<Rightarrow> real \<Rightarrow> real" where
  "elevation_noise simplex g = simplex (seed g)"

definition temperature_noise :: "noise \<Rightarrow> TieredWorldGenerator \<Rightarrow> real \<Rightarrow> real \<Rightarrow> real" where
  "temperature_noise simplex g = simplex (seed g + 1)"

definition rainfall_noise :: "noise \<Rightarrow> TieredWorldGenerator \<Rightarrow> real \<Rightarrow> real \<Rightarrow> real" where
  "rainfall_noise simplex g = simplex (seed g + 2)"

definition detail_noise :: "noise \<Rightarrow> TieredWorldGenerator \<Rightarrow> real \<Rightarrow> real \<Rightarrow> real" where
  "detail_noise simplex g = simplex (seed g + 3)"

text \<open>
  \<open>TieredWorldGenerator.__init__\<close>: a missing seed is drawn, and \<open>random.seed\<close> then
  replaces the state of the global generator by the one the seed determines (the
  parameter \<open>seeded\<close>).
\<close>

definition new_generator ::
  "(int \<Rightarrow> rng) \<Rightarrow> int option \<Rightarrow> rng \<Rightarrow> TieredWorldGenerator \<times> rng" where
  "new_generator seeded given r =
     (let s = (case given of
                 Some v \<Rightarrow> v
               | None \<Rightarrow> \<lfloor>r 0 * real_of_int (999999 - 0 + 1)\<rfloor>)
      in (\<lparr> seed = s \<rparr>, seeded s))"

record WorldTile =
  x :: int
  y :: int
  elevation :: real
  temperature :: real
  rainfall :: real
  biome :: BiomeType

record RegionTile =
  x :: int
  y :: int
  elevation :: real
  moisture :: real
  biome :: BiomeType
  terrain_type :: TerrainType

definition clamp01 :: "real \<Rightarrow> real" where
  "clamp01 v = max 0 (min 1 v)"

text \<open>
  A noise sample of the world tier, \<open>noise2(x * scale, y * scale) * weight\<close>, in double
  arithmetic; \<open>x\<close> and \<open>y\<close> are integers.
\<close>

definition octave ::
  "rounding \<Rightarrow> (real \<Rightarrow> real \<Rightarrow> real) \<Rightarrow> int \<Rightarrow> int \<Rightarrow> real \<Rightarrow> real \<Rightarrow> real" where
  "octave rnd noise2 px py scale weight =
     rnd (noise2 (rnd (real_of_int px * rnd scale)) (rnd (real_of_int py * rnd scale))
          * rnd weight)"

definition generate_elevation ::
  "rounding \<Rightarrow> noise \<Rightarrow> TieredWorldGenerator \<Rightarrow> int \<Rightarrow> int \<Rightarrow> int \<Rightarrow> int \<Rightarrow> real" where
  "generate_elevation rnd simplex g px py w h =
     (let e = rnd (rnd (rnd (octave rnd (elevation_noise simplex g) px py (2 / 100) (5 / 10)
                             + octave rnd (elevation_noise simplex g) px py (4 / 100) (25 / 100))
                        + octave rnd (elevation_noise simplex g) px py (8 / 100) (15 / 100))
                   + octave rnd (elevation_noise simplex g) px py (16 / 100) (1 / 10));
          e1 = rnd (rnd (e + 1) / 2)
      in clamp01 e1)"

definition generate_rainfall ::
  "rounding \<Rightarrow> noise \<Rightarrow> TieredWorldGenerator \<Rightarrow> int \<Rightarrow> int \<Rightarrow> real \<Rightarrow> real" where
  "generate_rainfall rnd simplex g px py elev =
     (let r = rnd (octave rnd (rainfall_noise simplex g) px py (3 / 100) (6 / 10)
                   + octave rnd (rainfall_noise simplex g) px py (6 / 100) (4 / 10));
          r1 = rnd (rnd (r + 1) / 2);
          r2 = (if elev > rnd (7 / 10) then rnd (r1 * rnd (12 / 10)) else r1)
      in clamp01 r2)"

text \<open>The body of the two loops of \<open>generate_world_map\<close> for the cell \<open>(px, py)\<close>.\<close>

definition world_tile_at ::
  "rounding \<Rightarrow> noise \<Rightarrow> TieredWorldGenerator \<Rightarrow> int \<Rightarrow> int \<Rightarrow> int \<Rightarrow> int \<Rightarrow> WorldTile" where
  "world_tile_at rnd simplex g w h px py =
     (let elev = generate_elevation rnd simplex g px py w h;
          latitude_factor = rnd (\<bar>rnd (rnd (real_of_int py / real_of_int h) - 1 / 2)\<bar> * 2);
          base_temp = rnd (1 - latitude_factor);
          temp_noise = temperature_noise simplex g (rnd (real_of_int px * rnd (2 / 100)))
                         (rnd (real_of_int py * rnd (2 / 100)));
          temp0 = rnd (rnd (rnd (rnd (base_temp * rnd (7 / 10)) + rnd (temp_noise * rnd (3 / 10)))
                            * 2) - 1);
          temp1 = rnd (temp0 - rnd (elev * (1 / 2)));
          rain = generate_rainfall rnd simplex g px py elev;
          b = get_biome_from_climate rnd temp1 rain
      in \<lparr> WorldTile.x = px, WorldTile.y = py, WorldTile.elevation = elev,
           temperature = temp1, rainfall = rain, WorldTile.biome = b \<rparr>)"

text \<open>
  \<open>generate_world_map\<close>, with the state of the global random generator before and
  after the call. \<open>range(n)\<close> is \<open>[0..n - 1]\<close>.
\<close>

definition generate_world_map ::
  "rounding \<Rightarrow> noise \<Rightarrow> TieredWorldGenerator \<Rightarrow> int \<Rightarrow> int \<Rightarrow> rng
     \<Rightarrow> WorldTile list list \<times> rng" where
  "generate_world_map rnd simplex g w h r =
     (map (\<lambda>py. map (\<lambda>px. world_tile_at rnd simplex g w h px py) [0..w - 1]) [0..h - 1], r)"

definition generate_local_elevation ::
  "noise \<Rightarrow> TieredWorldGenerator \<Rightarrow> int \<Rightarrow> int \<Rightarrow> int \<Rightarrow> int \<Rightarrow> real \<Rightarrow> real" where
  "generate_local_elevation simplex g px py offset_x offset_y avg_elevation =
     (let n = detail_noise simplex g (real_of_int (px + offset_x) * (15 / 100))
                (real_of_int (py + offset_y) * (15 / 100)) * (5 / 10)
            + detail_noise simplex g (real_of_int (px + offset_x) * (3 / 10))
                (real_of_int (py + offset_y) * (3 / 10)) * (3 / 10)
            + detail_noise simplex g (real_of_int (px + offset_x) * (6 / 10))
                (real_of_int (py + offset_y) * (6 / 10)) * (2 / 10);
          n1 = (n + 1) / 2;
          e = avg_elevation * (5 / 10) + n1 * (5 / 10)
      in clamp01 e)"

definition generate_local_moisture ::
  "noise \<Rightarrow> TieredWorldGenerator \<Rightarrow> int \<Rightarrow> int \<Rightarrow> int \<Rightarrow> int \<Rightarrow> real \<Rightarrow> real" where
  "generate_local_moisture simplex g px py offset_x offset_y avg_moisture =
     (let n = rainfall_noise simplex g (real_of_int (px + offset_x) * (2 / 10))
                (real_of_int (py + offset_y) * (2 / 10));
          n1 = (n + 1) / 2;
          m = avg_moisture * (4 / 10) + n1 * (6 / 10)
      in clamp01 m)"

text \<open>
  \<open>_get_terrain_from_biome\<close>: the random draw is made only when the moisture test
  holds (\<open>and\<close> short-circuits).
\<close>

definition get_terrain_from_biome ::
  "BiomeProperties \<Rightarrow> real \<Rightarrow> real \<Rightarrow> rng \<Rightarrow> TerrainType \<times> rng" where
  "get_terrain_from_biome biome_props elev moist r =
     (if elev < 25 / 100 then (WATER, r)
      else if elev < 30 / 100 then (SAND, r)
      else if elev > 75 / 100 then (TerrainType.STONE, r)
      else if elev > 65 / 100 then (DIRT, r)
      else if moist > 6 / 10 then
        (case random_random r of (u, r1) \<Rightarrow>
           if u < tree_density biome_props then (FOREST, r1) else (GRASS, r1))
      else (GRASS, r))"

text \<open>Loops that thread a state and stop at the first exception.\<close>

fun for_each :: "('a \<Rightarrow> 's \<Rightarrow> py_error + 's) \<Rightarrow> 'a list \<Rightarrow> 's \<Rightarrow> py_error + 's" where
  "for_each body [] s = Inr s"
| "for_each body (a # as) s = bind_err (body a s) (for_each body as)"

text \<open>\<open>tiles[y][x].terrain_type = t\<close>, with Python's indexing.\<close>

definition py_pos :: "'a list \<Rightarrow> int \<Rightarrow> nat" where
  "py_pos xs i = nat (if i < 0 then int (length xs) + i else i)"

definition set_terrain ::
  "Tile list list \<Rightarrow> int \<Rightarrow> int \<Rightarrow> TerrainType \<Rightarrow> py_error + Tile list list" where
  "set_terrain tiles px py t =
     bind_err (py_index tiles py) (\<lambda>row.
       bind_err (py_index row px) (\<lambda>tile.
         Inr (tiles[py_pos tiles py := row[py_pos row px := tile\<lparr> Tile.terrain_type := t \<rparr>]])))"

definition grid_height :: "'a list list \<Rightarrow> int" where
  "grid_height tiles = int (length tiles)"

definition grid_width :: "'a list list \<Rightarrow> int" where
  "grid_width tiles = (if grid_height tiles > 0 then int (length (hd tiles)) else 0)"

text \<open>\<open>_ensure_local_playability\<close>: the two border loops, then the centre block.\<close>

definition water_to_grass :: "int \<Rightarrow> int \<Rightarrow> Tile list list \<Rightarrow> py_error + Tile list list" where
  "water_to_grass px py tiles =
     bind_err (tile_at tiles px py) (\<lambda>tile.
       if Tile.terrain_type tile = WATER then set_terrain tiles px py GRASS else Inr tiles)"

definition make_buildable :: "int \<Rightarrow> int \<Rightarrow> Tile list list \<Rightarrow> py_error + Tile list list" where
  "make_buildable px py tiles =
     bind_err (tile_at tiles px py) (\<lambda>tile.
       if Tile.terrain_type tile \<notin> set [GRASS, DIRT] then set_terrain tiles px py GRASS
       else Inr tiles)"

definition border_column_fix :: "int \<Rightarrow> int \<Rightarrow> Tile list list \<Rightarrow> py_error + Tile list list" where
  "border_column_fix h px tiles =
     bind_err (water_to_grass px 0 tiles) (water_to_grass px (h - 1))"

definition border_row_fix :: "int \<Rightarrow> int \<Rightarrow> Tile list list \<Rightarrow> py_error + Tile list list" where
  "border_row_fix w py tiles =
     bind_err (water_to_grass 0 py tiles) (water_to_grass (w - 1) py)"

definition center_cell ::
  "int \<Rightarrow> int \<Rightarrow> int \<Rightarrow> int \<Rightarrow> int \<Rightarrow> int \<Rightarrow> Tile list list \<Rightarrow> py_error + Tile list list" where
  "center_cell w h center_x center_y dy dx tiles =
     (let px = center_x + dx; py = center_y + dy
      in if 0 \<le> px \<and> px < w \<and> 0 \<le> py \<and> py < h then make_buildable px py tiles
         else Inr tiles)"

definition ensure_local_playability :: "Tile list list \<Rightarrow> py_error + Tile list list" where
  "ensure_local_playability local_tiles =
     (let h = grid_height local_tiles; w = grid_width local_tiles
      in bind_err (for_each (border_column_fix h) [0..w - 1] local_tiles) (\<lambda>tiles1.
           bind_err (for_each (border_row_fix w) [0..h - 1] tiles1) (\<lambda>tiles2.
             let center_x = w div 2; center_y = h div 2
             in for_each (\<lambda>dy. for_each (center_cell w h center_x center_y dy) [-5..5])
                  [-5..5] tiles2)))"

text \<open>\<open>_add_forests\<close>: the state of the loops is the grid and the random generator.\<close>

definition forest_cell ::
  "int \<Rightarrow> int \<Rightarrow> int \<Rightarrow> int \<Rightarrow> int \<Rightarrow> int \<Rightarrow> int \<Rightarrow> Tile list list \<times> rng
     \<Rightarrow> py_error + Tile list list \<times> rng" where
  "forest_cell w h center_x center_y radius dy dx s =
     (case s of (tiles, r) \<Rightarrow>
        let nx = center_x + dx; ny = center_y + dy
        in if 0 \<le> nx \<and> nx < w \<and> 0 \<le> ny \<and> ny < h then
             let distance = sqrt (real_of_int (dx * dx + dy * dy))
             in if distance \<le> real_of_int radius then
                  (case random_random r of (u, r1) \<Rightarrow>
                     if u > 3 / 10 then
                       bind_err (tile_at tiles nx ny) (\<lambda>tile.
                         if Tile.terrain_type tile = GRASS
                           then bind_err (set_terrain tiles nx ny FOREST) (\<lambda>tiles1. Inr (tiles1, r1))
                         else Inr (tiles, r1))
                     else Inr (tiles, r1))
                else Inr (tiles, r)
           else Inr (tiles, r))"

definition forest_seed ::
  "int \<Rightarrow> int \<Rightarrow> real \<Rightarrow> Tile list list \<times> rng \<Rightarrow> py_error + Tile list list \<times> rng" where
  "forest_seed w h density s =
     (case s of (tiles, r) \<Rightarrow>
        bind_err (random_randint 0 (w - 1) r) (\<lambda>(center_x, r1).
          bind_err (random_randint 0 (h - 1) r1) (\<lambda>(center_y, r2).
            bind_err (tile_at tiles center_x center_y) (\<lambda>tile.
              if Tile.terrain_type tile = GRASS then
                bind_err (random_randint 3 (max 3 (py_int (8 * density))) r2) (\<lambda>(radius, r3).
                  for_each (\<lambda>dy. for_each (forest_cell w h center_x center_y radius dy)
                                    [- radius..radius])
                    [- radius..radius] (tiles, r3))
              else Inr (tiles, r2)))))"

definition add_forests ::
  "Tile list list \<Rightarrow> real \<Rightarrow> rng \<Rightarrow> py_error + Tile list list \<times> rng" where
  "add_forests tiles density r =
     (if density < 5 / 100 then Inr (tiles, r)
      else
        let h = grid_height tiles; w = grid_width tiles;
            num_forests = py_int (20 * density)
        in for_each (\<lambda>i. forest_seed w h density) [0..num_forests - 1] (tiles, r))"

text \<open>\<open>_smooth_terrain\<close>: the tests read the copy \<open>original\<close> of the terrain types.\<close>

definition terrain_at :: "TerrainType list list \<Rightarrow> int \<Rightarrow> int \<Rightarrow> py_error + TerrainType" where
  "terrain_at original px py = bind_err (py_index original py) (\<lambda>row. py_index row px)"

definition smooth_cell ::
  "TerrainType list list \<Rightarrow> int \<Rightarrow> int \<Rightarrow> Tile list list \<Rightarrow> py_error + Tile list list" where
  "smooth_cell original py px tiles =
     bind_err (terrain_at original px py) (\<lambda>t.
       if t = WATER then
         bind_err (terrain_at original px (py - 1)) (\<lambda>n1.
         bind_err (terrain_at original px (py + 1)) (\<lambda>n2.
         bind_err (terrain_at original (px - 1) py) (\<lambda>n3.
         bind_err (terrain_at original (px + 1) py) (\<lambda>n4.
           if list_all (\<lambda>n. n \<noteq> WATER) [n1, n2, n3, n4]
             then set_terrain tiles px py GRASS
           else Inr tiles))))
       else Inr tiles)"

definition smooth_terrain :: "Tile list list \<Rightarrow> py_error + Tile list list" where
  "smooth_terrain tiles =
     (let h = grid_height tiles; w = grid_width tiles;
          original = map (map Tile.terrain_type) tiles
      in for_each (\<lambda>py. for_each (smooth_cell original py) [1..w - 1 - 1]) [1..h - 1 - 1] tiles)"

text \<open>\<open>_place_resource_nodes\<close>.\<close>

definition set_resource ::
  "Tile list list \<Rightarrow> int \<Rightarrow> int \<Rightarrow> Resource \<Rightarrow> py_error + Tile list list" where
  "set_resource tiles px py node =
     bind_err (py_index tiles py) (\<lambda>row.
       bind_err (py_index row px) (\<lambda>tile.
         Inr (tiles[py_pos tiles py := row[py_pos row px := tile\<lparr> resource := Some node \<rparr>]])))"

definition place_cell ::
  "int \<Rightarrow> int \<Rightarrow> Tile list list \<times> rng \<Rightarrow> py_error + Tile list list \<times> rng" where
  "place_cell py px s =
     (case s of (tiles, r) \<Rightarrow>
        bind_err (tile_at tiles px py) (\<lambda>tile.
          if Tile.terrain_type tile = FOREST then
            bind_err (set_resource tiles px py (new_Resource TREE px py))
              (\<lambda>tiles1. Inr (tiles1, r))
          else if Tile.terrain_type tile \<in> set [GRASS, DIRT] then
            (case random_random r of (random_value, r1) \<Rightarrow>
               if random_value < 3 / 100 then
                 bind_err (set_resource tiles px py (new_Resource ResourceType.STONE px py))
                   (\<lambda>tiles1. Inr (tiles1, r1))
               else if random_value < 8 / 100 then
                 bind_err (set_resource tiles px py (new_Resource BERRY_BUSH px py))
                   (\<lambda>tiles1. Inr (tiles1, r1))
               else Inr (tiles, r1))
          else Inr (tiles, r)))"

definition place_resource_nodes ::
  "Tile list list \<Rightarrow> rng \<Rightarrow> py_error + Tile list list \<times> rng" where
  "place_resource_nodes tiles r =
     (let h = grid_height tiles; w = grid_width tiles
      in for_each (\<lambda>py. for_each (place_cell py) [0..w - 1]) [0..h - 1] (tiles, r))"

definition generate_fallback_map :: "int \<Rightarrow> int \<Rightarrow> Tile list list" where
  "generate_fallback_map w h = map (\<lambda>py. map (\<lambda>px. new_Tile px py GRASS) [0..w - 1]) [0..h - 1]"

text \<open>
  The reference chunk of \<open>generate_local_map\<close>: coordinates beyond the region are
  clamped to its last row and column.
\<close>

definition chunk_cell ::
  "RegionTile list list \<Rightarrow> int \<Rightarrow> int \<Rightarrow> int \<Rightarrow> int \<Rightarrow> RegionTile list
     \<Rightarrow> py_error + RegionTile list" where
  "chunk_cell region_tiles chunk_x chunk_y cy cx chunk_tiles =
     (let region_height = grid_height region_tiles;
          region_width = grid_width region_tiles;
          rx = min (chunk_x + cx) (region_width - 1);
          ry = min (chunk_y + cy) (region_height - 1)
      in if 0 \<le> ry \<and> ry < region_height \<and> 0 \<le> rx \<and> rx < region_width then
           bind_err (py_index region_tiles ry) (\<lambda>row.
             bind_err (py_index row rx) (\<lambda>t. Inr (chunk_tiles @ [t])))
         else Inr chunk_tiles)"

text \<open>
  \<open>max(set(biomes), key=count)\<close>: the biome that occurs most often in the chunk. When
  several biomes occur equally often, the answer depends on the iteration order of a
  Python set, which the program does not fix; the parameter \<open>tie_break\<close> stands for
  it and is consulted only then.
\<close>

definition primary_biome_of ::
  "(BiomeType list \<Rightarrow> BiomeType) \<Rightarrow> RegionTile list \<Rightarrow> BiomeType" where
  "primary_biome_of tie_break chunk_tiles =
     (let biomes = map RegionTile.biome chunk_tiles;
          count = (\<lambda>b. length (filter (\<lambda>b'. b' = b) biomes));
          best = filter (\<lambda>b. list_all (\<lambda>b'. count b' \<le> count b) biomes) (remdups biomes)
      in case best of [b] \<Rightarrow> b | _ \<Rightarrow> tie_break best)"

text \<open>The two loops that create the local tiles, drawing terrain cell by cell.\<close>

definition local_cell ::
  "noise \<Rightarrow> TieredWorldGenerator \<Rightarrow> BiomeProperties \<Rightarrow> int \<Rightarrow> int \<Rightarrow> real \<Rightarrow> real \<Rightarrow> int
     \<Rightarrow> int \<Rightarrow> Tile list \<times> rng \<Rightarrow> py_error + Tile list \<times> rng" where
  "local_cell simplex g biome_props offset_x offset_y avg_elevation avg_moisture py px s =
     (case s of (row, r) \<Rightarrow>
        let elev = generate_local_elevation simplex g px py offset_x offset_y avg_elevation;
            moist = generate_local_moisture simplex g px py offset_x offset_y avg_moisture
        in case get_terrain_from_biome biome_props elev moist r of
             (t, r1) \<Rightarrow> Inr (row @ [new_Tile px py t], r1))"

definition local_row ::
  "noise \<Rightarrow> TieredWorldGenerator \<Rightarrow> BiomeProperties \<Rightarrow> int \<Rightarrow> int \<Rightarrow> real \<Rightarrow> real \<Rightarrow> int
     \<Rightarrow> int \<Rightarrow> Tile list list \<times> rng \<Rightarrow> py_error + Tile list list \<times> rng" where
  "local_row simplex g biome_props offset_x offset_y avg_elevation avg_moisture local_width py s =
     (case s of (rows, r) \<Rightarrow>
        bind_err
          (for_each (local_cell simplex g biome_props offset_x offset_y avg_elevation
                       avg_moisture py)
             [0..local_width - 1] ([], r))
          (\<lambda>(row, r1). Inr (rows @ [row], r1)))"

text \<open>\<open>generate_local_map\<close>.\<close>

definition generate_local_map ::
  "noise \<Rightarrow> (BiomeType list \<Rightarrow> BiomeType) \<Rightarrow> TieredWorldGenerator \<Rightarrow> RegionTile list list
     \<Rightarrow> int \<Rightarrow> int \<Rightarrow> int \<Rightarrow> int \<Rightarrow> int \<Rightarrow> int \<Rightarrow> rng
     \<Rightarrow> py_error + Tile list list \<times> rng" where
  "generate_local_map simplex tie_break g region_tiles chunk_x chunk_y chunk_width chunk_height
     local_width local_height r =
     bind_err
       (for_each (\<lambda>cy. for_each (chunk_cell region_tiles chunk_x chunk_y cy)
                          [0..chunk_width - 1])
          [0..chunk_height - 1] [])
       (\<lambda>chunk_tiles.
          if chunk_tiles = [] then Inr (generate_fallback_map local_width local_height, r)
          else
            let avg_elevation = sum_list (map RegionTile.elevation chunk_tiles)
                                  / real (length chunk_tiles);
                avg_moisture = sum_list (map moisture chunk_tiles) / real (length chunk_tiles);
                primary_biome = primary_biome_of tie_break chunk_tiles;
                biome_props = get_biome_properties primary_biome;
                offset_x = chunk_x * 1000;
                offset_y = chunk_y * 1000
            in bind_err
                 (for_each (local_row simplex g biome_props offset_x offset_y avg_elevation
                              avg_moisture local_width)
                    [0..local_height - 1] ([], r))
                 (\<lambda>(local_tiles, r1).
                    bind_err (ensure_local_playability local_tiles) (\<lambda>tiles1.
                      bind_err (add_forests tiles1 (tree_density biome_props) r1)
                        (\<lambda>(tiles2, r2).
                           bind_err (smooth_terrain tiles2) (\<lambda>tiles3.
                             place_resource_nodes tiles3 r2)))))"

section \<open>Auxiliary definitions for the statements\<close>

text \<open>
  What \<open>get_required_materials\<close> reports, read off the required kinds alone: the
  shortfall of each required kind that is short, in the order of the definition.
\<close>

fun needed_items :: "(string, int) dict \<Rightarrow> (string, int) dict \<Rightarrow> (string, int) dict" where
  "needed_items delivered_map [] = []"
| "needed_items delivered_map ((rk, amt) # req) =
     (if dict_get delivered_map rk 0 < amt
        then (rk, amt - dict_get delivered_map rk 0) # needed_items delivered_map req
      else needed_items delivered_map req)"

text \<open>A planned house at (10, 10) with all its wood and half of its stone delivered.\<close>

definition house_example :: Building where
  "house_example = (new_Building 1 HOUSE 10 10)\<lparr> materials_delivered := [(''wood'', 20), (''stone'', 5)] \<rparr>"

text \<open>
  A sequence of gathering updates, each by some citizen with some time step, under the
  capacity check of the game state. An update that raises does so in
  \<open>_move_citizen_to\<close> or \<open>has_reached_target\<close>, before it has written to the world, which
  is then as it was.
\<close>

fun deposit_attempts ::
  "'t pathfinder \<Rightarrow> 't \<Rightarrow> (Citizen \<times> real) list \<Rightarrow> World \<Rightarrow> World" where
  "deposit_attempts pf tiles [] w = w"
| "deposit_attempts pf tiles ((c, delta_time) # rest) w =
     deposit_attempts pf tiles rest
       (case update_gathering pf tiles (Some can_add_resources) delta_time (c, w) of
          Inr (c1, w1) \<Rightarrow> w1
        | Inl e \<Rightarrow> w)"

text \<open>
  The two orderings of claim C6 between a building before and after a step that adds
  \<open>amount\<close> of work: leaving Planned needs all materials, and becoming Complete needs
  the progress before the step plus the work of the step to reach the construction work
  of the definition (the progress after the step is then set to that work).
\<close>

definition construction_order_ok :: "rounding \<Rightarrow> real \<Rightarrow> Building \<Rightarrow> Building \<Rightarrow> bool" where
  "construction_order_ok rnd amount b b' =
     ((Building.state b = PLANNED \<and> Building.state b' \<noteq> PLANNED \<longrightarrow> has_all_materials b) \<and>
      (Building.state b \<noteq> COMPLETE \<and> Building.state b' = COMPLETE \<longrightarrow>
         construction_work (get_definition b)
           \<le> rnd (construction_progress b + amount) \<and>
         \<not> construction_progress b' < construction_work (get_definition b')))"

text \<open>Within the arrival threshold 0.5 of a building's centre.\<close>

definition near_center :: "Citizen \<Rightarrow> Building \<Rightarrow> bool" where
  "near_center c b =
     (case Citizen.y c of
        Some cy \<Rightarrow>
          sqrt ((Citizen.x c - fst (get_center b))\<^sup>2 + (cy - snd (get_center b))\<^sup>2) < 1 / 2
      | None \<Rightarrow> False)"

text \<open>
  A game with one planned house at (10, 10), no wagon, the starting stockpile, and one
  idle citizen at (30, 30); then the same game after the second and after the third tick.
\<close>

definition hauling_world :: World where
  "hauling_world =
     \<lparr> building_store = (\<lambda>_. new_Building 1 HOUSE 10 10),
       resource_store = (\<lambda>_. new_Resource TREE 0 0),
       buildings = [0],
       resource_nodes = Some [],
       resources = [(''wood'', 100), (''stone'', 50), (''food'', 100)],
       citizen_gather_time = [],
       max_storage_capacity = 500,
       storage_capacity_per_warehouse = 2000 \<rparr>"

definition hauling_citizen :: Citizen where
  "hauling_citizen = new_Citizen 1 ''Bran'' 30 30 5 5 5"

definition hauling_citizen2 :: Citizen where
  "hauling_citizen2 = (assign_task hauling_citizen (BuildingRef 0) HAULING)\<lparr> carrying_resource := Some ''wood'', carrying_amount := 5, Citizen.state := CARRYING \<rparr>"
definition hauling_world2 :: World where
  "hauling_world2 = hauling_world \<lparr> resources := [(''wood'', 95), (''stone'', 50), (''food'', 100)] \<rparr>"

definition hauling_world3 :: World where
  "hauling_world3 = hauling_world2 \<lparr> building_store := (\<lambda>_. new_Building 1 HOUSE 10 10)(0 := (new_Building 1 HOUSE 10 10)\<lparr> materials_delivered := [(''wood'', 5)] \<rparr>) \<rparr>"

text \<open>
  A planned house with all materials delivered, and a citizen of construction skill 0
  assigned to build it.
\<close>

definition construction_world :: World where
  "construction_world =
     \<lparr> building_store =
         (\<lambda>_. (new_Building 1 HOUSE 10 10)
                 \<lparr> materials_delivered := [(''wood'', 20), (''stone'', 10)] \<rparr>),
       resource_store = (\<lambda>_. new_Resource TREE 0 0),
       buildings = [0],
       resource_nodes = Some [],
       resources = [(''wood'', 80), (''stone'', 40), (''food'', 100)],
       citizen_gather_time = [],
       max_storage_capacity = 500,
       storage_capacity_per_warehouse = 2000 \<rparr>"

definition construction_citizen :: Citizen where
  "construction_citizen =
     (assign_task (new_Citizen 1 ''Bran'' 11 11 0 5 5) (BuildingRef 0) CONSTRUCTION)
       \<lparr> Citizen.state := WORKING \<rparr>"

text \<open>
  A stockpile holding exactly the base capacity of 500, and a gatherer standing at the
  stockpile location (5, 5) with 10 wood.
\<close>

definition storage_world :: World where
  "storage_world =
     \<lparr> building_store = (\<lambda>_. new_Building 1 HOUSE 10 10),
       resource_store = (\<lambda>_. new_Resource TREE 20 20),
       buildings = [],
       resource_nodes = Some [0],
       resources = [(''wood'', 250), (''stone'', 150), (''food'', 100)],
       citizen_gather_time = [],
       max_storage_capacity = 500,
       storage_capacity_per_warehouse = 2000 \<rparr>"

definition storage_citizen :: Citizen where
  "storage_citizen =
     (new_Citizen 1 ''Bran'' 5 5 5 5 5)
       \<lparr> current_task := Some (ResourceRef 0), current_job := Some GATHERING,
         Citizen.state := CARRYING, carrying_resource := Some ''wood'', carrying_amount := 10,
         target_x := Some 5, target_y := Some 5, current_path := Some [(5, 5)] \<rparr>"

text \<open>
  What the search needs of a heap: a push adds nothing but the pushed node, and a pop
  of a non-empty heap returns one of its nodes and leaves nodes that were in it.
\<close>

definition heap_discipline :: "heappush \<Rightarrow> heappop \<Rightarrow> bool" where
  "heap_discipline push pop =
     ((\<forall>heap node. set (push heap node) \<subseteq> insert node (set heap)) \<and>
      (\<forall>heap. heap \<noteq> [] \<longrightarrow>
         fst (pop heap) \<in> set heap \<and> set (snd (pop heap)) \<subseteq> set heap))"

text \<open>
  The three conditions of claim C3 on a waypoint: inside the grid (whose width is that of
  the first row), on a tile that exists and is not Water, on the footprint of a building.
\<close>

definition in_bounds :: "Tile list list \<Rightarrow> int \<times> int \<Rightarrow> bool" where
  "in_bounds tiles p =
     (0 \<le> fst p \<and> fst p < int (length (hd tiles)) \<and> 0 \<le> snd p \<and> snd p < int (length tiles))"

definition non_water :: "Tile list list \<Rightarrow> int \<times> int \<Rightarrow> bool" where
  "non_water tiles p =
     (case tile_at tiles (fst p) (snd p) of
        Inr t \<Rightarrow> Tile.terrain_type t \<noteq> WATER
      | Inl e \<Rightarrow> False)"

definition on_footprint :: "Building list option \<Rightarrow> int \<times> int \<Rightarrow> bool" where
  "on_footprint building_list p =
     (case building_list of
        None \<Rightarrow> False
      | Some bs \<Rightarrow> list_ex (\<lambda>b. occupies_tile b (fst p) (snd p)) bs)"

text \<open>
  The invariant of the search: a position that passed the neighbour checks, and a node
  whose chain of parents ends at the start and otherwise holds only such positions.
\<close>

definition good_pos ::
  "int \<Rightarrow> int \<Rightarrow> Tile list list \<Rightarrow> (int \<times> int) set \<Rightarrow> int \<times> int \<Rightarrow> bool" where
  "good_pos w h tiles obstacles p =
     (0 \<le> fst p \<and> fst p < w \<and> 0 \<le> snd p \<and> snd p < h \<and> p \<notin> obstacles \<and> non_water tiles p)"

definition node_ok ::
  "int \<Rightarrow> int \<Rightarrow> Tile list list \<Rightarrow> (int \<times> int) set \<Rightarrow> int \<times> int \<Rightarrow> Node \<Rightarrow> bool" where
  "node_ok w h tiles obstacles start n =
     (last (back_positions n) = start \<and>
      (\<forall>p \<in> set (butlast (back_positions n)). good_pos w h tiles obstacles p))"

text \<open>
  Two one-row maps for the examples: Water then Grass with a well on the first tile, and
  Grass then Grass with a well on the second tile.
\<close>

definition strip_tiles :: "Tile list list" where
  "strip_tiles = [[new_Tile 0 0 WATER, new_Tile 1 0 GRASS]]"

definition strip_buildings :: "Building list option" where
  "strip_buildings = Some [new_Building 1 WELL 0 0]"

definition lane_tiles :: "Tile list list" where
  "lane_tiles = [[new_Tile 0 0 GRASS, new_Tile 1 0 GRASS]]"

definition lane_buildings :: "Building list option" where
  "lane_buildings = Some [new_Building 1 WELL 1 0]"

text \<open>A random stream whose every draw is 0.5.\<close>

definition half_stream :: rng where
  "half_stream = (\<lambda>i. 1 / 2)"

text \<open>A region of a single low-lying tile of temperate forest.\<close>

definition marsh_region :: "RegionTile list list" where
  "marsh_region =
     [[\<lparr> RegionTile.x = 0, RegionTile.y = 0, RegionTile.elevation = 0, moisture = 1 / 2,
         RegionTile.biome = TEMPERATE_FOREST, RegionTile.terrain_type = WATER \<rparr>]]"

text \<open>
  The centre guarantee of claim C1: every in-bounds tile of the 11 by 11 block around
  the map centre is Grass or Dirt.
\<close>

definition center_block_buildable :: "Tile list list \<Rightarrow> bool" where
  "center_block_buildable tiles =
     (let h = grid_height tiles; w = grid_width tiles;
          center_x = w div 2; center_y = h div 2
      in list_all (\<lambda>dy. list_all (\<lambda>dx.
           let px = center_x + dx; py = center_y + dy
           in if 0 \<le> px \<and> px < w \<and> 0 \<le> py \<and> py < h then
                (case tile_at tiles px py of
                   Inr t \<Rightarrow> Tile.terrain_type t \<in> set [GRASS, DIRT]
                 | Inl e \<Rightarrow> False)
              else True) [-5..5]) [-5..5])"

text \<open>
  Grids for the statements about the local tier: a grid of \<open>h\<close> rows of \<open>w\<close> cells each,
  and the terrain of the cell \<open>(px, py)\<close>, read as \<open>tiles[py][px].terrain_type\<close>.
\<close>

definition rect :: "int \<Rightarrow> int \<Rightarrow> 'a list list \<Rightarrow> bool" where
  "rect w h g = (int (length g) = h \<and> list_all (\<lambda>row. int (length row) = w) g)"

definition terrain_of :: "Tile list list \<Rightarrow> int \<Rightarrow> int \<Rightarrow> TerrainType" where
  "terrain_of g px py = Tile.terrain_type (g ! nat py ! nat px)"

text \<open>
  What the loops of the forest pass keep when every draw is 0.5: the grid stays
  rectangular, the stream is unchanged, and the centre cell is Grass or Forest; and what
  they establish: the centre cell is Forest.
\<close>

definition forest_inv :: "int \<Rightarrow> int \<Rightarrow> Tile list list \<times> rng \<Rightarrow> bool" where
  "forest_inv w h s =
     (rect w h (fst s) \<and> snd s = half_stream \<and>
      (terrain_of (fst s) (w div 2) (h div 2) = GRASS \<or>
       terrain_of (fst s) (w div 2) (h div 2) = FOREST))"

definition center_forest :: "int \<Rightarrow> int \<Rightarrow> Tile list list \<times> rng \<Rightarrow> bool" where
  "center_forest w h s = (terrain_of (fst s) (w div 2) (h div 2) = FOREST)"

text \<open>What the loops of the resource pass keep: the same, with the centre cell Forest.\<close>

definition placed_inv :: "int \<Rightarrow> int \<Rightarrow> Tile list list \<times> rng \<Rightarrow> bool" where
  "placed_inv w h s =
     (rect w h (fst s) \<and> snd s = half_stream \<and>
      terrain_of (fst s) (w div 2) (h div 2) = FOREST)"

text \<open>A generated row: \<open>w\<close> cells, none of them Dirt.\<close>

definition plain_row :: "int \<Rightarrow> Tile list \<Rightarrow> bool" where
  "plain_row w row = (int (length row) = w \<and> list_all (\<lambda>t. Tile.terrain_type t \<noteq> DIRT) row)"

section \<open>Properties of resource nodes\<close>

lemma gather_amount_le:
  "0 \<le> provides_amount r \<Longrightarrow> amount_remaining (snd (gather r)) \<le> amount_remaining r"
  by (simp add: gather_def Let_def)

lemma gather_provides_amount [simp]:
  "provides_amount (snd (gather r)) = provides_amount r"
  by (simp add: gather_def Let_def)

lemma gather_times_provides_amount [simp]:
  "provides_amount (gather_times n r) = provides_amount r"
  by (induction n arbitrary: r) simp_all

lemma gather_times_add: "gather_times (m + n) r = gather_times n (gather_times m r)"
  by (induction m arbitrary: r) simp_all

lemma gather_times_amount_le:
  "0 \<le> provides_amount r \<Longrightarrow> amount_remaining (gather_times n r) \<le> amount_remaining r"
proof (induction n arbitrary: r)
  case 0
  show ?case by simp
next
  case (Suc n)
  have "amount_remaining (gather_times n (snd (gather r))) \<le> amount_remaining (snd (gather r))"
    using Suc.prems by (intro Suc.IH) simp
  also have "\<dots> \<le> amount_remaining r"
    using Suc.prems by (rule gather_amount_le)
  finally show ?case by simp
qed

lemma gather_keeps_depleted: "is_depleted r \<Longrightarrow> is_depleted (snd (gather r))"
  by (simp add: gather_def)

lemma gather_times_keeps_depleted: "is_depleted r \<Longrightarrow> is_depleted (gather_times n r)"
  by (induction n arbitrary: r) (simp_all add: gather_keeps_depleted)

lemma gather_exhausted_depleted:
  "amount_remaining (snd (gather r)) \<le> 0 \<Longrightarrow> is_depleted (snd (gather r))"
  by (auto simp: gather_def Let_def split: if_splits)

lemma gather_times_exhausted_depleted:
  "0 < n \<Longrightarrow> amount_remaining (gather_times n r) \<le> 0 \<Longrightarrow> is_depleted (gather_times n r)"
proof (induction n arbitrary: r)
  case 0
  then show ?case by simp
next
  case (Suc n)
  show ?case
  proof (cases n)
    case 0
    with Suc.prems show ?thesis by (simp add: gather_exhausted_depleted)
  next
    case (Suc k)
    with Suc.prems Suc.IH [of "snd (gather r)"] show ?thesis by simp
  qed
qed

lemma gather_depleted_result: "is_depleted r \<Longrightarrow> fst (gather r) = (None, 0)"
  by (simp add: gather_def)

text \<open>
  Claim C5. Every node the constructor builds has a per-harvest yield that is not
  negative (4, 8 or 5), and \<open>gather()\<close> never changes the yield. For a node with such a
  yield, repeated \<open>gather()\<close> calls never increase \<open>amount_remaining\<close>: the amount
  after \<open>i + k\<close> calls is at most the amount after \<open>i\<close> calls. Once a call has left
  \<open>amount_remaining \<le> 0\<close>, \<open>is_depleted\<close> is true after that call and after every
  later one, and each further call returns \<open>(None, 0)\<close>.
\<close>

theorem resource_gather_monotone:
  assumes "0 \<le> provides_amount r"
  shows "0 \<le> provides_amount (new_Resource t px py) \<and>
         provides_amount (gather_times k r) = provides_amount r \<and>
         amount_remaining (gather_times (i + k) r) \<le> amount_remaining (gather_times i r) \<and>
         (0 < i \<and> amount_remaining (gather_times i r) \<le> 0 \<longrightarrow>
            is_depleted (gather_times (i + k) r) \<and>
            fst (gather (gather_times (i + k) r)) = (None, 0))"
proof (intro conjI impI)
  show "0 \<le> provides_amount (new_Resource t px py)"
    by (cases t) (simp_all add: new_Resource_def post_init_def Resource_defaults_def)
next
  show "provides_amount (gather_times k r) = provides_amount r"
    by (rule gather_times_provides_amount)
next
  have "0 \<le> provides_amount (gather_times i r)"
    using assms by simp
  then show "amount_remaining (gather_times (i + k) r) \<le> amount_remaining (gather_times i r)"
    unfolding gather_times_add by (rule gather_times_amount_le)
next
  assume a: "0 < i \<and> amount_remaining (gather_times i r) \<le> 0"
  then have "is_depleted (gather_times i r)"
    by (intro gather_times_exhausted_depleted) simp_all
  then have d: "is_depleted (gather_times (i + k) r)"
    unfolding gather_times_add by (rule gather_times_keeps_depleted)
  then show "is_depleted (gather_times (i + k) r)" .
  from d show "fst (gather (gather_times (i + k) r)) = (None, 0)"
    by (rule gather_depleted_result)
qed

theorem resource_gather_monotone_witness:
  "0 \<le> provides_amount (new_Resource TREE 3 7) \<and>
   provides_amount (gather_times 1 (new_Resource TREE 3 7)) = 4 \<and>
   amount_remaining (gather_times (1 + 1) (new_Resource TREE 3 7))
     \<le> amount_remaining (gather_times 1 (new_Resource TREE 3 7)) \<and>
   0 < (1::nat) \<and> amount_remaining (gather_times 1 (new_Resource TREE 3 7)) \<le> 0 \<and>
   is_depleted (gather_times (1 + 1) (new_Resource TREE 3 7)) \<and>
   fst (gather (gather_times (1 + 1) (new_Resource TREE 3 7))) = (None, 0)"
proof -
  have h: "0 \<le> provides_amount (new_Resource TREE 3 7)"
    by (simp add: new_Resource_def post_init_def Resource_defaults_def)
  have e: "amount_remaining (gather_times 1 (new_Resource TREE 3 7)) \<le> 0"
    by (simp add: new_Resource_def post_init_def Resource_defaults_def gather_def Let_def)
  have p: "provides_amount (new_Resource TREE 3 7) = 4"
    by (simp add: new_Resource_def post_init_def Resource_defaults_def)
  from resource_gather_monotone [OF h, where i = 1 and k = 1] h e p show ?thesis
    by simp
qed

text \<open>
  Claim C9. A freshly constructed node of type Tree has \<open>amount_remaining = 4\<close> and
  \<open>provides_amount = 4\<close>; one \<open>gather()\<close> call on it returns \<open>("wood", 4)\<close> and
  leaves \<open>is_depleted = True\<close> and \<open>amount_remaining = 0\<close>.
\<close>

theorem tree_single_gather:
  "amount_remaining (new_Resource TREE px py) = 4 \<and>
   provides_amount (new_Resource TREE px py) = 4 \<and>
   \<not> is_depleted (new_Resource TREE px py) \<and>
   fst (gather (new_Resource TREE px py)) = (Some ''wood'', 4) \<and>
   is_depleted (snd (gather (new_Resource TREE px py))) \<and>
   amount_remaining (snd (gather (new_Resource TREE px py))) = 0"
  by (simp add: new_Resource_def post_init_def Resource_defaults_def gather_def Let_def)

theorem tree_single_gather_witness:
  "fst (gather (new_Resource TREE 12 30)) = (Some ''wood'', 4) \<and>
   is_depleted (snd (gather (new_Resource TREE 12 30))) \<and>
   amount_remaining (snd (gather (new_Resource TREE 12 30))) = 0"
  using tree_single_gather [of 12 30] by simp

section \<open>Properties of buildings\<close>

lemma dict_get_set:
  "dict_get (dict_set d k v) k' dflt = (if k' = k then v else dict_get d k' dflt)"
  by (induction d) auto

lemma dict_set_fresh: "k \<notin> fst ` set d \<Longrightarrow> dict_set d k v = d @ [(k, v)]"
  by (induction d) auto

lemma foldl_needed_step:
  "distinct (map fst req) \<Longrightarrow> fst ` set acc \<inter> fst ` set req = {} \<Longrightarrow>
   foldl (needed_step md) acc req = acc @ needed_items md req"
proof (induction req arbitrary: acc)
  case Nil
  show ?case by simp
next
  case (Cons p req)
  obtain rk amt where p: "p = (rk, amt)" by (cases p)
  have fresh: "rk \<notin> fst ` set acc" using Cons.prems(2) p by auto
  have d: "distinct (map fst req)" and nk: "rk \<notin> fst ` set req"
    using Cons.prems(1) p by auto
  show ?case
  proof (cases "dict_get md rk 0 < amt")
    case True
    have "fst ` set (acc @ [(rk, amt - dict_get md rk 0)]) \<inter> fst ` set req = {}"
      using Cons.prems(2) nk p by auto
    from Cons.IH [OF d this] True fresh show ?thesis
      by (simp add: p needed_step_def dict_set_fresh)
  next
    case False
    have "fst ` set acc \<inter> fst ` set req = {}" using Cons.prems(2) by auto
    from Cons.IH [OF d this] False show ?thesis
      by (simp add: p needed_step_def)
  qed
qed

lemma required_resources_distinct:
  "distinct (map fst (required_resources (BUILDING_DEFINITIONS t)))"
  by (cases t) (simp_all add: BUILDING_DEFINITIONS_def)

lemma get_required_materials_eq:
  "get_required_materials b =
     needed_items (materials_delivered b) (required_resources (get_definition b))"
  unfolding get_required_materials_def get_definition_def
  using foldl_needed_step [OF required_resources_distinct, of "[]"] by simp

lemma needed_items_empty:
  "(needed_items md req = []) = list_all (\<lambda>(rk, amt). amt \<le> dict_get md rk 0) req"
  by (induction md req rule: needed_items.induct) (auto split: if_splits)

lemma has_all_materials_eq:
  "has_all_materials b =
     list_all (\<lambda>(rk, amt). amt \<le> dict_get (materials_delivered b) rk 0)
       (required_resources (get_definition b))"
  by (simp add: has_all_materials_def get_required_materials_eq needed_items_empty)

lemma needed_items_cong:
  "(\<And>rk amt. (rk, amt) \<in> set req \<Longrightarrow> min (dict_get md1 rk 0) amt = min (dict_get md2 rk 0) amt)
   \<Longrightarrow> needed_items md1 req = needed_items md2 req"
proof (induction req)
  case Nil show ?case by simp
next
  case (Cons p req)
  obtain rk amt where p: "p = (rk, amt)" by (cases p)
  have "needed_items md1 req = needed_items md2 req"
    by (rule Cons.IH) (simp add: Cons.prems)
  moreover have "min (dict_get md1 rk 0) amt = min (dict_get md2 rk 0) amt"
    by (rule Cons.prems) (simp add: p)
  ultimately show ?case
    unfolding p by (auto simp: min_def split: if_splits)
qed


lemma distinct_keys_same_value:
  "distinct (map fst xs) \<Longrightarrow> (k, a) \<in> set xs \<Longrightarrow> (k, b) \<in> set xs \<Longrightarrow> a = b"
  by (induction xs) (auto simp: image_iff)

lemma deliver_material_fields [simp]:
  "get_definition (deliver_material b k a) = get_definition b"
  by (simp add: deliver_material_def get_definition_def Let_def)

text \<open>
  Claim C10. \<open>deliver_material\<close> adds the amount to the delivered entry of the kind
  whatever the building requires, and leaves every other entry alone; so the delivered
  amount can exceed the required one and kinds that are not required can be recorded.
  \<open>get_required_materials\<close> lists, for the required kinds only, the shortfall where
  there is one, and \<open>has_all_materials\<close> holds exactly when no required kind is short:
  delivering a kind that is not required, or more of a kind that is already covered,
  changes neither.
\<close>

theorem deliver_material_unbounded:
  "dict_get (materials_delivered (deliver_material b k a)) k 0
     = dict_get (materials_delivered b) k 0 + a \<and>
   (\<forall>k'. k' \<noteq> k \<longrightarrow>
      dict_get (materials_delivered (deliver_material b k a)) k' 0
        = dict_get (materials_delivered b) k' 0) \<and>
   get_required_materials (deliver_material b k a)
     = needed_items (materials_delivered (deliver_material b k a))
         (required_resources (get_definition b)) \<and>
   has_all_materials (deliver_material b k a)
     = list_all (\<lambda>(rk, amt). amt \<le> dict_get (materials_delivered (deliver_material b k a)) rk 0)
         (required_resources (get_definition b)) \<and>
   (k \<notin> fst ` set (required_resources (get_definition b)) \<longrightarrow>
      get_required_materials (deliver_material b k a) = get_required_materials b) \<and>
   (\<forall>amt. (k, amt) \<in> set (required_resources (get_definition b)) \<and>
      amt \<le> dict_get (materials_delivered b) k 0 \<and> 0 \<le> a \<longrightarrow>
      get_required_materials (deliver_material b k a) = get_required_materials b)"
proof (intro conjI allI impI)
  show "dict_get (materials_delivered (deliver_material b k a)) k 0
          = dict_get (materials_delivered b) k 0 + a"
    by (simp add: deliver_material_def Let_def dict_get_set)
next
  fix k' assume "k' \<noteq> k"
  then show "dict_get (materials_delivered (deliver_material b k a)) k' 0
               = dict_get (materials_delivered b) k' 0"
    by (simp add: deliver_material_def Let_def dict_get_set)
next
  show "get_required_materials (deliver_material b k a)
          = needed_items (materials_delivered (deliver_material b k a))
              (required_resources (get_definition b))"
    using get_required_materials_eq [of "deliver_material b k a"] by simp
next
  show "has_all_materials (deliver_material b k a)
     = list_all (\<lambda>(rk, amt). amt \<le> dict_get (materials_delivered (deliver_material b k a)) rk 0)
         (required_resources (get_definition b))"
    using has_all_materials_eq [of "deliver_material b k a"] by simp
next
  assume nk: "k \<notin> fst ` set (required_resources (get_definition b))"
  have "needed_items (materials_delivered (deliver_material b k a))
          (required_resources (get_definition b))
        = needed_items (materials_delivered b) (required_resources (get_definition b))"
  proof (rule needed_items_cong)
    fix rk amt assume "(rk, amt) \<in> set (required_resources (get_definition b))"
    then have "rk \<noteq> k" using nk by force
    then show "min (dict_get (materials_delivered (deliver_material b k a)) rk 0) amt
                 = min (dict_get (materials_delivered b) rk 0) amt"
      by (simp add: deliver_material_def Let_def dict_get_set)
  qed
  then show "get_required_materials (deliver_material b k a) = get_required_materials b"
    using get_required_materials_eq [of "deliver_material b k a"]
      get_required_materials_eq [of b] by simp
next
  fix amt
  assume h: "(k, amt) \<in> set (required_resources (get_definition b)) \<and>
      amt \<le> dict_get (materials_delivered b) k 0 \<and> 0 \<le> a"
  have dist: "distinct (map fst (required_resources (get_definition b)))"
    unfolding get_definition_def by (rule required_resources_distinct)
  have "needed_items (materials_delivered (deliver_material b k a))
          (required_resources (get_definition b))
        = needed_items (materials_delivered b) (required_resources (get_definition b))"
  proof (rule needed_items_cong)
    fix rk amt' assume m: "(rk, amt') \<in> set (required_resources (get_definition b))"
    show "min (dict_get (materials_delivered (deliver_material b k a)) rk 0) amt'
                 = min (dict_get (materials_delivered b) rk 0) amt'"
    proof (cases "rk = k")
      case True
      with m h dist have "amt' = amt"
        by (auto dest: distinct_keys_same_value)
      with True h show ?thesis
        by (simp add: deliver_material_def Let_def dict_get_set min_def)
    next
      case False
      then show ?thesis by (simp add: deliver_material_def Let_def dict_get_set)
    qed
  qed
  then show "get_required_materials (deliver_material b k a) = get_required_materials b"
    using get_required_materials_eq [of "deliver_material b k a"]
      get_required_materials_eq [of b] by simp
qed


theorem deliver_material_unbounded_witness:
  "dict_get (materials_delivered (deliver_material house_example ''wood'' 5)) ''wood'' 0 = 25 \<and>
   ''stone'' \<noteq> ''wood'' \<and>
   dict_get (materials_delivered (deliver_material house_example ''wood'' 5)) ''stone'' 0 = 5 \<and>
   (''wood'', 20) \<in> set (required_resources (get_definition house_example)) \<and>
   20 \<le> dict_get (materials_delivered house_example) ''wood'' 0 \<and> (0::int) \<le> 5 \<and>
   get_required_materials (deliver_material house_example ''wood'' 5) = [(''stone'', 5)] \<and>
   get_required_materials house_example = [(''stone'', 5)] \<and>
   \<not> has_all_materials (deliver_material house_example ''wood'' 5) \<and>
   ''iron'' \<notin> fst ` set (required_resources (get_definition house_example)) \<and>
   dict_get (materials_delivered (deliver_material house_example ''iron'' 3)) ''iron'' 0 = 3 \<and>
   get_required_materials (deliver_material house_example ''iron'' 3) = [(''stone'', 5)]"
proof -
  have r: "(''wood'', 20) \<in> set (required_resources (get_definition house_example))"
    by (simp add: house_example_def new_Building_def get_definition_def BUILDING_DEFINITIONS_def)
  have d: "20 \<le> dict_get (materials_delivered house_example) ''wood'' 0"
    by (simp add: house_example_def new_Building_def)
  have n: "get_required_materials house_example = [(''stone'', 5)]"
    by (simp add: house_example_def new_Building_def get_definition_def BUILDING_DEFINITIONS_def
        get_required_materials_def needed_step_def)
  have m: "materials_delivered house_example = [(''wood'', 20), (''stone'', 5)]"
    by (simp add: house_example_def new_Building_def)
  have q: "required_resources (get_definition house_example) = [(''wood'', 20), (''stone'', 10)]"
    by (simp add: house_example_def new_Building_def get_definition_def BUILDING_DEFINITIONS_def)
  from deliver_material_unbounded [of house_example "''wood''" 5]
    deliver_material_unbounded [of house_example "''iron''" 3] r d n
  show ?thesis
    by (simp add: m q deliver_material_def)
qed

section \<open>Biome classification\<close>

lemma range_match_code:
  "(if v < lo then rnd (1 - rnd (lo - v)) else if v > hi then rnd (1 - rnd (v - hi)) else 1)
     = range_match rnd lo hi v"
  by (auto simp: range_match_def)

lemma climate_step_score:
  "climate_step rnd temp rain (bb, bs) (t, get_biome_properties t) =
     (if (case bs of None \<Rightarrow> True | Some s \<Rightarrow> biome_score rnd t temp rain > s)
        then (t, Some (biome_score rnd t temp rain))
      else (bb, bs))"
  unfolding climate_step_def biome_score_def Let_def prod.case range_match_code ..

lemma fold_climate_running:
  "foldl (climate_step rnd temp rain) (b, Some (biome_score rnd b temp rain))
         (map (\<lambda>t. (t, get_biome_properties t)) xs) = (b', s') \<Longrightarrow>
   s' = Some (biome_score rnd b' temp rain) \<and>
   biome_score rnd b temp rain \<le> biome_score rnd b' temp rain \<and>
   (\<forall>x \<in> set xs. biome_score rnd x temp rain \<le> biome_score rnd b' temp rain) \<and>
   (b' = b \<or>
    (\<exists>ys zs. xs = ys @ b' # zs \<and>
       biome_score rnd b temp rain < biome_score rnd b' temp rain \<and>
       (\<forall>y \<in> set ys. biome_score rnd y temp rain < biome_score rnd b' temp rain)))"
proof (induction xs arbitrary: b)
  case Nil
  then show ?case by auto
next
  case (Cons x xs)
  let ?f = "\<lambda>t. biome_score rnd t temp rain"
  show ?case
  proof (cases "?f x > ?f b")
    case True
    with Cons.prems have
      "foldl (climate_step rnd temp rain) (x, Some (?f x))
         (map (\<lambda>t. (t, get_biome_properties t)) xs) = (b', s')"
      by (simp add: climate_step_score)
    from Cons.IH [OF this] have
      s: "s' = Some (?f b')" and le: "?f x \<le> ?f b'"
      and all: "\<forall>z \<in> set xs. ?f z \<le> ?f b'"
      and first: "b' = x \<or> (\<exists>ys zs. xs = ys @ b' # zs \<and> ?f x < ?f b' \<and> (\<forall>y \<in> set ys. ?f y < ?f b'))"
      by simp_all
    from first have "\<exists>ys zs. x # xs = ys @ b' # zs \<and> ?f b < ?f b' \<and> (\<forall>y \<in> set ys. ?f y < ?f b')"
    proof
      assume "b' = x"
      with True have "x # xs = [] @ b' # xs \<and> ?f b < ?f b' \<and> (\<forall>y \<in> set []. ?f y < ?f b')"
        by simp
      then show ?thesis by blast
    next
      assume "\<exists>ys zs. xs = ys @ b' # zs \<and> ?f x < ?f b' \<and> (\<forall>y \<in> set ys. ?f y < ?f b')"
      then obtain ys zs where "xs = ys @ b' # zs" "?f x < ?f b'" "\<forall>y \<in> set ys. ?f y < ?f b'"
        by blast
      with True have "x # xs = (x # ys) @ b' # zs \<and> ?f b < ?f b' \<and> (\<forall>y \<in> set (x # ys). ?f y < ?f b')"
        by simp
      then show ?thesis by blast
    qed
    with s le all True show ?thesis by auto
  next
    case False
    with Cons.prems have
      "foldl (climate_step rnd temp rain) (b, Some (?f b))
         (map (\<lambda>t. (t, get_biome_properties t)) xs) = (b', s')"
      by (simp add: climate_step_score)
    from Cons.IH [OF this] have
      s: "s' = Some (?f b')" and le: "?f b \<le> ?f b'"
      and all: "\<forall>z \<in> set xs. ?f z \<le> ?f b'"
      and first: "b' = b \<or> (\<exists>ys zs. xs = ys @ b' # zs \<and> ?f b < ?f b' \<and> (\<forall>y \<in> set ys. ?f y < ?f b'))"
      by simp_all
    from first have "b' = b \<or> (\<exists>ys zs. x # xs = ys @ b' # zs \<and> ?f b < ?f b' \<and> (\<forall>y \<in> set ys. ?f y < ?f b'))"
    proof
      assume "b' = b" then show ?thesis by simp
    next
      assume "\<exists>ys zs. xs = ys @ b' # zs \<and> ?f b < ?f b' \<and> (\<forall>y \<in> set ys. ?f y < ?f b')"
      then obtain ys zs where "xs = ys @ b' # zs" "?f b < ?f b'" "\<forall>y \<in> set ys. ?f y < ?f b'"
        by blast
      with False have "x # xs = (x # ys) @ b' # zs \<and> ?f b < ?f b' \<and> (\<forall>y \<in> set (x # ys). ?f y < ?f b')"
        by auto
      then show ?thesis by blast
    qed
    with s le all False show ?thesis by auto
  qed
qed

lemma index_of_append: "a \<notin> set ys \<Longrightarrow> index_of (ys @ zs) a = length ys + index_of zs a"
  by (induction ys) auto

lemma index_of_bound: "index_of xs a \<le> length xs"
  by (induction xs) auto

lemma index_of_prefix: "a \<in> set ys \<Longrightarrow> index_of (ys @ zs) a < length ys"
  by (induction ys) auto

lemma biome_order_complete: "t \<in> set BIOME_ORDER"
  by (cases t) (simp_all add: BIOME_ORDER_def)

text \<open>
  Claim C8. Whatever the rounding of the arithmetic, \<open>get_biome_from_climate\<close> returns a
  biome whose score (the product of the temp and rain match factors, as the
  arithmetic computes it) is maximal among all biomes, and among the biomes with that
  score it returns the first of the definition table.
\<close>

theorem classify_biome_argmax_first:
  "biome_score rnd t temp rain
     \<le> biome_score rnd (get_biome_from_climate rnd temp rain) temp rain \<and>
   (biome_score rnd t temp rain
      = biome_score rnd (get_biome_from_climate rnd temp rain) temp rain \<longrightarrow>
    index_of BIOME_ORDER (get_biome_from_climate rnd temp rain)
      \<le> index_of BIOME_ORDER t)"
proof -
  let ?f = "\<lambda>t. biome_score rnd t temp rain"
  let ?b0 = "TEMPERATE_FOREST"
  let ?rest = "[GRASSLAND, BOREAL_FOREST, TUNDRA, DESERT, TROPICAL_RAINFOREST,
      ARID_SHRUBLAND, WETLAND]"
  obtain b' s' where run:
    "foldl (climate_step rnd temp rain) (?b0, Some (?f ?b0))
       (map (\<lambda>t. (t, get_biome_properties t)) ?rest) = (b', s')"
    by (cases "foldl (climate_step rnd temp rain) (?b0, Some (?f ?b0))
       (map (\<lambda>t. (t, get_biome_properties t)) ?rest)")
  have order: "BIOME_ORDER = ?b0 # ?rest" by (simp add: BIOME_ORDER_def)
  have res: "get_biome_from_climate rnd temp rain = b'"
    unfolding get_biome_from_climate_def BIOME_DEFINITIONS_def order
    using run by (simp add: climate_step_score)
  from fold_climate_running [OF run] have
    le0: "?f ?b0 \<le> ?f b'" and all: "\<forall>x \<in> set ?rest. ?f x \<le> ?f b'"
    and first: "b' = ?b0 \<or> (\<exists>ys zs. ?rest = ys @ b' # zs \<and> ?f ?b0 < ?f b' \<and> (\<forall>y \<in> set ys. ?f y < ?f b'))"
    by blast+
  have "t \<in> set (?b0 # ?rest)" using biome_order_complete [of t] order by simp
  with le0 all have max: "?f t \<le> ?f b'" by auto
  have "index_of BIOME_ORDER b' \<le> index_of BIOME_ORDER t" if eq: "?f t = ?f b'"
    using first
  proof
    assume "b' = ?b0" then show ?thesis by (simp add: order)
  next
    assume "\<exists>ys zs. ?rest = ys @ b' # zs \<and> ?f ?b0 < ?f b' \<and> (\<forall>y \<in> set ys. ?f y < ?f b')"
    then obtain ys zs where dec: "?rest = ys @ b' # zs" and lt0: "?f ?b0 < ?f b'"
      and lt: "\<forall>y \<in> set ys. ?f y < ?f b'"
      by blast
    have o2: "BIOME_ORDER = (?b0 # ys) @ b' # zs" using order dec by simp
    have nb: "b' \<notin> set (?b0 # ys)" using lt lt0 by auto
    have nt: "t \<notin> set (?b0 # ys)" using lt lt0 eq by auto
    have "index_of BIOME_ORDER b' = length (?b0 # ys)"
      unfolding o2 using index_of_append [OF nb] by simp
    moreover have "index_of BIOME_ORDER t \<ge> length (?b0 # ys)"
      unfolding o2 using index_of_append [OF nt] by simp
    ultimately show ?thesis by simp
  qed
  with max res show ?thesis by simp
qed

theorem classify_biome_argmax_first_witness:
  "biome_score (\<lambda>v. v) GRASSLAND (1/2) (1/2)
     = biome_score (\<lambda>v. v) (get_biome_from_climate (\<lambda>v. v) (1/2) (1/2)) (1/2) (1/2) \<and>
   get_biome_from_climate (\<lambda>v. v) (1/2) (1/2) = TEMPERATE_FOREST \<and>
   index_of BIOME_ORDER (get_biome_from_climate (\<lambda>v. v) (1/2) (1/2))
     \<le> index_of BIOME_ORDER GRASSLAND"
proof -
  have r: "get_biome_from_climate (\<lambda>v. v) (1/2) (1/2) = TEMPERATE_FOREST"
    by (simp add: get_biome_from_climate_def BIOME_DEFINITIONS_def BIOME_ORDER_def
        climate_step_def get_biome_properties_def)
  have e: "biome_score (\<lambda>v. v) GRASSLAND (1/2) (1/2)
             = biome_score (\<lambda>v. v) (get_biome_from_climate (\<lambda>v. v) (1/2) (1/2)) (1/2) (1/2)"
    unfolding r by (simp add: biome_score_def range_match_def get_biome_properties_def)
  from classify_biome_argmax_first [of "\<lambda>v. v" GRASSLAND "1/2" "1/2"] e r show ?thesis
    by simp
qed

section \<open>Properties of the job manager\<close>

lemma deliver_material_state [simp]:
  "Building.state (deliver_material b k a) = Building.state b"
  "Building.building_type (deliver_material b k a) = Building.building_type b"
  "construction_progress (deliver_material b k a) = construction_progress b"
  by (simp_all add: deliver_material_def Let_def)

lemma update_hauling_buildings:
  "update_hauling pf tiles dt (c, w) = Inr (c', w') \<Longrightarrow>
   Building.state (building_store w' a) = Building.state (building_store w a) \<and>
   Building.building_type (building_store w' a) = Building.building_type (building_store w a) \<and>
   construction_progress (building_store w' a) = construction_progress (building_store w a)"
  by (auto simp: update_hauling_def Let_def bind_err_def
      split: option.splits TaskRef.splits prod.splits if_splits sum.splits)

lemma update_gathering_store:
  "update_gathering pf tiles chk dt (c, w) = Inr (c', w') \<Longrightarrow>
   building_store w' = building_store w \<and> buildings w' = buildings w \<and>
   max_storage_capacity w' = max_storage_capacity w \<and>
   storage_capacity_per_warehouse w' = storage_capacity_per_warehouse w"
  by (auto simp: update_gathering_def Let_def bind_err_def
      split: option.splits TaskRef.splits prod.splits if_splits sum.splits)

lemma assign_work_store:
  "assign_work (c, w) = Inr (c', w') \<Longrightarrow> building_store w' = building_store w"
  by (auto simp: assign_work_def find_gathering_task_def find_construction_task_def Let_def
      bind_err_def split: option.splits prod.splits if_splits list.splits sum.splits)

lemma add_construction_progress_complete:
  "Building.state (add_construction_progress rnd b amount) = COMPLETE \<Longrightarrow>
   Building.state b \<noteq> COMPLETE \<Longrightarrow>
   Building.state b = UNDER_CONSTRUCTION \<and>
   construction_work (get_definition b) \<le> rnd (construction_progress b + amount) \<and>
   construction_progress (add_construction_progress rnd b amount)
     = construction_work (get_definition b)"
  by (auto simp: add_construction_progress_def Let_def get_definition_def split: if_splits)

lemma add_construction_progress_type [simp]:
  "Building.building_type (add_construction_progress rnd b amount) = Building.building_type b"
  by (simp add: add_construction_progress_def Let_def)

lemma add_construction_progress_state:
  "Building.state (add_construction_progress rnd b amount) = Building.state b \<or>
   Building.state b = UNDER_CONSTRUCTION \<and>
   Building.state (add_construction_progress rnd b amount) = COMPLETE"
  by (simp add: add_construction_progress_def Let_def)

lemma construction_order_same:
  "Building.state b' = Building.state b \<Longrightarrow> construction_order_ok rnd amount b b'"
  by (simp add: construction_order_ok_def)

lemma construction_order_start:
  "construction_order_ok rnd amount b
     (if Building.state b = PLANNED \<and> has_all_materials b
        then b\<lparr> Building.state := UNDER_CONSTRUCTION \<rparr> else b)"
  by (simp add: construction_order_ok_def)

lemma construction_order_work:
  assumes "Building.state b1 = UNDER_CONSTRUCTION"
    and "b1 = (if Building.state b = PLANNED \<and> has_all_materials b
        then b\<lparr> Building.state := UNDER_CONSTRUCTION \<rparr> else b)"
  shows "construction_order_ok rnd amount b (add_construction_progress rnd b1 amount)"
proof -
  have t: "get_definition (add_construction_progress rnd b1 amount) = get_definition b1"
    by (simp add: get_definition_def)
  have d: "get_definition b1 = get_definition b" "construction_progress b1 = construction_progress b"
    using assms(2) by (simp_all add: get_definition_def)
  have p: "Building.state b = PLANNED \<Longrightarrow> has_all_materials b"
    using assms by (auto split: if_splits)
  have q: "Building.state (add_construction_progress rnd b1 amount) = COMPLETE \<Longrightarrow>
        construction_work (get_definition b) \<le> rnd (construction_progress b + amount) \<and>
        \<not> construction_progress (add_construction_progress rnd b1 amount)
           < construction_work (get_definition (add_construction_progress rnd b1 amount))"
    using add_construction_progress_complete [of rnd b1 amount] assms(1) unfolding t d by simp
  show ?thesis
    unfolding construction_order_ok_def using p q by blast
qed

lemma update_construction_order:
  assumes "update_construction rnd tiles dt (c, w) = Inr (c', w')"
  shows "construction_order_ok rnd (construction_work_done rnd (construction_skill c) dt)
           (building_store w a) (building_store w' a)"
proof (cases "current_task c")
  case None
  with assms have "w' = w" by (simp add: update_construction_def)
  then show ?thesis by (simp add: construction_order_same)
next
  case (Some task)
  show ?thesis
  proof (cases task)
    case (ResourceRef r)
    with Some assms have "w' = w" by (simp add: update_construction_def)
    then show ?thesis by (simp add: construction_order_same)
  next
    case (BuildingRef t)
    define b where "b = building_store w t"
    define b1 where "b1 = (if Building.state b = PLANNED \<and> has_all_materials b
        then b\<lparr> Building.state := UNDER_CONSTRUCTION \<rparr> else b)"
    define work where "work = construction_work_done rnd (construction_skill c) dt"
    have store: "building_store w' = (building_store w)(t := b1) \<or>
                 (Building.state b1 = UNDER_CONSTRUCTION \<and>
                  building_store w' = (building_store w)(t := add_construction_progress rnd b1 work))"
      using assms Some BuildingRef
      by (auto simp: update_construction_def Let_def b_def b1_def work_def bind_err_def
          split: prod.splits if_splits sum.splits)
    show ?thesis
    proof (cases "a = t")
      case False
      with store show ?thesis by (auto simp: construction_order_same)
    next
      case True
      from store show ?thesis
      proof
        assume "building_store w' = (building_store w)(t := b1)"
        with True show ?thesis
          using construction_order_start [of rnd work b] by (simp add: b_def b1_def work_def)
      next
        assume h: "Building.state b1 = UNDER_CONSTRUCTION \<and>
                  building_store w' = (building_store w)(t := add_construction_progress rnd b1 work)"
        then have "construction_order_ok rnd work b (add_construction_progress rnd b1 work)"
          using construction_order_work [of b1 b rnd work] b1_def by simp
        with h True show ?thesis by (simp add: b_def work_def)
      qed
    qed
  qed
qed

lemma update_hauling_order:
  "update_hauling pf tiles dt (c, w) = Inr (c', w') \<Longrightarrow>
   construction_order_ok rnd amount (building_store w a) (building_store w' a)"
  using update_hauling_buildings [of pf tiles dt c w c' w' a]
  by (simp add: construction_order_same)

lemma step_toward_skill [simp]:
  "construction_skill (step_toward c cy gx gy dt) = construction_skill c"
  by (simp add: step_toward_def Let_def)

lemma update_citizen_skill:
  "update_citizen c dt = Inr c1 \<Longrightarrow> construction_skill c1 = construction_skill c"
  by (auto simp: update_citizen_def follow_path_def walk_direct_def bind_err_def Let_def
      float_operand_def split: option.splits if_splits prod.splits sum.splits)

lemma update_one_order:
  assumes "update_one rnd pf tiles chk dt (c, w) = Inr (c', w')"
  shows "construction_order_ok rnd (construction_work_done rnd (construction_skill c) dt)
           (building_store w a) (building_store w' a)"
proof -
  let ?work = "construction_work_done rnd (construction_skill c) dt"
  from assms obtain c1 where c1: "update_citizen c dt = Inr c1"
    and step: "(if Citizen.state c1 = CitizenState.IDLE \<and> current_task c1 = None
            then assign_work (c1, w)
          else if current_task c1 \<noteq> None
            then update_citizen_task rnd pf tiles chk dt (c1, w)
          else Inr (c1, w)) = Inr (c', w')"
    by (auto simp: update_one_def bind_err_def split: sum.splits)
  have skill: "construction_skill c1 = construction_skill c"
    using c1 by (rule update_citizen_skill)
  show ?thesis
  proof (cases "Citizen.state c1 = CitizenState.IDLE \<and> current_task c1 = None")
    case True
    with step have "assign_work (c1, w) = Inr (c', w')" by simp
    then show ?thesis using assign_work_store by (simp add: construction_order_same)
  next
    case False
    show ?thesis
    proof (cases "current_task c1 \<noteq> None")
      case False
      with step \<open>\<not> (Citizen.state c1 = CitizenState.IDLE \<and> current_task c1 = None)\<close>
      have "w' = w" by simp
      then show ?thesis by (simp add: construction_order_same)
    next
      case True
      with step False have u: "update_citizen_task rnd pf tiles chk dt (c1, w) = Inr (c', w')"
        by simp
      show ?thesis
      proof (cases "current_job c1")
        case None
        with u have "w' = w" by (simp add: update_citizen_task_def)
        then show ?thesis by (simp add: construction_order_same)
      next
        case (Some j)
        show ?thesis
        proof (cases j)
          case HAULING
          with Some u show ?thesis
            by (simp add: update_citizen_task_def update_hauling_order)
        next
          case CONSTRUCTION
          with Some u have "update_construction rnd tiles dt (c1, w) = Inr (c', w')"
            by (simp add: update_citizen_task_def)
          from update_construction_order [OF this, of a] show ?thesis
            by (simp add: skill)
        next
          case GATHERING
          with Some u have "update_gathering pf tiles chk dt (c1, w) = Inr (c', w')"
            by (simp add: update_citizen_task_def)
          from update_gathering_store [OF this] show ?thesis
            by (simp add: construction_order_same)
        qed (use Some u in \<open>simp_all add: update_citizen_task_def construction_order_same\<close>)
      qed
    qed
  qed
qed

text \<open>
  Claim C6. In one pass of the job manager over a citizen (movement, then work
  assignment, hauling, construction or gathering) that returns, a building that leaves
  Planned had all its materials before the pass; and a building that becomes Complete
  does so because its progress before the pass plus the work of the pass, as the
  arithmetic adds them, reached the construction work of its definition, to which its
  progress is then set. The same holds for \<open>add_construction_progress\<close> alone, which
  completes a building only from Under Construction and never starts construction by
  itself.
\<close>

theorem construction_ordering:
  assumes "update_one rnd pf tiles chk dt (c, w) = Inr (c', w')"
  shows "(Building.state (building_store w a) = PLANNED \<and>
          Building.state (building_store w' a) \<noteq> PLANNED \<longrightarrow>
            has_all_materials (building_store w a)) \<and>
         (Building.state (building_store w a) \<noteq> COMPLETE \<and>
          Building.state (building_store w' a) = COMPLETE \<longrightarrow>
            construction_work (get_definition (building_store w a))
              \<le> rnd (construction_progress (building_store w a)
                       + construction_work_done rnd (construction_skill c) dt) \<and>
            \<not> construction_progress (building_store w' a)
                < construction_work (get_definition (building_store w' a))) \<and>
         (Building.state (add_construction_progress rnd b amount) = UNDER_CONSTRUCTION \<longrightarrow>
            Building.state b = UNDER_CONSTRUCTION) \<and>
         (Building.state b \<noteq> COMPLETE \<and>
          Building.state (add_construction_progress rnd b amount) = COMPLETE \<longrightarrow>
            Building.state b = UNDER_CONSTRUCTION \<and>
            construction_work (get_definition b) \<le> rnd (construction_progress b + amount) \<and>
            \<not> construction_progress (add_construction_progress rnd b amount)
                < construction_work (get_definition (add_construction_progress rnd b amount)))"
proof -
  have t: "get_definition (add_construction_progress rnd b amount) = get_definition b"
    by (simp add: get_definition_def)
  have 1: "Building.state (add_construction_progress rnd b amount) = UNDER_CONSTRUCTION \<longrightarrow>
            Building.state b = UNDER_CONSTRUCTION"
    using add_construction_progress_state [of rnd b amount] by auto
  have 2: "Building.state b \<noteq> COMPLETE \<and>
          Building.state (add_construction_progress rnd b amount) = COMPLETE \<longrightarrow>
            Building.state b = UNDER_CONSTRUCTION \<and>
            construction_work (get_definition b) \<le> rnd (construction_progress b + amount) \<and>
            \<not> construction_progress (add_construction_progress rnd b amount)
                < construction_work (get_definition (add_construction_progress rnd b amount))"
    using add_construction_progress_complete [of rnd b amount] unfolding t by auto
  from update_one_order [OF assms, of a] 1 2 show ?thesis
    unfolding construction_order_ok_def by blast
qed

lemma full_house_materials:
  "has_all_materials ((new_Building 1 HOUSE 10 10)
       \<lparr> materials_delivered := [(''wood'', 20), (''stone'', 10)] \<rparr>)"
  by (simp add: has_all_materials_def get_required_materials_def new_Building_def
      get_definition_def BUILDING_DEFINITIONS_def needed_step_def)

lemma construction_citizen_fields:
  "target_x construction_citizen = None" "target_y construction_citizen = None"
  "Citizen.state construction_citizen = WORKING"
  "current_task construction_citizen = Some (BuildingRef 0)"
  "current_job construction_citizen = Some CONSTRUCTION"
  "construction_skill construction_citizen = 0"
  by (simp_all add: construction_citizen_def new_Citizen_def assign_task_def)

lemma construction_work_ten: "construction_work_done (\<lambda>v. v) 0 10 = 100"
  by (simp add: construction_work_done_def)

lemma construction_house:
  "building_store construction_world 0
     = (new_Building 1 HOUSE 10 10)\<lparr> materials_delivered := [(''wood'', 20), (''stone'', 10)] \<rparr>"
  by (simp add: construction_world_def)

lemma construction_progress_step:
  "add_construction_progress (\<lambda>v. v)
     ((new_Building 1 HOUSE 10 10)
        \<lparr> materials_delivered := [(''wood'', 20), (''stone'', 10)],
          Building.state := UNDER_CONSTRUCTION \<rparr>) 100
   = (new_Building 1 HOUSE 10 10)
        \<lparr> materials_delivered := [(''wood'', 20), (''stone'', 10)],
          Building.state := COMPLETE, construction_progress := 100, is_active := True \<rparr>"
  by (simp add: add_construction_progress_def get_definition_def BUILDING_DEFINITIONS_def
      new_Building_def)

lemma construction_task_step:
  "update_construction (\<lambda>v. v) tiles 10 (construction_citizen, construction_world) =
     Inr (clear_task construction_citizen,
          construction_world\<lparr> building_store := (building_store construction_world)
            (0 := (new_Building 1 HOUSE 10 10)
                 \<lparr> materials_delivered := [(''wood'', 20), (''stone'', 10)],
                   Building.state := COMPLETE, construction_progress := 100,
                   is_active := True \<rparr>) \<rparr>)"
proof -
  have r: "has_reached_target construction_citizen = Inr True"
    by (simp add: has_reached_target_def construction_citizen_fields)
  have s: "Building.state (new_Building 1 HOUSE 10 10) = PLANNED"
    by (simp add: new_Building_def)
  have k: "construction_skill (construction_citizen\<lparr> Citizen.state := WORKING \<rparr>) = 0"
    by (simp add: construction_citizen_fields)
  have c: "clear_task (construction_citizen\<lparr> Citizen.state := WORKING \<rparr>)
             = clear_task construction_citizen"
    by (simp add: clear_task_def)
  show ?thesis
    unfolding update_construction_def
    by (simp add: construction_citizen_fields construction_house s full_house_materials
        Let_def r bind_err_def k construction_work_ten construction_progress_step c
        split: prod.splits)
qed

lemma construction_step:
  "update_one (\<lambda>v. v) pf tiles chk 10 (construction_citizen, construction_world) =
     Inr (clear_task construction_citizen,
          construction_world\<lparr> building_store := (building_store construction_world)
            (0 := (new_Building 1 HOUSE 10 10)
                 \<lparr> materials_delivered := [(''wood'', 20), (''stone'', 10)],
                   Building.state := COMPLETE, construction_progress := 100,
                   is_active := True \<rparr>) \<rparr>)"
proof -
  have u: "update_citizen construction_citizen 10 = Inr construction_citizen"
    by (simp add: update_citizen_def construction_citizen_fields)
  show ?thesis
    by (simp add: update_one_def u bind_err_def construction_citizen_fields
        update_citizen_task_def construction_task_step)
qed

theorem construction_ordering_witness:
  "Building.state (building_store construction_world 0) = PLANNED \<and>
   has_all_materials (building_store construction_world 0) \<and>
   construction_progress (building_store construction_world 0) = 0 \<and>
   construction_work_done (\<lambda>v. v) (construction_skill construction_citizen) 10 = 100 \<and>
   (\<exists>c' w'. update_one (\<lambda>v. v) (\<lambda>_ _ _ _ _ _. None) () None 10
              (construction_citizen, construction_world) = Inr (c', w') \<and>
      Building.state (building_store w' 0) = COMPLETE \<and>
      construction_progress (building_store w' 0) = 100 \<and>
      construction_work (get_definition (building_store w' 0)) = 100)"
proof -
  let ?w' = "construction_world\<lparr> building_store := (building_store construction_world)
            (0 := (new_Building 1 HOUSE 10 10)
                 \<lparr> materials_delivered := [(''wood'', 20), (''stone'', 10)],
                   Building.state := COMPLETE, construction_progress := 100,
                   is_active := True \<rparr>) \<rparr>"
  have s: "update_one (\<lambda>v. v) (\<lambda>_ _ _ _ _ _. None) () None 10
              (construction_citizen, construction_world) = Inr (clear_task construction_citizen, ?w')"
    by (rule construction_step)
  have p: "Building.state (building_store construction_world 0) = PLANNED"
    "construction_progress (building_store construction_world 0) = 0"
    by (simp_all add: construction_world_def new_Building_def)
  have m: "has_all_materials (building_store construction_world 0)"
    by (simp add: construction_world_def full_house_materials)
  have d: "construction_work (get_definition (building_store ?w' 0)) = 100"
    by (simp add: get_definition_def BUILDING_DEFINITIONS_def new_Building_def)
  have k: "construction_work_done (\<lambda>v. v) (construction_skill construction_citizen) 10 = 100"
    by (simp add: construction_citizen_fields construction_work_ten)
  from construction_ordering [OF s, where a = 0
      and b = "building_store construction_world 0" and amount = 100] s p m d k
  show ?thesis
    by simp
qed

lemma sum_dict_set:
  "sum_list (dict_values (dict_set d k (dict_get d k 0 + a))) = sum_list (dict_values d) + (a::int)"
  by (induction d) (auto simp: dict_values_def)

lemma move_citizen_to_carrying:
  "move_citizen_to pf tiles w c tx ty = Inr c1 \<Longrightarrow>
   carrying_amount c1 = carrying_amount c \<and> carrying_resource c1 = carrying_resource c"
  by (auto simp: move_citizen_to_def set_target_def Let_def bind_err_def float_operand_def
      split: if_splits option.splits)

lemma clear_task_carrying [simp]:
  "carrying_amount (clear_task c) = carrying_amount c"
  "carrying_resource (clear_task c) = carrying_resource c"
  by (simp_all add: clear_task_def)

text \<open>
  The carrying branch of \<open>_update_gathering\<close>: the outcome for a citizen who has moved
  and arrived, who has moved and not arrived, and the cases that raise.
\<close>

lemma update_gathering_carried:
  assumes "current_task c = Some (ResourceRef a)" and "carrying_resource c = Some k"
  shows "update_gathering pf tiles chk dt (c, w) =
     bind_err (move_citizen_to pf tiles w c (fst (get_stockpile_location w))
                 (snd (get_stockpile_location w))) (\<lambda>c1.
       bind_err (has_reached_target c1) (\<lambda>reached.
         if reached then
           if (case chk of None \<Rightarrow> True | Some check \<Rightarrow> check w (carrying_amount c1))
             then Inr (clear_task (c1\<lparr> carrying_resource := None, carrying_amount := 0 \<rparr>),
                       w\<lparr> resources := dict_set (resources w) k
                                         (dict_get (resources w) k 0 + carrying_amount c1) \<rparr>)
           else Inr (clear_task (c1\<lparr> carrying_resource := None, carrying_amount := 0 \<rparr>), w)
         else Inr (c1, w)))"
  using assms
  by (cases chk)
     (simp_all add: update_gathering_def Let_def split: prod.splits cong del: if_weak_cong)

lemma update_gathering_not_carried:
  assumes "carrying_resource c = None"
    and "update_gathering pf tiles chk dt (c, w) = Inr (c', w')"
  shows "resources w' = resources w"
  using assms
  by (auto simp: update_gathering_def Let_def bind_err_def
      split: option.splits TaskRef.splits prod.splits sum.splits if_splits)

lemma update_gathering_no_task:
  assumes "\<forall>a. current_task c \<noteq> Some (ResourceRef a)"
    and "update_gathering pf tiles chk dt (c, w) = Inr (c', w')"
  shows "w' = w"
  using assms
  by (auto simp: update_gathering_def split: option.splits TaskRef.splits)

lemma used_resources_cong:
  "resources w' = resources w \<Longrightarrow> get_current_storage_used w' = get_current_storage_used w"
  by (simp add: get_current_storage_used_def)

lemma update_gathering_used:
  assumes "update_gathering pf tiles (Some can_add_resources) dt (c, w) = Inr (c', w')"
  shows "get_current_storage_used w' = get_current_storage_used w \<or>
   (get_current_storage_used w' = get_current_storage_used w + carrying_amount c \<and>
    can_add_resources w (carrying_amount c))"
proof (cases "\<exists>a. current_task c = Some (ResourceRef a)")
  case False
  then have "\<forall>a. current_task c \<noteq> Some (ResourceRef a)" by blast
  from update_gathering_no_task [OF this assms]
  show ?thesis by simp
next
  case True
  then obtain a where t: "current_task c = Some (ResourceRef a)" by blast
  show ?thesis
  proof (cases "carrying_resource c")
    case None
    from update_gathering_not_carried [OF None assms]
    show ?thesis
      by (simp add: get_current_storage_used_def)
  next
    case (Some k)
    from assms obtain c1 reached where
      m: "move_citizen_to pf tiles w c (fst (get_stockpile_location w))
            (snd (get_stockpile_location w)) = Inr c1"
      and r: "has_reached_target c1 = Inr reached"
      and w': "w' = (if reached \<and> can_add_resources w (carrying_amount c1)
             then w\<lparr> resources := dict_set (resources w) k
                                       (dict_get (resources w) k 0 + carrying_amount c1) \<rparr>
           else w)"
      unfolding update_gathering_carried [OF t Some]
      by (auto simp: bind_err_def split: sum.splits if_splits)
    have ca: "carrying_amount c1 = carrying_amount c"
      using move_citizen_to_carrying [OF m] by simp
    show ?thesis
      unfolding w' ca by (simp add: get_current_storage_used_def sum_dict_set)
  qed
qed

lemma update_gathering_capacity:
  assumes "update_gathering pf tiles chk dt (c, w) = Inr (c', w')"
  shows "get_total_storage_capacity w' = get_total_storage_capacity w"
  using update_gathering_store [OF assms] by (simp add: get_total_storage_capacity_def)

lemma update_gathering_cap:
  assumes "get_current_storage_used w \<le> get_total_storage_capacity w"
    and "update_gathering pf tiles (Some can_add_resources) dt (c, w) = Inr (c', w')"
  shows "get_current_storage_used w' \<le> get_total_storage_capacity w'"
  using update_gathering_used [OF assms(2)] assms(1)
  unfolding update_gathering_capacity [OF assms(2)]
  by (auto simp: can_add_resources_def get_storage_remaining_def)

lemma deposit_attempts_cap:
  "get_current_storage_used w \<le> get_total_storage_capacity w \<Longrightarrow>
   get_current_storage_used (deposit_attempts pf tiles steps w)
     \<le> get_total_storage_capacity (deposit_attempts pf tiles steps w)"
proof (induction steps arbitrary: w)
  case Nil
  then show ?case by simp
next
  case (Cons s steps)
  obtain c dt where s: "s = (c, dt)" by (cases s)
  show ?case
  proof (cases "update_gathering pf tiles (Some can_add_resources) dt (c, w)")
    case (Inl e)
    then show ?thesis
      unfolding s deposit_attempts.simps using Cons.IH [OF Cons.prems] by simp
  next
    case (Inr cw)
    obtain c' w' where cw: "cw = (c', w')" by (cases cw)
    from update_gathering_cap [OF Cons.prems Inr [unfolded cw]]
    have "get_current_storage_used w' \<le> get_total_storage_capacity w'" .
    from Cons.IH [OF this] show ?thesis
      unfolding s deposit_attempts.simps by (simp add: Inr cw)
  qed
qed

lemma deposit_at_capacity:
  assumes full: "get_current_storage_used w = get_total_storage_capacity w"
    and t: "current_task c = Some (ResourceRef a)"
    and k: "carrying_resource c = Some k"
    and nn: "0 \<le> carrying_amount c"
    and arrived: "bind_err (move_citizen_to pf tiles w c
                    (fst (get_stockpile_location w)) (snd (get_stockpile_location w)))
                    has_reached_target = Inr True"
  shows "\<exists>c' w'. update_gathering pf tiles (Some can_add_resources) dt (c, w) = Inr (c', w') \<and>
           get_current_storage_used w' = get_current_storage_used w \<and>
           carrying_resource c' = None \<and> carrying_amount c' = 0"
proof -
  from arrived obtain c1 where
    m: "move_citizen_to pf tiles w c (fst (get_stockpile_location w))
          (snd (get_stockpile_location w)) = Inr c1"
    and r: "has_reached_target c1 = Inr True"
    by (auto simp: bind_err_def split: sum.splits)
  have ca: "carrying_amount c1 = carrying_amount c"
    using move_citizen_to_carrying [OF m] by simp
  let ?cleared = "clear_task (c1\<lparr> carrying_resource := None, carrying_amount := 0 \<rparr>)"
  have eq: "update_gathering pf tiles (Some can_add_resources) dt (c, w) =
          (if can_add_resources w (carrying_amount c)
             then Inr (?cleared, w\<lparr> resources := dict_set (resources w) k
                                       (dict_get (resources w) k 0 + carrying_amount c) \<rparr>)
           else Inr (?cleared, w))"
    unfolding update_gathering_carried [OF t k] by (simp add: m r bind_err_def ca)
  have z: "can_add_resources w (carrying_amount c) \<Longrightarrow> carrying_amount c = 0"
    using full nn by (simp add: can_add_resources_def get_storage_remaining_def)
  show ?thesis
  proof (cases "can_add_resources w (carrying_amount c)")
    case True
    with z sum_dict_set [of "resources w" k 0] show ?thesis
      by (simp add: eq get_current_storage_used_def)
  next
    case False
    then show ?thesis by (simp add: eq)
  qed
qed

text \<open>
  Claim C7. With the capacity check the game state supplies, a stockpile that holds at
  most the total storage capacity still does so after any sequence of gathering updates
  (each of which may be a deposit attempt) by any citizens. A deposit attempt by a citizen
  who has arrived at the stockpile with a non-negative cargo, made when the stockpile is
  exactly at capacity, returns, leaves the stockpile total unchanged and clears the cargo.
\<close>

theorem storage_cap_enforced:
  assumes "get_current_storage_used w \<le> get_total_storage_capacity w"
  shows "get_current_storage_used (deposit_attempts pf tiles steps w)
           \<le> get_total_storage_capacity (deposit_attempts pf tiles steps w) \<and>
         (get_current_storage_used w = get_total_storage_capacity w \<and>
          current_task c = Some (ResourceRef a) \<and> carrying_resource c = Some k \<and>
          0 \<le> carrying_amount c \<and>
          bind_err (move_citizen_to pf tiles w c
             (fst (get_stockpile_location w)) (snd (get_stockpile_location w)))
             has_reached_target = Inr True \<longrightarrow>
          (\<exists>c' w'. update_gathering pf tiles (Some can_add_resources) dt (c, w) = Inr (c', w') \<and>
             get_current_storage_used w' = get_current_storage_used w \<and>
             carrying_resource c' = None \<and> carrying_amount c' = 0))"
proof (intro conjI impI)
  show "get_current_storage_used (deposit_attempts pf tiles steps w)
          \<le> get_total_storage_capacity (deposit_attempts pf tiles steps w)"
    using assms by (rule deposit_attempts_cap)
next
  assume h: "get_current_storage_used w = get_total_storage_capacity w \<and>
          current_task c = Some (ResourceRef a) \<and> carrying_resource c = Some k \<and>
          0 \<le> carrying_amount c \<and>
          bind_err (move_citizen_to pf tiles w c
             (fst (get_stockpile_location w)) (snd (get_stockpile_location w)))
             has_reached_target = Inr True"
  then have h1: "get_current_storage_used w = get_total_storage_capacity w"
    and h2: "current_task c = Some (ResourceRef a)" and h3: "carrying_resource c = Some k"
    and h4: "0 \<le> carrying_amount c"
    and h5: "bind_err (move_citizen_to pf tiles w c
             (fst (get_stockpile_location w)) (snd (get_stockpile_location w)))
             has_reached_target = Inr True"
    by simp_all
  show "\<exists>c' w'. update_gathering pf tiles (Some can_add_resources) dt (c, w) = Inr (c', w') \<and>
             get_current_storage_used w' = get_current_storage_used w \<and>
             carrying_resource c' = None \<and> carrying_amount c' = 0"
    by (rule deposit_at_capacity [OF h1 h2 h3 h4 h5])
qed

theorem storage_cap_enforced_witness:
  "get_current_storage_used storage_world = 500 \<and>
   get_total_storage_capacity storage_world = 500 \<and>
   carrying_resource storage_citizen = Some ''wood'' \<and> carrying_amount storage_citizen = 10 \<and>
   bind_err (move_citizen_to (\<lambda>_ _ _ _ _ _. None) () storage_world storage_citizen
      (fst (get_stockpile_location storage_world)) (snd (get_stockpile_location storage_world)))
      has_reached_target = Inr True \<and>
   get_current_storage_used
     (deposit_attempts (\<lambda>_ _ _ _ _ _. None) () [(storage_citizen, 1 / 60)] storage_world) = 500 \<and>
   (\<exists>c' w'. update_gathering (\<lambda>_ _ _ _ _ _. None) () (Some can_add_resources) (1 / 60)
        (storage_citizen, storage_world) = Inr (c', w') \<and>
      get_current_storage_used w' = 500 \<and>
      carrying_resource c' = None \<and> carrying_amount c' = 0)"
proof -
  have u: "get_current_storage_used storage_world = 500"
    by (simp add: get_current_storage_used_def storage_world_def dict_values_def)
  have t: "get_total_storage_capacity storage_world = 500"
    by (simp add: get_total_storage_capacity_def storage_world_def)
  have l: "get_stockpile_location storage_world = (5, 5)"
    by (simp add: get_stockpile_location_def storage_world_def)
  have m: "move_citizen_to (\<lambda>_ _ _ _ _ _. None) () storage_world storage_citizen 5 5
             = Inr storage_citizen"
    by (simp add: move_citizen_to_def storage_citizen_def new_Citizen_def path_truthy_def)
  have r: "has_reached_target storage_citizen = Inr True"
    by (simp add: has_reached_target_def storage_citizen_def new_Citizen_def float_operand_def
        bind_err_def)
  have a: "bind_err (move_citizen_to (\<lambda>_ _ _ _ _ _. None) () storage_world storage_citizen
      (fst (get_stockpile_location storage_world)) (snd (get_stockpile_location storage_world)))
      has_reached_target = Inr True"
    by (simp add: l m r bind_err_def)
  have c: "current_task storage_citizen = Some (ResourceRef 0)"
    "carrying_resource storage_citizen = Some ''wood''" "carrying_amount storage_citizen = 10"
    by (simp_all add: storage_citizen_def new_Citizen_def)
  have le: "get_current_storage_used storage_world \<le> get_total_storage_capacity storage_world"
    by (simp add: u t)
  have full: "\<not> can_add_resources storage_world 10"
    by (simp add: can_add_resources_def get_storage_remaining_def u t)
  have g: "update_gathering (\<lambda>_ _ _ _ _ _. None) () (Some can_add_resources) (1 / 60)
        (storage_citizen, storage_world)
      = Inr (clear_task (storage_citizen\<lparr> carrying_resource := None, carrying_amount := 0 \<rparr>),
             storage_world)"
    unfolding update_gathering_carried [OF c(1,2)]
    by (simp add: l m r bind_err_def c(3) full)
  have d: "deposit_attempts (\<lambda>_ _ _ _ _ _. None) () [(storage_citizen, 1 / 60)] storage_world
             = storage_world"
    by (simp add: g)
  from storage_cap_enforced [OF le, of "\<lambda>_ _ _ _ _ _. None" "()" "[(storage_citizen, 1 / 60)]"
      storage_citizen 0 "''wood''" "1 / 60"]
  show ?thesis
    by (simp add: u t a c d g)
qed

lemma grm_house_empty: "get_required_materials (new_Building 1 HOUSE 10 10) = [(''wood'', 20), (''stone'', 10)]"
  by (simp add: get_required_materials_def new_Building_def get_definition_def BUILDING_DEFINITIONS_def needed_step_def)

lemma house_state: "Building.state (new_Building 1 HOUSE 10 10) = PLANNED"
  by (simp add: new_Building_def)

lemma house_center: "get_center (new_Building 1 HOUSE 10 10) = (23 / 2, 23 / 2)"
  by (simp add: get_center_def new_Building_def get_definition_def BUILDING_DEFINITIONS_def)

lemma tick1: "update_all rnd pf tiles (Some can_add_resources) dt [hauling_citizen] hauling_world
   = Inr ([assign_task hauling_citizen (BuildingRef 0) HAULING], hauling_world)"
  by (simp add: update_one_def bind_err_def update_citizen_def hauling_citizen_def new_Citizen_def
      assign_work_def find_material_hauling_task_def hauling_world_def grm_house_empty house_state)

lemma tick2: "update_all rnd pf tiles (Some can_add_resources) dt [assign_task hauling_citizen (BuildingRef 0) HAULING] hauling_world
   = Inr ([hauling_citizen2], hauling_world2)"
  by (simp add: update_one_def bind_err_def update_citizen_def hauling_citizen_def new_Citizen_def
      assign_task_def update_citizen_task_def update_hauling_def has_reached_target_def
      get_stockpile_location_def hauling_world_def grm_house_empty hauling_citizen2_def hauling_world2_def house_state house_center)

lemma grm_house5: "get_required_materials ((new_Building 1 HOUSE 10 10)\<lparr> materials_delivered := [(''wood'', 5)] \<rparr>) = [(''wood'', 15), (''stone'', 10)]"
  by (simp add: get_required_materials_def new_Building_def get_definition_def BUILDING_DEFINITIONS_def needed_step_def)

lemma deliver5: "deliver_material (new_Building 1 HOUSE 10 10) ''wood'' 5 = (new_Building 1 HOUSE 10 10)\<lparr> materials_delivered := [(''wood'', 5)] \<rparr>"
  by (simp add: deliver_material_def new_Building_def)

lemma tick3: "update_all rnd pf tiles (Some can_add_resources) dt [hauling_citizen2] hauling_world2
   = Inr ([hauling_citizen2\<lparr> carrying_resource := None, carrying_amount := 0 \<rparr>], hauling_world3)"
  by (simp add: update_one_def bind_err_def update_citizen_def hauling_citizen_def new_Citizen_def
      assign_task_def update_citizen_task_def update_hauling_def has_reached_target_def
      hauling_world_def hauling_citizen2_def hauling_world2_def hauling_world3_def house_center
      deliver5 grm_house5)

lemma three_ticks:
  "ticks rnd pf tiles dt 3 ([hauling_citizen], hauling_world)
     = Inr ([hauling_citizen2\<lparr> carrying_resource := None, carrying_amount := 0 \<rparr>], hauling_world3)"
  by (simp add: numeral_3_eq_3 bind_err_def tick1 tick2 tick3 del: update_all.simps)

text \<open>
  Claim C2, evaluated on the code. A citizen standing at (30, 30) is given the hauling
  task for a planned house at (10, 10) whose centre is (11.5, 11.5); there is no wagon,
  so the stockpile is at (5, 5). The citizen has no movement target, so
  \<open>has_reached_target\<close> holds at once: the second tick picks up 5 wood and the third
  tick delivers it, while the citizen has not moved and is not at the building's centre.
\<close>

theorem hauling_delivers_away_from_building:
  "ticks rnd pf tiles dt 2 ([hauling_citizen], hauling_world)
     = Inr ([hauling_citizen2], hauling_world2) \<and>
   ticks rnd pf tiles dt 3 ([hauling_citizen], hauling_world)
     = Inr ([hauling_citizen2\<lparr> carrying_resource := None, carrying_amount := 0 \<rparr>],
            hauling_world3) \<and>
   Citizen.x hauling_citizen2 = 30 \<and> Citizen.y hauling_citizen2 = Some 30 \<and>
   get_center (building_store hauling_world2 0) = (23 / 2, 23 / 2) \<and>
   \<not> near_center hauling_citizen2 (building_store hauling_world2 0) \<and>
   materials_delivered (building_store hauling_world2 0) = [] \<and>
   materials_delivered (building_store hauling_world3 0) = [(''wood'', 5)]"
proof -
  have two: "ticks rnd pf tiles dt 2 ([hauling_citizen], hauling_world)
     = Inr ([hauling_citizen2], hauling_world2)"
    by (simp add: numeral_2_eq_2 bind_err_def tick1 tick2 del: update_all.simps)
  have far: "\<not> near_center hauling_citizen2 (building_store hauling_world2 0)"
  proof -
    have "(1/2::real) \<le> sqrt ((30 - 23/2)\<^sup>2 + (30 - 23/2)\<^sup>2)"
      by (rule real_le_rsqrt) (simp add: power2_eq_square)
    then show ?thesis
      by (simp add: near_center_def hauling_citizen2_def hauling_citizen_def new_Citizen_def
          assign_task_def hauling_world2_def hauling_world_def house_center)
  qed
  have pos: "Citizen.x hauling_citizen2 = 30 \<and> Citizen.y hauling_citizen2 = Some 30"
    by (simp add: hauling_citizen2_def hauling_citizen_def new_Citizen_def assign_task_def)
  have c: "get_center (building_store hauling_world2 0) = (23 / 2, 23 / 2)"
    by (simp add: hauling_world2_def hauling_world_def house_center)
  have m2: "materials_delivered (building_store hauling_world2 0) = []"
    by (simp add: hauling_world2_def hauling_world_def new_Building_def)
  have m3: "materials_delivered (building_store hauling_world3 0) = [(''wood'', 5)]"
    by (simp add: hauling_world3_def)
  from two three_ticks far pos c m2 m3 show ?thesis by simp
qed

section \<open>Properties of the pathfinder\<close>

lemma back_positions_nonempty [simp]: "back_positions n \<noteq> []"
  by (induction n rule: back_positions.induct) simp_all

lemma back_positions_hd: "hd (back_positions n) = (node_x n, node_y n)"
  by (induction n rule: back_positions.induct) simp_all

lemma is_walkable_good:
  "is_walkable px py tiles obstacles = Inr True \<Longrightarrow>
   (px, py) \<notin> obstacles \<and> non_water tiles (px, py)"
  by (auto simp: is_walkable_def non_water_def bind_err_def split: if_splits sum.splits)

lemma node_ok_child:
  assumes "node_ok w h tiles obstacles start current"
    and "good_pos w h tiles obstacles (px, py)"
  shows "node_ok w h tiles obstacles start (Node f g hc px py (Some current))"
  using assms by (simp add: node_ok_def)

lemma expand_neighbors_ok:
  assumes push: "\<forall>heap node. set (push heap node) \<subseteq> insert node (set heap)"
    and cur: "node_ok w h tiles obstacles start current"
  shows "\<forall>n \<in> set open_list. node_ok w h tiles obstacles start n \<Longrightarrow>
     expand_neighbors push w h goal_x goal_y tiles obstacles closed_set current dirs open_list
       = Inr open2 \<Longrightarrow>
     \<forall>n \<in> set open2. node_ok w h tiles obstacles start n"
proof (induction dirs arbitrary: open_list)
  case Nil
  then show ?case by simp
next
  case (Cons d dirs)
  obtain dx dy where d: "d = (dx, dy)" by (cases d)
  let ?nx = "node_x current + dx" and ?ny = "node_y current + dy"
  show ?case
  proof (cases "0 \<le> ?nx \<and> ?nx < w \<and> 0 \<le> ?ny \<and> ?ny < h \<and> (?nx, ?ny) \<notin> closed_set")
    case False
    with Cons.prems(2) have
      "expand_neighbors push w h goal_x goal_y tiles obstacles closed_set current dirs open_list
         = Inr open2"
      by (auto simp: d Let_def split: if_splits)
    from Cons.IH [OF Cons.prems(1) this] show ?thesis .
  next
    case True
    show ?thesis
    proof (cases "is_walkable ?nx ?ny tiles obstacles")
      case (Inl e)
      with True Cons.prems(2) show ?thesis
        by (simp add: d Let_def bind_err_def)
    next
      case (Inr walkable)
      show ?thesis
      proof (cases walkable)
        case False
        with True Inr Cons.prems(2) have
          "expand_neighbors push w h goal_x goal_y tiles obstacles closed_set current dirs
             open_list = Inr open2"
          by (simp add: d Let_def bind_err_def)
        from Cons.IH [OF Cons.prems(1) this] show ?thesis .
      next
        case wk: True
        define nb where "nb = Node (g_cost current + (if dx \<noteq> 0 \<and> dy \<noteq> 0 then 1414 / 1000 else 1)
                  + heuristic ?nx ?ny goal_x goal_y)
             (g_cost current + (if dx \<noteq> 0 \<and> dy \<noteq> 0 then 1414 / 1000 else 1))
             (heuristic ?nx ?ny goal_x goal_y) ?nx ?ny (Some current)"
        from True Inr wk Cons.prems(2) have run:
          "expand_neighbors push w h goal_x goal_y tiles obstacles closed_set current dirs
             (push open_list nb) = Inr open2"
          by (simp add: d Let_def bind_err_def nb_def)
        have "good_pos w h tiles obstacles (?nx, ?ny)"
          using True is_walkable_good [of ?nx ?ny tiles obstacles] Inr wk
          by (simp add: good_pos_def)
        then have "node_ok w h tiles obstacles start nb"
          unfolding nb_def using cur by (intro node_ok_child) simp_all
        with Cons.prems(1) push have "\<forall>n \<in> set (push open_list nb). node_ok w h tiles obstacles start n"
          by blast
        from Cons.IH [OF this run] show ?thesis .
      qed
    qed
  qed
qed

lemma astar_loop_ok:
  assumes disc: "heap_discipline push pop"
  shows "\<forall>n \<in> set open_list. node_ok w h tiles obstacles start n \<Longrightarrow>
     astar_loop fuel push pop w h goal_x goal_y tiles obstacles open_list closed_set
       = Inr (Some path) \<Longrightarrow>
     \<exists>node. node_ok w h tiles obstacles start node \<and> path = reconstruct_path node \<and>
        node_x node = goal_x \<and> node_y node = goal_y"
proof (induction fuel arbitrary: open_list closed_set)
  case 0
  then show ?case by simp
next
  case (Suc fuel)
  from Suc.prems(2) have ne: "open_list \<noteq> []" by (auto split: if_splits)
  obtain current open1 where pop: "pop open_list = (current, open1)" by (cases "pop open_list")
  from disc ne pop have mem: "current \<in> set open_list" and sub: "set open1 \<subseteq> set open_list"
    unfolding heap_discipline_def by (metis fst_conv, metis snd_conv)
  from mem Suc.prems(1) have cur: "node_ok w h tiles obstacles start current" by blast
  show ?case
  proof (cases "node_x current = goal_x \<and> node_y current = goal_y")
    case True
    with Suc.prems(2) ne pop have "path = reconstruct_path current" by simp
    with cur True show ?thesis by blast
  next
    case False
    let ?closed1 = "insert (node_x current, node_y current) closed_set"
    from Suc.prems(2) ne pop False obtain open2 where
      ex: "expand_neighbors push w h goal_x goal_y tiles obstacles ?closed1 current DIRECTIONS open1
             = Inr open2"
      and rest: "astar_loop fuel push pop w h goal_x goal_y tiles obstacles open2 ?closed1
             = Inr (Some path)"
      by (auto simp: Let_def bind_err_def split: sum.splits)
    have push: "\<forall>heap node. set (push heap node) \<subseteq> insert node (set heap)"
      using disc unfolding heap_discipline_def by blast
    have "\<forall>n \<in> set open1. node_ok w h tiles obstacles start n"
      using sub Suc.prems(1) by blast
    from expand_neighbors_ok [OF push cur this ex]
    have "\<forall>n \<in> set open2. node_ok w h tiles obstacles start n" .
    from Suc.IH [OF this rest] show ?thesis .
  qed
qed


lemma fold_insert_row:
  "fold (\<lambda>bx obs'. if P bx then insert (bx, by) obs' else obs') xs obs
     = obs \<union> {(bx, by) |bx. bx \<in> set xs \<and> P bx}"
  by (induction xs arbitrary: obs) auto

lemma fold_insert_rows:
  "fold (\<lambda>by obs. fold (\<lambda>bx obs'. if P bx by then insert (bx, by) obs' else obs') xs obs) ys obs0
     = obs0 \<union> {(bx, by) |bx by. bx \<in> set xs \<and> by \<in> set ys \<and> P bx by}"
proof (induction ys arbitrary: obs0)
  case Nil
  show ?case by simp
next
  case (Cons a ys)
  have "fold (\<lambda>by obs. fold (\<lambda>bx obs'. if P bx by then insert (bx, by) obs' else obs') xs obs)
          (a # ys) obs0
        = fold (\<lambda>by obs. fold (\<lambda>bx obs'. if P bx by then insert (bx, by) obs' else obs') xs obs)
            ys (obs0 \<union> {(bx, a) |bx. bx \<in> set xs \<and> P bx a})"
    using fold_insert_row [of "\<lambda>bx. P bx a" a xs obs0] by simp
  also have "\<dots> = (obs0 \<union> {(bx, a) |bx. bx \<in> set xs \<and> P bx a}) \<union>
       {(bx, by) |bx by. bx \<in> set xs \<and> by \<in> set ys \<and> P bx by}"
    by (rule Cons.IH)
  also have "\<dots> = obs0 \<union>
       {(bx, by) |bx by. bx \<in> set xs \<and> by \<in> set (a # ys) \<and> P bx by}"
    by auto
  finally show ?case .
qed

lemma add_footprint_set:
  "add_footprint w h obs b =
     obs \<union> {(bx, by) |bx by. occupies_tile b bx by \<and> 0 \<le> bx \<and> bx < w \<and> 0 \<le> by \<and> by < h}"
  unfolding add_footprint_def
    fold_insert_rows [of "\<lambda>bx by. 0 \<le> bx \<and> bx < w \<and> 0 \<le> by \<and> by < h"]
  by (auto simp: occupies_tile_def)

lemma fold_add_footprint:
  "fold (\<lambda>b obs. add_footprint w h obs b) bs obs0 =
     obs0 \<union> {(bx, by) |bx by. (\<exists>b \<in> set bs. occupies_tile b bx by) \<and>
                     0 \<le> bx \<and> bx < w \<and> 0 \<le> by \<and> by < h}"
proof (induction bs arbitrary: obs0)
  case Nil
  show ?case by simp
next
  case (Cons b bs)
  have "fold (\<lambda>b obs. add_footprint w h obs b) (b # bs) obs0
          = fold (\<lambda>b obs. add_footprint w h obs b) bs (add_footprint w h obs0 b)"
    by simp
  also have "\<dots> = add_footprint w h obs0 b \<union>
       {(bx, by) |bx by. (\<exists>b \<in> set bs. occupies_tile b bx by) \<and>
                     0 \<le> bx \<and> bx < w \<and> 0 \<le> by \<and> by < h}"
    by (rule Cons.IH)
  also have "\<dots> = obs0 \<union>
       {(bx, by) |bx by. (\<exists>b \<in> set (b # bs). occupies_tile b bx by) \<and>
                     0 \<le> bx \<and> bx < w \<and> 0 \<le> by \<and> by < h}"
    unfolding add_footprint_set by auto
  finally show ?case .
qed

lemma obstacle_free_off_footprint:
  assumes "p \<notin> building_obstacle_map w h building_list - {goal}"
    and "0 \<le> fst p" "fst p < w" "0 \<le> snd p" "snd p < h"
    and "on_footprint building_list p"
  shows "p = goal"
proof (cases building_list)
  case None
  with assms(6) show ?thesis by (simp add: on_footprint_def)
next
  case (Some bs)
  with assms(6) have "\<exists>b \<in> set bs. occupies_tile b (fst p) (snd p)"
    by (simp add: on_footprint_def list_ex_iff)
  with assms(2-5) have "(fst p, snd p) \<in> building_obstacle_map w h building_list"
    unfolding Some building_obstacle_map_def option.case fold_add_footprint by blast
  with assms(1) show ?thesis by simp
qed

lemma astar_loop_step:
  "0 < n \<Longrightarrow>
   astar_loop n push pop w h goal_x goal_y tiles obstacles open_list closed_set =
     (if open_list = [] then Inr None
      else
        case pop open_list of (current, open1) \<Rightarrow>
          if node_x current = goal_x \<and> node_y current = goal_y then
            Inr (Some (reconstruct_path current))
          else
            let closed1 = insert (node_x current, node_y current) closed_set
            in bind_err
                 (expand_neighbors push w h goal_x goal_y tiles obstacles closed1 current
                    DIRECTIONS open1)
                 (\<lambda>open2. astar_loop (n - 1) push pop w h goal_x goal_y tiles obstacles open2
                             closed1))"
proof (cases n)
  case 0
  assume "0 < n"
  with 0 show ?thesis by simp
next
  case (Suc m)
  have m: "n - 1 = m" using Suc by simp
  show ?thesis unfolding m unfolding Suc by (rule astar_loop.simps(2))
qed

lemma min_by_mem: "min_by key best xs \<in> set (best # xs)"
  by (induction xs arbitrary: best) (simp, force)

lemma heap_discipline_ref: "heap_discipline heappush_ref heappop_ref"
proof -
  have "fst (heappop_ref heap) \<in> set heap \<and> set (snd (heappop_ref heap)) \<subseteq> set heap"
    if "heap \<noteq> []" for heap
  proof -
    from that have "hd heap # tl heap = heap" by simp
    with min_by_mem [of f_cost "hd heap" "tl heap"]
    have "min_by f_cost (hd heap) (tl heap) \<in> set heap" by simp
    then show ?thesis
      using set_remove1_subset [of "min_by f_cost (hd heap) (tl heap)" heap]
      by (simp add: heappop_ref_def Let_def)
  qed
  then show ?thesis
    by (simp add: heap_discipline_def heappush_ref_def)
qed

text \<open>
  Claim C3, as the code has it. The start tile is returned unchecked. For every heap
  discipline and every path that \<open>find_path\<close> returns: the path begins at the start
  and ends at the goal, every waypoint is in bounds, and every waypoint after the first
  is on a non-Water tile and lies on no building's footprint unless it is the goal.
\<close>

theorem find_path_valid:
  assumes "heap_discipline push pop"
    and "find_path push pop start_x start_y goal_x goal_y tiles building_list max_iterations
           = Inr (Some path)"
  shows "path \<noteq> [] \<and> hd path = (start_x, start_y) \<and> last path = (goal_x, goal_y) \<and>
         (\<forall>p \<in> set path. in_bounds tiles p) \<and>
         (\<forall>p \<in> set (tl path). non_water tiles p \<and>
            (on_footprint building_list p \<longrightarrow> p = (goal_x, goal_y)))"
proof -
  define w where "w = int (length (hd tiles))"
  define h where "h = int (length tiles)"
  define obstacles where
    "obstacles = building_obstacle_map w h building_list - {(goal_x, goal_y)}"
  from assms(2) have sb: "0 \<le> start_x \<and> start_x < w \<and> 0 \<le> start_y \<and> start_y < h"
    and gb: "0 \<le> goal_x \<and> goal_x < w \<and> 0 \<le> goal_y \<and> goal_y < h"
    by (auto simp: find_path_def Let_def w_def h_def split: if_splits)
  show ?thesis
  proof (cases "start_x = goal_x \<and> start_y = goal_y")
    case True
    with assms(2) sb have "path = [(start_x, start_y)]"
      by (auto simp: find_path_def Let_def w_def h_def split: if_splits)
    with True sb show ?thesis
      by (simp add: in_bounds_def w_def h_def)
  next
    case False
    define start_node where
      "start_node = Node (0 + heuristic start_x start_y goal_x goal_y) 0
                      (heuristic start_x start_y goal_x goal_y) start_x start_y None"
    from assms(2) False sb gb have run:
      "astar_loop (nat max_iterations) push pop w h goal_x goal_y tiles obstacles
         (push [] start_node) {} = Inr (Some path)"
      by (auto simp: find_path_def Let_def w_def h_def obstacles_def start_node_def
          split: if_splits)
    have "node_ok w h tiles obstacles (start_x, start_y) start_node"
      by (simp add: node_ok_def start_node_def)
    moreover have "set (push [] start_node) \<subseteq> {start_node}"
      using assms(1) unfolding heap_discipline_def by (metis empty_set)
    ultimately have "\<forall>n \<in> set (push [] start_node). node_ok w h tiles obstacles (start_x, start_y) n"
      by blast
    from astar_loop_ok [OF assms(1) this run] obtain node where
      ok: "node_ok w h tiles obstacles (start_x, start_y) node"
      and p: "path = reconstruct_path node"
      and g: "node_x node = goal_x" "node_y node = goal_y"
      by blast
    have ne: "path \<noteq> []" by (simp add: p reconstruct_path_def)
    have hd: "hd path = (start_x, start_y)"
      using ok by (simp add: p reconstruct_path_def node_ok_def hd_rev)
    have last: "last path = (goal_x, goal_y)"
      using g by (simp add: p reconstruct_path_def last_rev back_positions_hd)
    have "rev (tl (rev (back_positions node))) = butlast (back_positions node)"
      using butlast_rev [of "rev (back_positions node)"] by simp
    then have "set (rev (tl (rev (back_positions node)))) = set (butlast (back_positions node))"
      by (rule arg_cong)
    then have tl: "set (tl path) = set (butlast (back_positions node))"
      by (simp add: p reconstruct_path_def)
    have good: "good_pos w h tiles obstacles q" if "q \<in> set (tl path)" for q
      using ok that unfolding tl node_ok_def by blast
    have inb: "in_bounds tiles q" if "q \<in> set path" for q
    proof -
      from ne have "path = hd path # tl path" by simp
      with that have "q = hd path \<or> q \<in> set (tl path)" by (metis set_ConsD)
      then show ?thesis
      proof
        assume "q = hd path"
        with hd sb show ?thesis by (simp add: in_bounds_def w_def h_def)
      next
        assume "q \<in> set (tl path)"
        from good [OF this] show ?thesis by (simp add: good_pos_def in_bounds_def w_def h_def)
      qed
    qed
    have walk: "non_water tiles q \<and> (on_footprint building_list q \<longrightarrow> q = (goal_x, goal_y))"
      if "q \<in> set (tl path)" for q
    proof -
      from good [OF that] have gq: "good_pos w h tiles obstacles q" .
      then have "q \<notin> building_obstacle_map w h building_list - {(goal_x, goal_y)}"
        by (simp add: good_pos_def obstacles_def)
      from obstacle_free_off_footprint [OF this] gq show ?thesis
        by (simp add: good_pos_def)
    qed
    from ne hd last inb walk show ?thesis by blast
  qed
qed

lemma strip_path:
  "find_path heappush_ref heappop_ref 0 0 1 0 strip_tiles strip_buildings 1000
     = Inr (Some [(0, 0), (1, 0)])"
  by (simp add: find_path_def strip_tiles_def strip_buildings_def Let_def heuristic_def
      building_obstacle_map_def add_footprint_def new_Building_def get_definition_def
      BUILDING_DEFINITIONS_def heappush_ref_def heappop_ref_def astar_loop_step
      DIRECTIONS_def is_walkable_def tile_at_def py_index_def bind_err_def new_Tile_def
      reconstruct_path_def)


lemma lane_path:
  "find_path heappush_ref heappop_ref 0 0 1 0 lane_tiles lane_buildings 1000
     = Inr (Some [(0, 0), (1, 0)])"
  by (simp add: find_path_def lane_tiles_def lane_buildings_def Let_def heuristic_def
      building_obstacle_map_def add_footprint_def new_Building_def get_definition_def
      BUILDING_DEFINITIONS_def heappush_ref_def heappop_ref_def astar_loop_step
      DIRECTIONS_def is_walkable_def tile_at_def py_index_def bind_err_def new_Tile_def
      reconstruct_path_def)

theorem find_path_valid_witness:
  "heap_discipline heappush_ref heappop_ref \<and>
   find_path heappush_ref heappop_ref 0 0 1 0 lane_tiles lane_buildings 1000
     = Inr (Some [(0, 0), (1, 0)]) \<and>
   in_bounds lane_tiles (0, 0) \<and> in_bounds lane_tiles (1, 0) \<and>
   non_water lane_tiles (1, 0) \<and> on_footprint lane_buildings (1, 0)"
proof -
  have f: "on_footprint lane_buildings (1, 0)"
    by (simp add: on_footprint_def lane_buildings_def occupies_tile_def new_Building_def
        get_definition_def BUILDING_DEFINITIONS_def)
  from find_path_valid [OF heap_discipline_ref lane_path] heap_discipline_ref lane_path f
  show ?thesis by simp
qed

text \<open>
  The claim as stated fails at the start tile: on a strip of a Water tile and a Grass
  tile with a well on the Water tile, the path from (0, 0) to (1, 0) begins on Water
  and on the well's footprint.
\<close>

theorem find_path_start_unchecked_counterexample:
  "find_path heappush_ref heappop_ref 0 0 1 0 strip_tiles strip_buildings 1000
     = Inr (Some [(0, 0), (1, 0)]) \<and>
   \<not> non_water strip_tiles (0, 0) \<and>
   on_footprint strip_buildings (0, 0) \<and> (0, 0) \<noteq> (1::int, 0::int)"
proof -
  have w: "\<not> non_water strip_tiles (0, 0)"
    by (simp add: non_water_def strip_tiles_def tile_at_def py_index_def bind_err_def
        new_Tile_def)
  have f: "on_footprint strip_buildings (0, 0)"
    by (simp add: on_footprint_def strip_buildings_def occupies_tile_def new_Building_def
        get_definition_def BUILDING_DEFINITIONS_def)
  from strip_path w f show ?thesis by simp
qed

section \<open>Properties of the world generator\<close>

lemma random_half [simp]: "random_random half_stream = (1 / 2, half_stream)"
  by (simp add: random_random_def half_stream_def)

lemma terrain_low:
  assumes "elev \<le> 1 / 2"
  shows "\<exists>t. t \<noteq> DIRT \<and>
           get_terrain_from_biome biome_props elev moist half_stream = (t, half_stream)"
  using assms by (simp add: get_terrain_from_biome_def)

lemma clamp_half:
  "n \<le> 1 \<Longrightarrow> clamp01 (0 * (5 / 10) + (n + 1) / 2 * (5 / 10)) \<le> 1 / 2"
  by (auto simp: clamp01_def max_def min_def)

lemma local_elevation_low:
  assumes "\<forall>s a b. - 1 \<le> simplex s a b \<and> simplex s a b \<le> 1"
  shows "generate_local_elevation simplex g px py offset_x offset_y 0 \<le> 1 / 2"
proof -
  let ?a = "detail_noise simplex g (real_of_int (px + offset_x) * (15 / 100))
                (real_of_int (py + offset_y) * (15 / 100))"
  let ?b = "detail_noise simplex g (real_of_int (px + offset_x) * (3 / 10))
                (real_of_int (py + offset_y) * (3 / 10))"
  let ?c = "detail_noise simplex g (real_of_int (px + offset_x) * (6 / 10))
                (real_of_int (py + offset_y) * (6 / 10))"
  have "?a \<le> 1" "?b \<le> 1" "?c \<le> 1"
    using assms by (simp_all add: detail_noise_def)
  then have "?a * (5 / 10) + ?b * (3 / 10) + ?c * (2 / 10) \<le> 1" by linarith
  then show ?thesis
    unfolding generate_local_elevation_def Let_def by (rule clamp_half)
qed

lemma marsh_chunk:
  "for_each (\<lambda>cy. for_each (chunk_cell marsh_region 0 0 cy) [0..3 - 1]) [0..3 - 1] []
     = Inr (replicate 9 (hd (hd marsh_region)))"
  by (simp add: upto.simps chunk_cell_def grid_height_def grid_width_def Let_def
      bind_err_def py_index_def marsh_region_def numeral_eq_Suc)

lemma marsh_analysis:
  "sum_list (map RegionTile.elevation (replicate 9 (hd (hd marsh_region)))) / real (length (replicate 9 (hd (hd marsh_region)))) = 0"
  "primary_biome_of tie_break (replicate 9 (hd (hd marsh_region))) = TEMPERATE_FOREST"
  by (simp_all add: marsh_region_def primary_biome_of_def numeral_eq_Suc Let_def)

text \<open>Reading and writing cells of a rectangular grid.\<close>

lemma rect_row:
  "rect w h g \<Longrightarrow> 0 \<le> py \<Longrightarrow> py < h \<Longrightarrow> int (length (g ! nat py)) = w"
  by (auto simp: rect_def list_all_length)

lemma rect_dims:
  "rect w h g \<Longrightarrow> 0 < h \<Longrightarrow> grid_height g = h \<and> grid_width g = w"
  by (cases g) (auto simp: rect_def grid_height_def grid_width_def)

lemma py_index_in:
  "0 \<le> i \<Longrightarrow> i < int (length xs) \<Longrightarrow> py_index xs i = Inr (xs ! nat i)"
  by (simp add: py_index_def)

lemma py_pos_in: "0 \<le> i \<Longrightarrow> py_pos xs i = nat i"
  by (simp add: py_pos_def)

lemma tile_at_rect:
  assumes "rect w h g" "0 \<le> px" "px < w" "0 \<le> py" "py < h"
  shows "tile_at g px py = Inr (g ! nat py ! nat px)"
proof -
  have "py < int (length g)" using assms by (simp add: rect_def)
  moreover have "px < int (length (g ! nat py))" using rect_row [OF assms(1,4,5)] assms(3) by simp
  ultimately show ?thesis
    using assms(2,4) by (simp add: tile_at_def bind_err_def py_index_in)
qed

lemma rect_update:
  assumes "rect w h g" "0 \<le> py" "py < h" "int (length row) = w"
  shows "rect w h (g[nat py := row])"
  using assms by (auto simp: rect_def list_all_length nth_list_update)

lemma set_terrain_rect:
  assumes "rect w h g" "0 \<le> px" "px < w" "0 \<le> py" "py < h"
  shows "\<exists>g'. set_terrain g px py t = Inr g' \<and> rect w h g' \<and>
           (\<forall>qx qy. 0 \<le> qx \<and> 0 \<le> qy \<longrightarrow> terrain_of g' qx qy =
              (if qx = px \<and> qy = py then t else terrain_of g qx qy))"
proof -
  let ?row = "g ! nat py"
  let ?tile = "?row ! nat px"
  let ?g' = "g[nat py := ?row[nat px := ?tile\<lparr> Tile.terrain_type := t \<rparr>]]"
  have ly: "py < int (length g)" using assms by (simp add: rect_def)
  have lx: "px < int (length ?row)" using rect_row [OF assms(1,4,5)] assms(3) by simp
  have eq: "set_terrain g px py t = Inr ?g'"
    using assms(2,4) ly lx
    by (simp add: set_terrain_def bind_err_def py_index_in py_pos_in)
  have r: "rect w h ?g'"
    using rect_row [OF assms(1,4,5)] by (intro rect_update [OF assms(1,4,5)]) simp
  have t: "terrain_of ?g' qx qy = (if qx = px \<and> qy = py then t else terrain_of g qx qy)"
    if "0 \<le> qx" "0 \<le> qy" for qx qy
  proof (cases "qy = py")
    case True
    then show ?thesis
      using that assms(2,4) ly lx
      by (auto simp: terrain_of_def nth_list_update nat_eq_iff)
  next
    case False
    then have "nat qy \<noteq> nat py" using that assms(4) by simp
    then show ?thesis using False by (simp add: terrain_of_def)
  qed
  from eq r t show ?thesis by blast
qed

text \<open>Invariants of loops: kept by every step, or established by one step and kept after.\<close>

lemma for_each_inv:
  assumes "\<And>a s. a \<in> set xs \<Longrightarrow> I s \<Longrightarrow> \<exists>s'. body a s = Inr s' \<and> I s'"
    and "I s"
  shows "\<exists>s'. for_each body xs s = Inr s' \<and> I s'"
  using assms
proof (induction xs arbitrary: s)
  case Nil
  then show ?case by simp
next
  case (Cons a xs)
  from Cons.prems(1) [of a s] Cons.prems(2) obtain s1 where
    s1: "body a s = Inr s1" "I s1" by auto
  have "\<exists>s'. for_each body xs s1 = Inr s' \<and> I s'"
    by (rule Cons.IH) (use Cons.prems(1) s1(2) in auto)
  with s1(1) show ?case by (simp add: bind_err_def)
qed

lemma for_each_establish:
  assumes inv: "\<And>a s. a \<in> set xs \<Longrightarrow> I s \<Longrightarrow> \<exists>s'. body a s = Inr s' \<and> I s' \<and> (Q s \<longrightarrow> Q s')"
    and step: "\<And>s. I s \<Longrightarrow> \<exists>s'. body a0 s = Inr s' \<and> I s' \<and> Q s'"
    and "a0 \<in> set xs" and "I s"
  shows "\<exists>s'. for_each body xs s = Inr s' \<and> I s' \<and> Q s'"
proof -
  have "I s \<and> (Q s \<or> a0 \<in> set xs) \<Longrightarrow> \<exists>s'. for_each body xs s = Inr s' \<and> I s' \<and> Q s'"
    using inv
  proof (induction xs arbitrary: s)
    case Nil
    then show ?case by simp
  next
    case (Cons a xs)
    have inv': "\<And>b s. b \<in> set xs \<Longrightarrow> I s \<Longrightarrow> \<exists>s'. body b s = Inr s' \<and> I s' \<and> (Q s \<longrightarrow> Q s')"
      using Cons.prems(2) by simp
    have "\<exists>s1. body a s = Inr s1 \<and> I s1 \<and> (Q s1 \<or> a0 \<in> set xs)"
    proof (cases "Q s")
      case True
      with Cons.prems(2) [of a s] Cons.prems(1) show ?thesis by auto
    next
      case False
      with Cons.prems(1) have "a0 = a \<or> a0 \<in> set xs" by auto
      then show ?thesis
      proof
        assume "a0 = a"
        with step [of s] Cons.prems(1) show ?thesis by auto
      next
        assume "a0 \<in> set xs"
        with Cons.prems(2) [of a s] Cons.prems(1) show ?thesis by auto
      qed
    qed
    then obtain s1 where s1: "body a s = Inr s1" "I s1 \<and> (Q s1 \<or> a0 \<in> set xs)" by blast
    from Cons.IH [OF s1(2) inv'] s1(1) show ?case by (simp add: bind_err_def)
  qed
  with assms(3,4) show ?thesis by blast
qed

text \<open>
  The playability pass on a grid of any size: it raises nothing, keeps the shape, and
  leaves the centre cell Grass unless it was Dirt.
\<close>

lemma water_to_grass_rect:
  assumes "rect w h g" "0 \<le> px" "px < w" "0 \<le> py" "py < h"
  shows "\<exists>g'. water_to_grass px py g = Inr g' \<and> rect w h g' \<and>
           (\<forall>qx qy. 0 \<le> qx \<and> 0 \<le> qy \<longrightarrow> terrain_of g' qx qy =
              (if qx = px \<and> qy = py \<and> terrain_of g px py = WATER then GRASS
               else terrain_of g qx qy))"
proof (cases "terrain_of g px py = WATER")
  case True
  from set_terrain_rect [OF assms, of GRASS] True show ?thesis
    using tile_at_rect [OF assms]
    by (simp add: water_to_grass_def bind_err_def terrain_of_def)
next
  case False
  with assms(1) show ?thesis
    using tile_at_rect [OF assms]
    by (simp add: water_to_grass_def bind_err_def terrain_of_def)
qed

lemma water_to_grass_keep:
  assumes "rect w h g" "0 \<le> px" "px < w" "0 \<le> py" "py < h"
    and "0 \<le> cx" "0 \<le> cy" "terrain_of g cx cy \<noteq> DIRT"
  shows "\<exists>g'. water_to_grass px py g = Inr g' \<and> rect w h g' \<and> terrain_of g' cx cy \<noteq> DIRT"
proof -
  from water_to_grass_rect [OF assms(1-5)] obtain g' where
    g': "water_to_grass px py g = Inr g'" "rect w h g'"
    and t: "\<forall>qx qy. 0 \<le> qx \<and> 0 \<le> qy \<longrightarrow> terrain_of g' qx qy =
              (if qx = px \<and> qy = py \<and> terrain_of g px py = WATER then GRASS
               else terrain_of g qx qy)"
    by blast
  from t assms(6,7) have "terrain_of g' cx cy =
      (if cx = px \<and> cy = py \<and> terrain_of g px py = WATER then GRASS else terrain_of g cx cy)"
    by blast
  with assms(8) have "terrain_of g' cx cy \<noteq> DIRT" by (simp split: if_splits)
  with g' show ?thesis by blast
qed

lemma make_buildable_rect:
  assumes "rect w h g" "0 \<le> px" "px < w" "0 \<le> py" "py < h"
  shows "\<exists>g'. make_buildable px py g = Inr g' \<and> rect w h g' \<and>
           (\<forall>qx qy. 0 \<le> qx \<and> 0 \<le> qy \<longrightarrow> terrain_of g' qx qy =
              (if qx = px \<and> qy = py \<and> terrain_of g px py \<noteq> GRASS \<and> terrain_of g px py \<noteq> DIRT
                 then GRASS
               else terrain_of g qx qy))"
proof (cases "terrain_of g px py \<noteq> GRASS \<and> terrain_of g px py \<noteq> DIRT")
  case True
  from set_terrain_rect [OF assms, of GRASS] True show ?thesis
    using tile_at_rect [OF assms]
    by (simp add: make_buildable_def bind_err_def terrain_of_def)
next
  case False
  with assms(1) show ?thesis
    using tile_at_rect [OF assms]
    by (auto simp: make_buildable_def bind_err_def terrain_of_def)
qed

lemma border_loops:
  assumes wh: "1 \<le> w" "1 \<le> h" and c: "0 \<le> cx" "0 \<le> cy"
    and g: "rect w h g" "terrain_of g cx cy \<noteq> DIRT"
  shows "\<exists>g1 g2. for_each (border_column_fix h) [0..w - 1] g = Inr g1 \<and>
           for_each (border_row_fix w) [0..h - 1] g1 = Inr g2 \<and>
           rect w h g2 \<and> terrain_of g2 cx cy \<noteq> DIRT"
proof -
  let ?I = "\<lambda>s. rect w h s \<and> terrain_of s cx cy \<noteq> DIRT"
  have two: "\<exists>s'. bind_err (water_to_grass px py s) (water_to_grass qx qy) = Inr s' \<and> ?I s'"
    if "?I s" "0 \<le> px" "px < w" "0 \<le> py" "py < h" "0 \<le> qx" "qx < w" "0 \<le> qy" "qy < h"
    for s px py qx qy
  proof -
    from that(1) have r: "rect w h s" and d: "terrain_of s cx cy \<noteq> DIRT" by simp_all
    from water_to_grass_keep [OF r that(2-5) c d] obtain s1 where
      s1: "water_to_grass px py s = Inr s1" "rect w h s1" "terrain_of s1 cx cy \<noteq> DIRT"
      by blast
    from water_to_grass_keep [OF s1(2) that(6-9) c s1(3)] obtain s2 where
      "water_to_grass qx qy s1 = Inr s2" "rect w h s2" "terrain_of s2 cx cy \<noteq> DIRT"
      by blast
    with s1(1) show ?thesis by (simp add: bind_err_def)
  qed
  have "\<exists>g1. for_each (border_column_fix h) [0..w - 1] g = Inr g1 \<and> ?I g1"
  proof (rule for_each_inv [where I = ?I])
    fix a s assume a: "a \<in> set [0..w - 1]" and s: "?I s"
    from a have "0 \<le> a" "a < w" by simp_all
    with two [where s = s and px = a and py = 0 and qx = a and qy = "h - 1"] s wh
    show "\<exists>s'. border_column_fix h a s = Inr s' \<and> ?I s'"
      by (simp add: border_column_fix_def)
  next
    show "?I g" using g by simp
  qed
  then obtain g1 where g1: "for_each (border_column_fix h) [0..w - 1] g = Inr g1" "?I g1"
    by blast
  have "\<exists>g2. for_each (border_row_fix w) [0..h - 1] g1 = Inr g2 \<and> ?I g2"
  proof (rule for_each_inv [where I = ?I])
    fix a s assume a: "a \<in> set [0..h - 1]" and s: "?I s"
    from a have "0 \<le> a" "a < h" by simp_all
    with two [where s = s and px = 0 and py = a and qx = "w - 1" and qy = a] s wh
    show "\<exists>s'. border_row_fix w a s = Inr s' \<and> ?I s'"
      by (simp add: border_row_fix_def)
  next
    show "?I g1" by (rule g1(2))
  qed
  with g1(1) show ?thesis by blast
qed

lemma center_loops:
  assumes wh: "1 \<le> w" "1 \<le> h"
    and g: "rect w h g" "terrain_of g (w div 2) (h div 2) \<noteq> DIRT"
  shows "\<exists>g3.
     for_each (\<lambda>dy. for_each (center_cell w h (w div 2) (h div 2) dy) [-5..5])
        [-5..5] g = Inr g3 \<and>
     rect w h g3 \<and> terrain_of g3 (w div 2) (h div 2) = GRASS"
proof -
  let ?cx = "w div 2" and ?cy = "h div 2"
  let ?I = "\<lambda>s. rect w h s \<and> terrain_of s ?cx ?cy \<noteq> DIRT"
  let ?Q = "\<lambda>s. terrain_of s ?cx ?cy = GRASS"
  let ?cell = "center_cell w h ?cx ?cy"
  have cb: "0 \<le> ?cx" "?cx < w" "0 \<le> ?cy" "?cy < h" using wh by simp_all
  have cell: "\<exists>s'. ?cell dy dx s = Inr s' \<and> ?I s' \<and> (?Q s \<longrightarrow> ?Q s') \<and>
                 (dx = 0 \<and> dy = 0 \<longrightarrow> ?Q s')"
    if "?I s" for dy dx s
  proof (cases "0 \<le> ?cx + dx \<and> ?cx + dx < w \<and> 0 \<le> ?cy + dy \<and> ?cy + dy < h")
    case False
    then have "\<not> (dx = 0 \<and> dy = 0)" using cb by auto
    with False that show ?thesis by (auto simp: center_cell_def Let_def)
  next
    case True
    with make_buildable_rect [of w h s "?cx + dx" "?cy + dy"] that obtain s' where
      s': "make_buildable (?cx + dx) (?cy + dy) s = Inr s'" "rect w h s'"
        "\<forall>qx qy. 0 \<le> qx \<and> 0 \<le> qy \<longrightarrow> terrain_of s' qx qy =
              (if qx = ?cx + dx \<and> qy = ?cy + dy \<and> terrain_of s (?cx + dx) (?cy + dy) \<noteq> GRASS
                  \<and> terrain_of s (?cx + dx) (?cy + dy) \<noteq> DIRT
                 then GRASS
               else terrain_of s qx qy)"
      by blast
    from s'(3) cb have t: "terrain_of s' ?cx ?cy =
              (if ?cx = ?cx + dx \<and> ?cy = ?cy + dy \<and> terrain_of s (?cx + dx) (?cy + dy) \<noteq> GRASS
                  \<and> terrain_of s (?cx + dx) (?cy + dy) \<noteq> DIRT
                 then GRASS
               else terrain_of s ?cx ?cy)"
      by blast
    have "?cell dy dx s = Inr s'" using True s'(1) by (simp add: center_cell_def Let_def)
    moreover have "?I s'" using s'(2) t that by (auto split: if_splits)
    moreover have "?Q s \<longrightarrow> ?Q s'" using t by (auto split: if_splits)
    moreover have "dx = 0 \<and> dy = 0 \<longrightarrow> ?Q s'" using t that by (auto split: if_splits)
    ultimately show ?thesis by blast
  qed
  have row_keep: "\<exists>s'. for_each (?cell dy) [-5..5] s = Inr s' \<and> ?I s' \<and> (?Q s \<longrightarrow> ?Q s')"
    if "?I s" for dy s
  proof -
    have "\<exists>s'. for_each (?cell dy) [-5..5] s = Inr s' \<and> (?I s' \<and> (?Q s \<longrightarrow> ?Q s'))"
    proof (rule for_each_inv [where I = "\<lambda>s'. ?I s' \<and> (?Q s \<longrightarrow> ?Q s')"])
      fix a s1 assume "?I s1 \<and> (?Q s \<longrightarrow> ?Q s1)"
      with cell [where s = s1 and dy = dy and dx = a]
      show "\<exists>s'. ?cell dy a s1 = Inr s' \<and> (?I s' \<and> (?Q s \<longrightarrow> ?Q s'))" by blast
    next
      show "?I s \<and> (?Q s \<longrightarrow> ?Q s)" using that by simp
    qed
    then show ?thesis by blast
  qed
  have row_zero: "\<exists>s'. for_each (?cell 0) [-5..5] s = Inr s' \<and> ?I s' \<and> ?Q s'"
    if "?I s" for s
  proof (rule for_each_establish [where I = ?I and Q = ?Q and ?a0.0 = 0])
    fix a s1 assume "?I s1"
    with cell [where s = s1 and dy = 0 and dx = a] show "\<exists>s'. ?cell 0 a s1 = Inr s' \<and> ?I s' \<and> (?Q s1 \<longrightarrow> ?Q s')"
      by blast
  next
    fix s1 assume "?I s1"
    with cell [where s = s1 and dy = 0 and dx = 0] show "\<exists>s'. ?cell 0 0 s1 = Inr s' \<and> ?I s' \<and> ?Q s'" by blast
  next
    show "(0::int) \<in> set [-5..5]" by simp
  next
    show "?I s" by (rule that)
  qed
  have "\<exists>g3. for_each (\<lambda>dy. for_each (?cell dy) [-5..5]) [-5..5] g = Inr g3 \<and> ?I g3 \<and> ?Q g3"
  proof (rule for_each_establish [where I = ?I and Q = ?Q and ?a0.0 = 0])
    fix a s1 assume "?I s1"
    with row_keep [where s = s1 and dy = a]
    show "\<exists>s'. for_each (?cell a) [-5..5] s1 = Inr s' \<and> ?I s' \<and> (?Q s1 \<longrightarrow> ?Q s')" by blast
  next
    fix s1 assume "?I s1"
    with row_zero [where s = s1] show "\<exists>s'. for_each (?cell 0) [-5..5] s1 = Inr s' \<and> ?I s' \<and> ?Q s'"
      by blast
  next
    show "(0::int) \<in> set [-5..5]" by simp
  next
    show "?I g" using g by simp
  qed
  then show ?thesis by blast
qed

lemma ensure_local_playability_center:
  assumes wh: "1 \<le> w" "1 \<le> h"
    and g: "rect w h g" "terrain_of g (w div 2) (h div 2) \<noteq> DIRT"
  shows "\<exists>g'. ensure_local_playability g = Inr g' \<and> rect w h g' \<and>
           terrain_of g' (w div 2) (h div 2) = GRASS"
proof -
  have d: "grid_height g = h" "grid_width g = w"
    using rect_dims [OF g(1)] wh by simp_all
  have c: "0 \<le> w div 2" "0 \<le> h div 2" using wh by simp_all
  from border_loops [OF wh c g] obtain g1 g2 where
    g1: "for_each (border_column_fix h) [0..w - 1] g = Inr g1"
    and g2: "for_each (border_row_fix w) [0..h - 1] g1 = Inr g2"
      "rect w h g2" "terrain_of g2 (w div 2) (h div 2) \<noteq> DIRT"
    by blast
  from center_loops [OF wh g2(2,3)] obtain g3 where g3:
    "for_each (\<lambda>dy. for_each (center_cell w h (w div 2) (h div 2) dy) [-5..5])
        [-5..5] g2 = Inr g3" "rect w h g3" "terrain_of g3 (w div 2) (h div 2) = GRASS"
    by blast
  have "ensure_local_playability g = Inr g3"
    by (simp only: ensure_local_playability_def d Let_def g1 g2(1) g3(1) bind_err_def sum.case)
  with g3(2,3) show ?thesis by blast
qed

text \<open>Draws from the constant stream.\<close>

lemma half_stream_tail: "(\<lambda>i. half_stream (Suc i)) = half_stream"
  by (simp add: half_stream_def)

lemma randint_half_center:
  assumes "1 \<le> n"
  shows "random_randint 0 (n - 1) half_stream = Inr (n div 2, half_stream)"
proof -
  have "\<lfloor>real_of_int n / real_of_int 2\<rfloor> = n div 2"
    by (rule floor_divide_of_int_eq)
  then have "\<lfloor>half_stream 0 * real_of_int (n - 1 - 0 + 1)\<rfloor> = n div 2"
    by (simp add: half_stream_def)
  with assms show ?thesis
    by (simp add: random_randint_def half_stream_tail)
qed

lemma randint_half_lower:
  assumes "a \<le> b"
  shows "\<exists>v. random_randint a b half_stream = Inr (v, half_stream) \<and> a \<le> v"
proof -
  have "0 \<le> half_stream 0 * real_of_int (b - a + 1)"
    using assms by (simp add: half_stream_def)
  then have "0 \<le> \<lfloor>half_stream 0 * real_of_int (b - a + 1)\<rfloor>" by simp
  with assms show ?thesis
    by (simp add: random_randint_def half_stream_tail)
qed

text \<open>
  The forest pass under the constant stream: every seed lands on the centre cell, which
  is Grass after the playability pass, and the blob drawn around it turns the centre
  itself (distance 0) to Forest.
\<close>

lemma forest_cell_step:
  assumes wh: "1 \<le> w" "1 \<le> h" and inv: "forest_inv w h s"
  shows "\<exists>s'. forest_cell w h (w div 2) (h div 2) radius dy dx s = Inr s' \<and> forest_inv w h s' \<and>
           (center_forest w h s \<longrightarrow> center_forest w h s') \<and>
           (dx = 0 \<and> dy = 0 \<and> 0 \<le> radius \<longrightarrow> center_forest w h s')"
proof -
  let ?cx = "w div 2" and ?cy = "h div 2"
  obtain tiles r where s: "s = (tiles, r)" by (cases s)
  from inv have r: "r = half_stream" and rect: "rect w h tiles"
    and ct: "terrain_of tiles ?cx ?cy = GRASS \<or> terrain_of tiles ?cx ?cy = FOREST"
    by (simp_all add: forest_inv_def s)
  have cb: "0 \<le> ?cx" "?cx < w" "0 \<le> ?cy" "?cy < h" using wh by simp_all
  let ?nx = "?cx + dx" and ?ny = "?cy + dy"
  show ?thesis
  proof (cases "0 \<le> ?nx \<and> ?nx < w \<and> 0 \<le> ?ny \<and> ?ny < h")
    case False
    then have nz: "\<not> (dx = 0 \<and> dy = 0)" using cb by auto
    from False have nb: "(0 \<le> ?nx \<and> ?nx < w \<and> 0 \<le> ?ny \<and> ?ny < h) = False" by simp
    have "forest_cell w h ?cx ?cy radius dy dx s = Inr s"
      by (simp only: forest_cell_def s prod.case Let_def nb if_False)
    with inv nz show ?thesis by auto
  next
    case inb: True
    show ?thesis
    proof (cases "sqrt (real_of_int (dx * dx + dy * dy)) \<le> real_of_int radius")
      case False
      then have nz: "\<not> (dx = 0 \<and> dy = 0 \<and> 0 \<le> radius)" by auto
      from inb have ib: "(0 \<le> ?nx \<and> ?nx < w \<and> 0 \<le> ?ny \<and> ?ny < h) = True" by simp
      from False have fr: "(sqrt (real_of_int (dx * dx + dy * dy)) \<le> real_of_int radius) = False"
        by simp
      have "forest_cell w h ?cx ?cy radius dy dx s = Inr s"
        by (simp only: forest_cell_def s prod.case Let_def ib fr if_True if_False)
      with inv nz show ?thesis by auto
    next
      case near: True
      have ta: "tile_at tiles ?nx ?ny = Inr (tiles ! nat ?ny ! nat ?nx)"
        using tile_at_rect [OF rect] inb by simp
      show ?thesis
      proof (cases "terrain_of tiles ?nx ?ny = GRASS")
        case False
        from inb have ib: "(0 \<le> ?nx \<and> ?nx < w \<and> 0 \<le> ?ny \<and> ?ny < h) = True" by simp
        from near have nr: "(sqrt (real_of_int (dx * dx + dy * dy)) \<le> real_of_int radius) = True"
          by simp
        have u: "((3::real) / 10 < 1 / 2) = True" by simp
        from False have ng: "(Tile.terrain_type (tiles ! nat ?ny ! nat ?nx) = GRASS) = False"
          by (simp add: terrain_of_def)
        have e: "forest_cell w h ?cx ?cy radius dy dx s = Inr s"
          by (simp only: forest_cell_def s prod.case Let_def ib nr if_True r random_half
              u ta bind_err_def sum.case ng if_False)
        have "dx = 0 \<and> dy = 0 \<longrightarrow> center_forest w h s"
          using False ct by (auto simp: center_forest_def s)
        with e inv show ?thesis by auto
      next
        case grass: True
        from set_terrain_rect [OF rect, of ?nx ?ny FOREST] inb obtain tiles' where
          t': "set_terrain tiles ?nx ?ny FOREST = Inr tiles'" "rect w h tiles'"
          and ch: "\<forall>qx qy. 0 \<le> qx \<and> 0 \<le> qy \<longrightarrow> terrain_of tiles' qx qy =
              (if qx = ?nx \<and> qy = ?ny then FOREST else terrain_of tiles qx qy)"
          by blast
        from ch cb have c': "terrain_of tiles' ?cx ?cy =
              (if ?cx = ?nx \<and> ?cy = ?ny then FOREST else terrain_of tiles ?cx ?cy)"
          by blast
        from inb have ib: "(0 \<le> ?nx \<and> ?nx < w \<and> 0 \<le> ?ny \<and> ?ny < h) = True" by simp
        from near have nr: "(sqrt (real_of_int (dx * dx + dy * dy)) \<le> real_of_int radius) = True"
          by simp
        have u: "((3::real) / 10 < 1 / 2) = True" by simp
        from grass have ig: "(Tile.terrain_type (tiles ! nat ?ny ! nat ?nx) = GRASS) = True"
          by (simp add: terrain_of_def)
        have e: "forest_cell w h ?cx ?cy radius dy dx s = Inr (tiles', half_stream)"
          by (simp only: forest_cell_def s prod.case Let_def ib nr if_True r random_half
              u ta bind_err_def sum.case ig t'(1))
        have i: "forest_inv w h (tiles', half_stream)"
          using t'(2) c' ct by (auto simp: forest_inv_def)
        have k: "center_forest w h s \<longrightarrow> center_forest w h (tiles', half_stream)"
          using c' by (auto simp: center_forest_def s)
        have z: "dx = 0 \<and> dy = 0 \<longrightarrow> center_forest w h (tiles', half_stream)"
          using c' by (auto simp: center_forest_def)
        from e i k z show ?thesis by auto
      qed
    qed
  qed
qed

lemma forest_rows:
  assumes wh: "1 \<le> w" "1 \<le> h" and inv: "forest_inv w h s" and rad: "0 \<le> radius"
  shows "\<exists>s'. for_each (\<lambda>dy. for_each (forest_cell w h (w div 2) (h div 2) radius dy)
                               [- radius..radius])
                  [- radius..radius] s = Inr s' \<and>
              forest_inv w h s' \<and> center_forest w h s'"
proof -
  let ?cell = "forest_cell w h (w div 2) (h div 2) radius"
  let ?I = "forest_inv w h" and ?Q = "center_forest w h"
  have zero: "(0::int) \<in> set [- radius..radius]" using rad by simp
  have row_keep: "\<exists>s'. for_each (?cell dy) [- radius..radius] s1 = Inr s' \<and> ?I s' \<and> (?Q s1 \<longrightarrow> ?Q s')"
    if "?I s1" for dy s1
  proof -
    have "\<exists>s'. for_each (?cell dy) [- radius..radius] s1 = Inr s' \<and> (?I s' \<and> (?Q s1 \<longrightarrow> ?Q s'))"
    proof (rule for_each_inv [where I = "\<lambda>s'. ?I s' \<and> (?Q s1 \<longrightarrow> ?Q s')"])
      fix a s2 assume "?I s2 \<and> (?Q s1 \<longrightarrow> ?Q s2)"
      with forest_cell_step [OF wh, where s = s2 and radius = radius and dy = dy and dx = a]
      show "\<exists>s'. ?cell dy a s2 = Inr s' \<and> (?I s' \<and> (?Q s1 \<longrightarrow> ?Q s'))" by blast
    next
      show "?I s1 \<and> (?Q s1 \<longrightarrow> ?Q s1)" using that by simp
    qed
    then show ?thesis by blast
  qed
  have row_zero: "\<exists>s'. for_each (?cell 0) [- radius..radius] s1 = Inr s' \<and> ?I s' \<and> ?Q s'"
    if "?I s1" for s1
  proof (rule for_each_establish [where I = ?I and Q = ?Q and ?a0.0 = 0])
    fix a s2 assume "?I s2"
    with forest_cell_step [OF wh, where s = s2 and radius = radius and dy = 0 and dx = a]
    show "\<exists>s'. ?cell 0 a s2 = Inr s' \<and> ?I s' \<and> (?Q s2 \<longrightarrow> ?Q s')" by blast
  next
    fix s2 assume "?I s2"
    with forest_cell_step [OF wh, where s = s2 and radius = radius and dy = 0 and dx = 0] rad
    show "\<exists>s'. ?cell 0 0 s2 = Inr s' \<and> ?I s' \<and> ?Q s'" by blast
  next
    show "(0::int) \<in> set [- radius..radius]" by (rule zero)
  next
    show "?I s1" by (rule that)
  qed
  show ?thesis
  proof (rule for_each_establish [where I = ?I and Q = ?Q and ?a0.0 = 0])
    fix a s1 assume "?I s1"
    with row_keep [where ?s1.0 = s1 and dy = a]
    show "\<exists>s'. for_each (?cell a) [- radius..radius] s1 = Inr s' \<and> ?I s' \<and> (?Q s1 \<longrightarrow> ?Q s')"
      by blast
  next
    fix s1 assume "?I s1"
    with row_zero [where ?s1.0 = s1]
    show "\<exists>s'. for_each (?cell 0) [- radius..radius] s1 = Inr s' \<and> ?I s' \<and> ?Q s'" by blast
  next
    show "(0::int) \<in> set [- radius..radius]" by (rule zero)
  next
    show "?I s" by (rule inv)
  qed
qed

lemma forest_seed_center:
  assumes wh: "1 \<le> w" "1 \<le> h" and inv: "forest_inv w h s"
  shows "\<exists>s'. forest_seed w h density s = Inr s' \<and> forest_inv w h s' \<and> center_forest w h s'"
proof -
  let ?cx = "w div 2" and ?cy = "h div 2"
  obtain tiles r where s: "s = (tiles, r)" by (cases s)
  from inv have r: "r = half_stream" and rect: "rect w h tiles"
    and ct: "terrain_of tiles ?cx ?cy = GRASS \<or> terrain_of tiles ?cx ?cy = FOREST"
    by (simp_all add: forest_inv_def s)
  have cb: "0 \<le> ?cx" "?cx < w" "0 \<le> ?cy" "?cy < h" using wh by simp_all
  have ta: "tile_at tiles ?cx ?cy = Inr (tiles ! nat ?cy ! nat ?cx)"
    by (rule tile_at_rect [OF rect cb])
  show ?thesis
  proof (cases "terrain_of tiles ?cx ?cy = GRASS")
    case False
    with ct have f: "terrain_of tiles ?cx ?cy = FOREST" by simp
    have "forest_seed w h density s = Inr s"
      using False
      by (simp add: forest_seed_def s r bind_err_def randint_half_center [OF wh(1)]
          randint_half_center [OF wh(2)] ta terrain_of_def)
    with inv f show ?thesis by (auto simp: center_forest_def s)
  next
    case True
    from randint_half_lower [of 3 "max 3 (py_int (8 * density))"] obtain radius where
      rd: "random_randint 3 (max 3 (py_int (8 * density))) half_stream = Inr (radius, half_stream)"
        "3 \<le> radius"
      by auto
    from rd(2) have r0: "0 \<le> radius" by simp
    from forest_rows [OF wh _ r0, of "(tiles, half_stream)"] inv obtain s' where
      s': "for_each (\<lambda>dy. for_each (forest_cell w h ?cx ?cy radius dy) [- radius..radius])
             [- radius..radius] (tiles, half_stream) = Inr s'"
        "forest_inv w h s'" "center_forest w h s'"
      by (auto simp: s r)
    have "forest_seed w h density s = Inr s'"
      using True
      by (simp add: forest_seed_def s r bind_err_def randint_half_center [OF wh(1)]
          randint_half_center [OF wh(2)] ta terrain_of_def rd(1) s'(1))
    with s'(2,3) show ?thesis by blast
  qed
qed

lemma add_forests_center:
  assumes wh: "1 \<le> w" "1 \<le> h" and g: "rect w h g" "terrain_of g (w div 2) (h div 2) = GRASS"
    and d: "1 / 20 \<le> density"
  shows "\<exists>g'. add_forests g density half_stream = Inr (g', half_stream) \<and> rect w h g' \<and>
           terrain_of g' (w div 2) (h div 2) = FOREST"
proof -
  have dims: "grid_height g = h" "grid_width g = w"
    using rect_dims [OF g(1)] wh by simp_all
  have "1 \<le> \<lfloor>20 * density\<rfloor>" using d by linarith
  then have n: "1 \<le> py_int (20 * density)" using d by (simp add: py_int_def)
  have i: "forest_inv w h (g, half_stream)" using g by (simp add: forest_inv_def)
  have "\<exists>s'. for_each (\<lambda>i. forest_seed w h density) [0..py_int (20 * density) - 1]
               (g, half_stream) = Inr s' \<and> forest_inv w h s' \<and> center_forest w h s'"
  proof (rule for_each_establish [where I = "forest_inv w h" and Q = "center_forest w h"
        and ?a0.0 = 0])
    fix a s1 assume "forest_inv w h s1"
    with forest_seed_center [OF wh, where s = s1 and density = density]
    show "\<exists>s'. forest_seed w h density s1 = Inr s' \<and> forest_inv w h s' \<and>
            (center_forest w h s1 \<longrightarrow> center_forest w h s')" by blast
  next
    fix s1 assume "forest_inv w h s1"
    with forest_seed_center [OF wh, where s = s1 and density = density]
    show "\<exists>s'. forest_seed w h density s1 = Inr s' \<and> forest_inv w h s' \<and> center_forest w h s'"
      by blast
  next
    show "(0::int) \<in> set [0..py_int (20 * density) - 1]" using n by simp
  next
    show "forest_inv w h (g, half_stream)" by (rule i)
  qed
  then obtain s' where s': "for_each (\<lambda>i. forest_seed w h density) [0..py_int (20 * density) - 1]
               (g, half_stream) = Inr s'" "forest_inv w h s'" "center_forest w h s'"
    by blast
  obtain g' r' where p: "s' = (g', r')" by (cases s')
  from s'(2,3) have "r' = half_stream" "rect w h g'" "terrain_of g' (w div 2) (h div 2) = FOREST"
    by (simp_all add: forest_inv_def center_forest_def p)
  moreover have "add_forests g density half_stream = Inr s'"
    using d s'(1) by (simp add: add_forests_def dims Let_def)
  ultimately show ?thesis using p by blast
qed

text \<open>The smoothing pass changes Water cells only.\<close>

lemma rect_terrain_copy: "rect w h g \<Longrightarrow> rect w h (map (map Tile.terrain_type) g)"
  by (simp add: rect_def list_all_iff)

lemma terrain_at_rect:
  assumes "rect w h g" "0 \<le> px" "px < w" "0 \<le> py" "py < h"
  shows "terrain_at (map (map Tile.terrain_type) g) px py = Inr (terrain_of g px py)"
proof -
  have ly: "py < int (length g)" using assms by (simp add: rect_def)
  have lx: "px < int (length (g ! nat py))" using rect_row [OF assms(1,4,5)] assms(3) by simp
  from ly assms(4) have n: "nat py < length g" by simp
  show ?thesis
    using assms(2,4) ly lx n
    by (simp add: terrain_at_def bind_err_def py_index_in terrain_of_def)
qed

lemma smooth_cell_keep:
  assumes wh: "1 \<le> w" "1 \<le> h" and g0: "rect w h g0" "terrain_of g0 (w div 2) (h div 2) = FOREST"
    and s: "rect w h s" "terrain_of s (w div 2) (h div 2) = FOREST"
    and p: "1 \<le> px" "px \<le> w - 1 - 1" "1 \<le> py" "py \<le> h - 1 - 1"
  shows "\<exists>s'. smooth_cell (map (map Tile.terrain_type) g0) py px s = Inr s' \<and>
           rect w h s' \<and> terrain_of s' (w div 2) (h div 2) = FOREST"
proof -
  let ?o = "map (map Tile.terrain_type) g0"
  have t0: "terrain_at ?o px py = Inr (terrain_of g0 px py)"
    using p by (intro terrain_at_rect [OF g0(1)]) simp_all
  have t1: "terrain_at ?o px (py - 1) = Inr (terrain_of g0 px (py - 1))"
    using p by (intro terrain_at_rect [OF g0(1)]) simp_all
  have t2: "terrain_at ?o px (py + 1) = Inr (terrain_of g0 px (py + 1))"
    using p by (intro terrain_at_rect [OF g0(1)]) simp_all
  have t3: "terrain_at ?o (px - 1) py = Inr (terrain_of g0 (px - 1) py)"
    using p by (intro terrain_at_rect [OF g0(1)]) simp_all
  have t4: "terrain_at ?o (px + 1) py = Inr (terrain_of g0 (px + 1) py)"
    using p by (intro terrain_at_rect [OF g0(1)]) simp_all
  have cb: "0 \<le> w div 2" "0 \<le> h div 2" using wh by simp_all
  show ?thesis
  proof (cases "terrain_of g0 px py = WATER \<and>
      list_all (\<lambda>n. n \<noteq> WATER) [terrain_of g0 px (py - 1), terrain_of g0 px (py + 1),
        terrain_of g0 (px - 1) py, terrain_of g0 (px + 1) py]")
    case False
    then have "smooth_cell ?o py px s = Inr s"
      by (auto simp: smooth_cell_def t0 t1 t2 t3 t4 bind_err_def)
    with s show ?thesis by simp
  next
    case True
    then have nc: "\<not> (w div 2 = px \<and> h div 2 = py)" using g0(2) by auto
    from set_terrain_rect [OF s(1), of px py GRASS] p obtain s' where
      s': "set_terrain s px py GRASS = Inr s'" "rect w h s'"
      and ch: "\<forall>qx qy. 0 \<le> qx \<and> 0 \<le> qy \<longrightarrow> terrain_of s' qx qy =
              (if qx = px \<and> qy = py then GRASS else terrain_of s qx qy)"
      by auto
    from ch cb have "terrain_of s' (w div 2) (h div 2) =
        (if w div 2 = px \<and> h div 2 = py then GRASS else terrain_of s (w div 2) (h div 2))"
      by blast
    with nc s(2) have c: "terrain_of s' (w div 2) (h div 2) = FOREST" by simp
    from True have "smooth_cell ?o py px s = Inr s'"
      by (simp add: smooth_cell_def t0 t1 t2 t3 t4 bind_err_def s'(1))
    with s'(2) c show ?thesis by blast
  qed
qed

lemma smooth_terrain_center:
  assumes wh: "1 \<le> w" "1 \<le> h" and g: "rect w h g" "terrain_of g (w div 2) (h div 2) = FOREST"
  shows "\<exists>g'. smooth_terrain g = Inr g' \<and> rect w h g' \<and>
           terrain_of g' (w div 2) (h div 2) = FOREST"
proof -
  let ?o = "map (map Tile.terrain_type) g"
  let ?I = "\<lambda>s. rect w h s \<and> terrain_of s (w div 2) (h div 2) = FOREST"
  have dims: "grid_height g = h" "grid_width g = w"
    using rect_dims [OF g(1)] wh by simp_all
  have row: "\<exists>s'. for_each (smooth_cell ?o py) [1..w - 1 - 1] s = Inr s' \<and> ?I s'"
    if "?I s" "1 \<le> py" "py \<le> h - 1 - 1" for py s
  proof (rule for_each_inv [where I = ?I])
    fix a s1 assume a: "a \<in> set [1..w - 1 - 1]" and s1: "?I s1"
    from a have "1 \<le> a" "a \<le> w - 1 - 1" by simp_all
    from smooth_cell_keep [OF wh g _ _ this that(2,3), of s1] s1
    show "\<exists>s'. smooth_cell ?o py a s1 = Inr s' \<and> ?I s'" by simp
  next
    show "?I s" by (rule that(1))
  qed
  have "\<exists>g'. for_each (\<lambda>py. for_each (smooth_cell ?o py) [1..w - 1 - 1]) [1..h - 1 - 1] g
           = Inr g' \<and> ?I g'"
  proof (rule for_each_inv [where I = ?I])
    fix a s1 assume a: "a \<in> set [1..h - 1 - 1]" and s1: "?I s1"
    from a have "1 \<le> a" "a \<le> h - 1 - 1" by simp_all
    from row [OF s1 this]
    show "\<exists>s'. for_each (smooth_cell ?o a) [1..w - 1 - 1] s1 = Inr s' \<and> ?I s'" .
  next
    show "?I g" using g by simp
  qed
  then show ?thesis
    by (simp add: smooth_terrain_def dims Let_def)
qed

text \<open>The resource pass changes no terrain.\<close>

lemma set_resource_rect:
  assumes "rect w h g" "0 \<le> px" "px < w" "0 \<le> py" "py < h"
  shows "\<exists>g'. set_resource g px py node = Inr g' \<and> rect w h g' \<and>
           (\<forall>qx qy. 0 \<le> qx \<and> 0 \<le> qy \<longrightarrow> terrain_of g' qx qy = terrain_of g qx qy)"
proof -
  let ?row = "g ! nat py"
  let ?tile = "?row ! nat px"
  let ?g' = "g[nat py := ?row[nat px := ?tile\<lparr> resource := Some node \<rparr>]]"
  have ly: "py < int (length g)" using assms by (simp add: rect_def)
  have lx: "px < int (length ?row)" using rect_row [OF assms(1,4,5)] assms(3) by simp
  have eq: "set_resource g px py node = Inr ?g'"
    using assms(2,4) ly lx
    by (simp add: set_resource_def bind_err_def py_index_in py_pos_in)
  have r: "rect w h ?g'"
    using rect_row [OF assms(1,4,5)] by (intro rect_update [OF assms(1,4,5)]) simp
  have t: "terrain_of ?g' qx qy = terrain_of g qx qy" if "0 \<le> qx" "0 \<le> qy" for qx qy
  proof (cases "qy = py")
    case True
    then show ?thesis
      using that assms(2,4) ly lx
      by (cases "qx = px") (auto simp: terrain_of_def nth_list_update nat_eq_iff)
  next
    case False
    then have "nat qy \<noteq> nat py" using that assms(4) by simp
    then show ?thesis by (simp add: terrain_of_def)
  qed
  from eq r t show ?thesis by blast
qed

lemma place_cell_keep:
  assumes wh: "1 \<le> w" "1 \<le> h" and inv: "placed_inv w h s"
    and p: "0 \<le> px" "px < w" "0 \<le> py" "py < h"
  shows "\<exists>s'. place_cell py px s = Inr s' \<and> placed_inv w h s'"
proof -
  obtain tiles r where s: "s = (tiles, r)" by (cases s)
  from inv have r: "r = half_stream" and rect: "rect w h tiles"
    and ct: "terrain_of tiles (w div 2) (h div 2) = FOREST"
    by (simp_all add: placed_inv_def s)
  have cb: "0 \<le> w div 2" "0 \<le> h div 2" using wh by simp_all
  have ta: "tile_at tiles px py = Inr (tiles ! nat py ! nat px)"
    by (rule tile_at_rect [OF rect p])
  show ?thesis
  proof (cases "Tile.terrain_type (tiles ! nat py ! nat px) = FOREST")
    case True
    from set_resource_rect [OF rect p, of "new_Resource TREE px py"] obtain tiles' where
      t': "set_resource tiles px py (new_Resource TREE px py) = Inr tiles'" "rect w h tiles'"
      and ch: "\<forall>qx qy. 0 \<le> qx \<and> 0 \<le> qy \<longrightarrow> terrain_of tiles' qx qy = terrain_of tiles qx qy"
      by blast
    from ch cb ct have "terrain_of tiles' (w div 2) (h div 2) = FOREST" by simp
    moreover from True have "place_cell py px s = Inr (tiles', r)"
      by (simp add: place_cell_def s ta bind_err_def t'(1))
    ultimately show ?thesis using t'(2) r by (auto simp: placed_inv_def)
  next
    case False
    then have "place_cell py px s = Inr (tiles, half_stream)"
      by (simp add: place_cell_def s ta bind_err_def r)
    with inv show ?thesis by (simp add: placed_inv_def s)
  qed
qed

lemma place_resource_nodes_center:
  assumes wh: "1 \<le> w" "1 \<le> h" and g: "rect w h g" "terrain_of g (w div 2) (h div 2) = FOREST"
  shows "\<exists>g'. place_resource_nodes g half_stream = Inr (g', half_stream) \<and> rect w h g' \<and>
           terrain_of g' (w div 2) (h div 2) = FOREST"
proof -
  have dims: "grid_height g = h" "grid_width g = w"
    using rect_dims [OF g(1)] wh by simp_all
  have row: "\<exists>s'. for_each (place_cell py) [0..w - 1] s = Inr s' \<and> placed_inv w h s'"
    if "placed_inv w h s" "0 \<le> py" "py < h" for py s
  proof (rule for_each_inv [where I = "placed_inv w h"])
    fix a s1 assume a: "a \<in> set [0..w - 1]" and s1: "placed_inv w h s1"
    from a have "0 \<le> a" "a < w" by simp_all
    from place_cell_keep [OF wh s1 this that(2,3)]
    show "\<exists>s'. place_cell py a s1 = Inr s' \<and> placed_inv w h s'" .
  next
    show "placed_inv w h s" by (rule that(1))
  qed
  have "\<exists>s'. for_each (\<lambda>py. for_each (place_cell py) [0..w - 1]) [0..h - 1] (g, half_stream)
           = Inr s' \<and> placed_inv w h s'"
  proof (rule for_each_inv [where I = "placed_inv w h"])
    fix a s1 assume a: "a \<in> set [0..h - 1]" and s1: "placed_inv w h s1"
    from a have "0 \<le> a" "a < h" by simp_all
    from row [OF s1 this]
    show "\<exists>s'. for_each (place_cell a) [0..w - 1] s1 = Inr s' \<and> placed_inv w h s'" .
  next
    show "placed_inv w h (g, half_stream)" using g by (simp add: placed_inv_def)
  qed
  then obtain s' where s': "for_each (\<lambda>py. for_each (place_cell py) [0..w - 1]) [0..h - 1]
      (g, half_stream) = Inr s'" "placed_inv w h s'" by blast
  obtain g' r' where q: "s' = (g', r')" by (cases s')
  from s'(2) have "r' = half_stream" "rect w h g'" "terrain_of g' (w div 2) (h div 2) = FOREST"
    by (simp_all add: placed_inv_def q)
  moreover have "place_resource_nodes g half_stream = Inr s'"
    using s'(1) by (simp add: place_resource_nodes_def dims Let_def)
  ultimately show ?thesis using q by blast
qed

text \<open>
  The generation loops for a chunk of average elevation 0: every cell has elevation at
  most 0.5, so no cell is Dirt and the one possible draw leaves the constant stream as
  it is.
\<close>

lemma local_cells_low:
  assumes "\<forall>s a b. - 1 \<le> simplex s a b \<and> simplex s a b \<le> 1"
    and "list_all (\<lambda>t. Tile.terrain_type t \<noteq> DIRT) row"
  shows "\<exists>row'. for_each (local_cell simplex g biome_props offset_x offset_y 0 avg_moisture py)
                   xs (row, half_stream) = Inr (row', half_stream) \<and>
           length row' = length row + length xs \<and>
           list_all (\<lambda>t. Tile.terrain_type t \<noteq> DIRT) row'"
  using assms(2)
proof (induction xs arbitrary: row)
  case Nil
  then show ?case by simp
next
  case (Cons px xs)
  let ?e = "generate_local_elevation simplex g px py offset_x offset_y 0"
  let ?m = "generate_local_moisture simplex g px py offset_x offset_y avg_moisture"
  from terrain_low [OF local_elevation_low [OF assms(1)]] obtain t where
    t: "t \<noteq> DIRT" "get_terrain_from_biome biome_props ?e ?m half_stream = (t, half_stream)"
    by blast
  have step: "local_cell simplex g biome_props offset_x offset_y 0 avg_moisture py px
      (row, half_stream) = Inr (row @ [new_Tile px py t], half_stream)"
    by (simp add: local_cell_def Let_def t(2))
  have "list_all (\<lambda>t. Tile.terrain_type t \<noteq> DIRT) (row @ [new_Tile px py t])"
    using Cons.prems t(1) by (simp add: new_Tile_def)
  from Cons.IH [OF this] obtain row' where
    r: "for_each (local_cell simplex g biome_props offset_x offset_y 0 avg_moisture py)
          xs (row @ [new_Tile px py t], half_stream) = Inr (row', half_stream)"
       "length row' = length (row @ [new_Tile px py t]) + length xs"
       "list_all (\<lambda>t. Tile.terrain_type t \<noteq> DIRT) row'"
    by blast
  have "for_each (local_cell simplex g biome_props offset_x offset_y 0 avg_moisture py)
          (px # xs) (row, half_stream) = Inr (row', half_stream)"
    by (simp add: step bind_err_def r(1))
  with r(2,3) show ?case by simp
qed

lemma local_row_low:
  assumes "\<forall>s a b. - 1 \<le> simplex s a b \<and> simplex s a b \<le> 1" and "0 \<le> w"
  shows "\<exists>row. local_row simplex g biome_props offset_x offset_y 0 avg_moisture w py
                  (rows, half_stream) = Inr (rows @ [row], half_stream) \<and> plain_row w row"
proof -
  from local_cells_low [OF assms(1), of "[]" g biome_props offset_x offset_y avg_moisture py
      "[0..w - 1]"]
  obtain row where
    r: "for_each (local_cell simplex g biome_props offset_x offset_y 0 avg_moisture py)
          [0..w - 1] ([], half_stream) = Inr (row, half_stream)"
       "length row = length ([]::Tile list) + length [0..w - 1]"
       "list_all (\<lambda>t. Tile.terrain_type t \<noteq> DIRT) row"
    by auto
  have "local_row simplex g biome_props offset_x offset_y 0 avg_moisture w py
                  (rows, half_stream) = Inr (rows @ [row], half_stream)"
    by (simp add: local_row_def r(1) bind_err_def)
  moreover have "plain_row w row" using r(2,3) assms(2) by (simp add: plain_row_def)
  ultimately show ?thesis by blast
qed

lemma local_rows_low:
  assumes "\<forall>s a b. - 1 \<le> simplex s a b \<and> simplex s a b \<le> 1" and "0 \<le> w"
    and "list_all (plain_row w) rows"
  shows "\<exists>rows'. for_each (local_row simplex g biome_props offset_x offset_y 0 avg_moisture w)
                   ys (rows, half_stream) = Inr (rows', half_stream) \<and>
           length rows' = length rows + length ys \<and> list_all (plain_row w) rows'"
  using assms(3)
proof (induction ys arbitrary: rows)
  case Nil
  then show ?case by simp
next
  case (Cons py ys)
  from local_row_low [OF assms(1,2), of g biome_props offset_x offset_y avg_moisture py rows]
  obtain row where
    row: "local_row simplex g biome_props offset_x offset_y 0 avg_moisture w py
            (rows, half_stream) = Inr (rows @ [row], half_stream)" "plain_row w row"
    by blast
  have "list_all (plain_row w) (rows @ [row])" using Cons.prems row(2) by simp
  from Cons.IH [OF this] obtain rows' where
    r: "for_each (local_row simplex g biome_props offset_x offset_y 0 avg_moisture w)
          ys (rows @ [row], half_stream) = Inr (rows', half_stream)"
       "length rows' = length (rows @ [row]) + length ys" "list_all (plain_row w) rows'"
    by blast
  have "for_each (local_row simplex g biome_props offset_x offset_y 0 avg_moisture w)
          (py # ys) (rows, half_stream) = Inr (rows', half_stream)"
    by (simp add: row(1) bind_err_def r(1))
  with r(2,3) show ?case by simp
qed

lemma local_tiles_low:
  assumes "\<forall>s a b. - 1 \<le> simplex s a b \<and> simplex s a b \<le> 1" and "1 \<le> w" "1 \<le> h"
  shows "\<exists>tiles. for_each (local_row simplex g biome_props offset_x offset_y 0 avg_moisture w)
                   [0..h - 1] ([], half_stream) = Inr (tiles, half_stream) \<and>
           rect w h tiles \<and> terrain_of tiles (w div 2) (h div 2) \<noteq> DIRT"
proof -
  have w0: "0 \<le> w" using assms(2) by simp
  from local_rows_low [OF assms(1) w0, of "[]" g biome_props offset_x offset_y avg_moisture
      "[0..h - 1]"]
  obtain tiles where
    t: "for_each (local_row simplex g biome_props offset_x offset_y 0 avg_moisture w)
          [0..h - 1] ([], half_stream) = Inr (tiles, half_stream)"
       "length tiles = length ([]::Tile list list) + length [0..h - 1]"
       "list_all (plain_row w) tiles"
    by auto
  have len: "int (length tiles) = h" using t(2) assms(3) by simp
  have r: "rect w h tiles"
    using len t(3) by (simp add: rect_def list_all_iff plain_row_def)
  have cy: "nat (h div 2) < length tiles" using len assms(3) by linarith
  with t(3) have pr: "plain_row w (tiles ! nat (h div 2))" by (simp add: list_all_length)
  then have "nat (w div 2) < length (tiles ! nat (h div 2))"
    using assms(2) by (simp add: plain_row_def) linarith
  with pr have "Tile.terrain_type (tiles ! nat (h div 2) ! nat (w div 2)) \<noteq> DIRT"
    by (simp add: plain_row_def list_all_length)
  with t(1) r show ?thesis by (auto simp: terrain_of_def)
qed

text \<open>A Forest centre cell breaks the centre guarantee.\<close>

lemma center_forest_blocks:
  assumes "1 \<le> w" "1 \<le> h" "rect w h tiles" "terrain_of tiles (w div 2) (h div 2) = FOREST"
  shows "\<not> center_block_buildable tiles"
proof -
  have dims: "grid_height tiles = h" "grid_width tiles = w"
    using rect_dims [OF assms(3)] assms(2) by simp_all
  have c: "0 \<le> w div 2" "w div 2 < w" "0 \<le> h div 2" "h div 2 < h"
    using assms(1,2) by simp_all
  have ta: "tile_at tiles (w div 2) (h div 2) = Inr (tiles ! nat (h div 2) ! nat (w div 2))"
    by (rule tile_at_rect [OF assms(3) c])
  have z: "(0::int) \<in> set [-5..5]" by simp
  show ?thesis
  proof
    assume "center_block_buildable tiles"
    then have "\<forall>dy \<in> set [-5..5]. \<forall>dx \<in> set [-5..5].
        (let px = w div 2 + dx; py = h div 2 + dy
           in if 0 \<le> px \<and> px < w \<and> 0 \<le> py \<and> py < h then
                (case tile_at tiles px py of
                   Inr t \<Rightarrow> Tile.terrain_type t \<in> set [GRASS, DIRT]
                 | Inl e \<Rightarrow> False)
              else True)"
      unfolding center_block_buildable_def dims Let_def list_all_iff by simp
    from this [rule_format, OF z z] c ta assms(4) show False
      by (simp add: terrain_of_def)
  qed
qed

text \<open>
  Claim C1, evaluated on the code. For any noise with values in [-1, 1] and any local map
  of at least one tile each way, generated from the low-lying temperate-forest region
  with every random draw 0.5, \<open>generate_local_map\<close> returns a map whose centre tile is
  Forest, so the 11 by 11 centre block is not all Grass or Dirt: the centre fix makes the
  tile Grass, and the forest pass, which runs after it, seeds a forest there; smoothing
  and resource placement leave the terrain of that tile alone.
\<close>

theorem local_map_center_forest:
  assumes "\<forall>s a b. - 1 \<le> simplex s a b \<and> simplex s a b \<le> 1"
    and "1 \<le> local_width" "1 \<le> local_height"
  shows "\<exists>tiles. generate_local_map simplex tie_break g marsh_region 0 0 3 3
                    local_width local_height half_stream = Inr (tiles, half_stream) \<and>
           terrain_of tiles (local_width div 2) (local_height div 2) = FOREST \<and>
           \<not> center_block_buildable tiles"
proof -
  let ?w = local_width and ?h = local_height
  let ?chunk = "replicate 9 (hd (hd marsh_region))"
  let ?props = "get_biome_properties TEMPERATE_FOREST"
  have ne: "?chunk \<noteq> []" by simp
  have td: "tree_density ?props = 2 / 5"
    by (simp add: get_biome_properties_def)
  from local_tiles_low [OF assms, of g ?props "0 * 1000" "0 * 1000"
      "sum_list (map moisture ?chunk) / real (length ?chunk)"]
  obtain t0 where t0:
    "for_each (local_row simplex g ?props (0 * 1000) (0 * 1000) 0
        (sum_list (map moisture ?chunk) / real (length ?chunk)) ?w)
       [0..?h - 1] ([], half_stream) = Inr (t0, half_stream)"
    "rect ?w ?h t0" "terrain_of t0 (?w div 2) (?h div 2) \<noteq> DIRT"
    by blast
  from ensure_local_playability_center [OF assms(2,3) t0(2,3)] obtain t1 where t1:
    "ensure_local_playability t0 = Inr t1" "rect ?w ?h t1"
    "terrain_of t1 (?w div 2) (?h div 2) = GRASS"
    by blast
  have dens: "1 / 20 \<le> (2 / 5 :: real)" by simp
  from add_forests_center [OF assms(2,3) t1(2,3) dens] obtain t2 where t2:
    "add_forests t1 (2 / 5) half_stream = Inr (t2, half_stream)" "rect ?w ?h t2"
    "terrain_of t2 (?w div 2) (?h div 2) = FOREST"
    by blast
  from smooth_terrain_center [OF assms(2,3) t2(2,3)] obtain t3 where t3:
    "smooth_terrain t2 = Inr t3" "rect ?w ?h t3"
    "terrain_of t3 (?w div 2) (?h div 2) = FOREST"
    by blast
  from place_resource_nodes_center [OF assms(2,3) t3(2,3)] obtain t4 where t4:
    "place_resource_nodes t3 half_stream = Inr (t4, half_stream)" "rect ?w ?h t4"
    "terrain_of t4 (?w div 2) (?h div 2) = FOREST"
    by blast
  have "generate_local_map simplex tie_break g marsh_region 0 0 3 3 ?w ?h half_stream
           = Inr (t4, half_stream)"
    unfolding generate_local_map_def marsh_chunk
    by (simp only: bind_err_def sum.case ne if_False Let_def marsh_analysis t0(1)
        prod.case t1(1) td t2(1) t3(1) t4(1))
  with t4(3) center_forest_blocks [OF assms(2,3) t4(2,3)] show ?thesis by blast
qed

theorem local_map_center_forest_witness:
  "(\<forall>s a b. - 1 \<le> (\<lambda>s a b. 0::real) s a b \<and> (\<lambda>s a b. 0::real) s a b \<le> 1) \<and>
   (1::int) \<le> 60 \<and>
   (\<exists>tiles. generate_local_map (\<lambda>s a b. 0) hd \<lparr> seed = 12345 \<rparr> marsh_region 0 0 3 3 60 60
               half_stream = Inr (tiles, half_stream) \<and>
            terrain_of tiles (60 div 2) (60 div 2) = FOREST \<and>
            \<not> center_block_buildable tiles)"
proof -
  have b: "\<forall>s a b. - 1 \<le> (\<lambda>s a b. 0::real) s a b \<and> (\<lambda>s a b. 0::real) s a b \<le> 1"
    by simp
  have o: "(1::int) \<le> 60" by simp
  from local_map_center_forest [OF b o o, of hd "\<lparr> seed = 12345 \<rparr>"] show ?thesis
    by simp
qed

text \<open>
  The random generator matters to the lower tiers: the same terrain query answers
  differently under two streams. The world tier draws nothing from it.
\<close>

lemma terrain_draw_matters:
  "fst (get_terrain_from_biome (get_biome_properties TEMPERATE_FOREST) (1 / 2) (7 / 10) (\<lambda>i. 1 / 10))
     \<noteq> fst (get_terrain_from_biome (get_biome_properties TEMPERATE_FOREST) (1 / 2) (7 / 10) (\<lambda>i. 9 / 10))"
  by (simp add: get_terrain_from_biome_def random_random_def get_biome_properties_def)

text \<open>
  Claim C4. Two generators built with the same seed, whatever the state of the random
  generator at either construction or call, produce the same world grid for the same
  width and height, under the one rounding of the machine's arithmetic; a call leaves the
  random generator as it found it, so a second call on the same generator repeats the
  grid; and the tile of each cell is a function of the seed, the size and the cell's
  coordinates alone.
\<close>

theorem world_map_deterministic:
  "fst (generate_world_map rnd simplex (fst (new_generator seeded (Some s) r1)) w h r1')
     = fst (generate_world_map rnd simplex (fst (new_generator seeded (Some s) r2)) w h r2') \<and>
   snd (generate_world_map rnd simplex g w h r) = r \<and>
   fst (generate_world_map rnd simplex g w h (snd (generate_world_map rnd simplex g w h r)))
     = fst (generate_world_map rnd simplex g w h r) \<and>
   length (fst (generate_world_map rnd simplex g w h r)) = nat h \<and>
   (0 \<le> py \<and> py < h \<and> 0 \<le> px \<and> px < w \<longrightarrow>
      fst (generate_world_map rnd simplex g w h r) ! nat py ! nat px
        = world_tile_at rnd simplex g w h px py)"
proof -
  have rows: "[0..h - 1] ! nat py = py" "nat py < length [0..h - 1]" if "0 \<le> py" "py < h"
    using that by simp_all
  have cols: "[0..w - 1] ! nat px = px" "nat px < length [0..w - 1]" if "0 \<le> px" "px < w"
    using that by simp_all
  have cell: "fst (generate_world_map rnd simplex g w h r) ! nat py ! nat px
        = world_tile_at rnd simplex g w h px py"
    if "0 \<le> py" "py < h" "0 \<le> px" "px < w"
    using rows [OF that(1,2)] cols [OF that(3,4)]
    by (simp add: generate_world_map_def)
  show ?thesis
    using cell by (simp add: generate_world_map_def new_generator_def)
qed

theorem world_map_deterministic_witness:
  "fst (generate_world_map (\<lambda>v. v) (\<lambda>s a b. 0) (fst (new_generator (\<lambda>s i. 0) (Some 12345) (\<lambda>i. 1 / 4))) 100 100
          (\<lambda>i. 1 / 2))
     = fst (generate_world_map (\<lambda>v. v) (\<lambda>s a b. 0) (fst (new_generator (\<lambda>s i. 0) (Some 12345) (\<lambda>i. 3 / 4))) 100 100
          (\<lambda>i. 1 / 3)) \<and>
   (0::int) \<le> 50 \<and> (50::int) < 100 \<and>
   fst (generate_world_map (\<lambda>v. v) (\<lambda>s a b. 0) \<lparr> seed = 12345 \<rparr> 100 100 (\<lambda>i. 1 / 2)) ! nat 50 ! nat 50
     = world_tile_at (\<lambda>v. v) (\<lambda>s a b. 0) \<lparr> seed = 12345 \<rparr> 100 100 50 50 \<and>
   WorldTile.biome (world_tile_at (\<lambda>v. v) (\<lambda>s a b. 0) \<lparr> seed = 12345 \<rparr> 100 100 50 50) = TEMPERATE_FOREST"
proof -
  have b: "WorldTile.biome (world_tile_at (\<lambda>v. v) (\<lambda>s a b. 0) \<lparr> seed = 12345 \<rparr> 100 100 50 50)
             = TEMPERATE_FOREST"
    by (simp add: world_tile_at_def generate_elevation_def generate_rainfall_def clamp01_def
        octave_def
        elevation_noise_def temperature_noise_def rainfall_noise_def Let_def
        get_biome_from_climate_def BIOME_DEFINITIONS_def BIOME_ORDER_def climate_step_def
        get_biome_properties_def)
  from world_map_deterministic [of "\<lambda>v. v" "\<lambda>s a b. 0" "\<lambda>s i. 0" 12345 "\<lambda>i. 1 / 4" 100 100 "\<lambda>i. 1 / 2"
      "\<lambda>i. 3 / 4" "\<lambda>i. 1 / 3" "\<lparr> seed = 12345 \<rparr>" "\<lambda>i. 1 / 2" 50 50] b
  show ?thesis by simp
qed

end
